theory Spec2Isabelle
  imports Complex_Main
begin

section \<open>Numbers and rectangles\<close>

text \<open>
  Python floats are modelled as \<^typ>\<open>real\<close> (no rounding), Python ints as \<^typ>\<open>int\<close>.
  \<open>int(x)\<close> on a float truncates toward zero.
\<close>

definition py_int :: "real \<Rightarrow> int" where
  "py_int x = (if 0 \<le> x then \<lfloor>x\<rfloor> else \<lceil>x\<rceil>)"

text \<open>\<open>clamp\<close> and \<open>sign\<close> of slime_platformer.py.\<close>

definition clamp :: "int \<Rightarrow> int \<Rightarrow> int \<Rightarrow> int" where
  "clamp x mn mx = (if x < mn then mn else if x > mx then mx else x)"

definition sign :: "int \<Rightarrow> int" where
  "sign x = (if x < 0 then -1 else if x > 0 then 1 else 0)"

section \<open>Configuration constants (config.py)\<close>

definition GRAVITY :: real where "GRAVITY = 2200"
definition JUMP_STRENGTH :: real where "JUMP_STRENGTH = -900"
definition PLAYER_MOVE_SPEED :: real where "PLAYER_MOVE_SPEED = 480"
definition GAME_SPEED_BASE :: real where "GAME_SPEED_BASE = 220"
definition INVINCIBLE_TIME :: real where "INVINCIBLE_TIME = 1"
definition KNOCKBACK_TIME :: real where "KNOCKBACK_TIME = 22 / 100"
definition KNOCKBACK_SPEED :: real where "KNOCKBACK_SPEED = 680"
definition DASH_SPEED :: real where "DASH_SPEED = 1100"
definition DASH_DURATION :: real where "DASH_DURATION = 25 / 100"
definition DASH_COOLDOWN :: real where "DASH_COOLDOWN = 11 / 10"
definition SCREEN_SHAKE_HIT :: real where "SCREEN_SHAKE_HIT = 25 / 100"
definition SCREEN_SHAKE_KILL :: real where "SCREEN_SHAKE_KILL = 40 / 100"
definition BASE_MAX_HEALTH :: int where "BASE_MAX_HEALTH = 3"
definition LEVEL_UP_EVERY_COINS :: int where "LEVEL_UP_EVERY_COINS = 20"

section \<open>Run progression: the level-up check\<close>

text \<open>
  The LEVEL UP block of the playing frame (slime_platformer.py):
  \<^verbatim>\<open>
  expected_level = 1 + coins_collected_run // LEVEL_UP_EVERY_COINS
  if expected_level > level:
      diff = expected_level - level
      level = expected_level
      for _ in range(diff): spark_particles.extend(spawn_levelup_burst(...))
      shake_timer = SCREEN_SHAKE_KILL
      wstate["boss_wave_spawned"] = False
  \<close>
  The record holds the variables the block reads and writes; \<open>lu_bursts\<close> counts the
  level-up bursts emitted by the block. The level banner and the achievement pop-ups
  of the block do not feed back into these variables and are left out.
\<close>

record levelup_vars =
  lu_coins :: int
  lu_level :: int
  lu_shake_timer :: real
  lu_boss_wave_spawned :: bool
  lu_bursts :: nat

definition level_up_check :: "levelup_vars \<Rightarrow> levelup_vars" where
  "level_up_check v =
     (let expected_level = 1 + lu_coins v div LEVEL_UP_EVERY_COINS in
      if expected_level > lu_level v then
        (let diff = expected_level - lu_level v in
         v\<lparr>lu_level := expected_level,
           lu_bursts := lu_bursts v + nat diff,
           lu_shake_timer := SCREEN_SHAKE_KILL,
           lu_boss_wave_spawned := False\<rparr>)
      else v)"

text \<open>
  The progression variables at the start of a run: \<open>reset_state\<close> (world.py) gives
  \<open>coins_collected_run = 0\<close>, \<open>level = 1\<close>; the level-select screen and the editor's
  play-test then overwrite \<open>wstate["level"] = chosen_level\<close>.
\<close>

definition reset_progress :: levelup_vars where
  "reset_progress = \<lparr>lu_coins = 0, lu_level = 1, lu_shake_timer = 0,
     lu_boss_wave_spawned = False, lu_bursts = 0\<rparr>"

definition level_select_progress :: "int \<Rightarrow> levelup_vars" where
  "level_select_progress chosen_level = reset_progress\<lparr>lu_level := chosen_level\<rparr>"

text \<open>
  One frame as far as coins and level are concerned: the coin pass adds one to
  \<open>coins_collected_run\<close> for each of the \<open>k\<close> coins collected this frame, then the
  level-up check runs. A run is a sequence of frames.
\<close>

definition progress_frame :: "levelup_vars \<Rightarrow> nat \<Rightarrow> levelup_vars" where
  "progress_frame v k = level_up_check (v\<lparr>lu_coins := lu_coins v + int k\<rparr>)"

definition progress_run :: "levelup_vars \<Rightarrow> nat list \<Rightarrow> levelup_vars" where
  "progress_run v ks = foldl progress_frame v ks"

section \<open>Enemy configuration tables (config.py)\<close>

text \<open>
  Dictionaries are association lists in insertion order. An entry read with
  \<open>cfg.get(key, default)\<close> is an optional field; \<open>_apply_overrides\<close> may replace any of
  the tables from config_overrides.json, so the functions below take the tables as a
  record and \<open>shipped_config\<close> holds the values written in config.py.
\<close>

record enemy_cfg =
  spawn_type :: string
  spawn_chance :: "real option"
  damage :: int
  speed :: "real option"

record scaling_cfg =
  level_threshold :: "int option"
  spawn_scale_per_level :: "real option"

record level_enemy_cfg =
  default_enabled_kinds :: "string list option"
  by_level :: "(int \<times> string list option) list"

record behavior_cfg =
  b_type :: "string option"
  amplitude :: "real option"
  frequency :: "real option"
  jump_interval :: "real option"
  jump_force :: "real option"

record config =
  ENEMY_CONFIG :: "(string \<times> enemy_cfg) list"
  ENEMY_BEHAVIOR_CONFIG :: "(string \<times> behavior_cfg) list"
  ENEMY_LEVEL_SCALING :: "(string \<times> scaling_cfg) list"
  LEVEL_ENEMY_CONFIG :: level_enemy_cfg

definition shipped_ENEMY_CONFIG :: "(string \<times> enemy_cfg) list" where
  "shipped_ENEMY_CONFIG =
    [(''walker'', \<lparr>spawn_type = ''platform'', spawn_chance = Some 0, damage = 1, speed = Some 140\<rparr>),
     (''flyer'', \<lparr>spawn_type = ''air'', spawn_chance = Some (8 / 100), damage = 1, speed = Some 180\<rparr>),
     (''jumper'', \<lparr>spawn_type = ''ground'', spawn_chance = Some (4 / 100), damage = 2, speed = Some 160\<rparr>),
     (''brute'', \<lparr>spawn_type = ''ground'', spawn_chance = Some 0, damage = 3, speed = Some 110\<rparr>),
     (''swift'', \<lparr>spawn_type = ''ground'', spawn_chance = Some 0, damage = 1, speed = Some 220\<rparr>)]"

definition shipped_ENEMY_BEHAVIOR_CONFIG :: "(string \<times> behavior_cfg) list" where
  "shipped_ENEMY_BEHAVIOR_CONFIG =
    [(''walker'', \<lparr>b_type = Some ''patrol'', amplitude = None, frequency = None,
        jump_interval = None, jump_force = None\<rparr>),
     (''flyer'', \<lparr>b_type = Some ''sine_fly'', amplitude = Some 40, frequency = Some (14 / 10),
        jump_interval = None, jump_force = None\<rparr>),
     (''jumper'', \<lparr>b_type = Some ''jump'', amplitude = None, frequency = None,
        jump_interval = Some 2, jump_force = Some (- 750)\<rparr>),
     (''brute'', \<lparr>b_type = Some ''patrol'', amplitude = None, frequency = None,
        jump_interval = None, jump_force = None\<rparr>),
     (''swift'', \<lparr>b_type = Some ''patrol'', amplitude = None, frequency = None,
        jump_interval = None, jump_force = None\<rparr>)]"

definition shipped_config :: config where
  "shipped_config =
    \<lparr>ENEMY_CONFIG = shipped_ENEMY_CONFIG,
     ENEMY_BEHAVIOR_CONFIG = shipped_ENEMY_BEHAVIOR_CONFIG,
     ENEMY_LEVEL_SCALING =
       [(''walker'', \<lparr>level_threshold = Some 3, spawn_scale_per_level = Some (12 / 100)\<rparr>),
        (''flyer'', \<lparr>level_threshold = Some 4, spawn_scale_per_level = Some (15 / 100)\<rparr>)],
     LEVEL_ENEMY_CONFIG =
       \<lparr>default_enabled_kinds = Some [''walker'', ''flyer'', ''jumper''],
        by_level =
          [(1, Some [''walker'']),
           (2, Some [''walker'', ''flyer'']),
           (3, Some [''walker'', ''flyer'', ''jumper''])]\<rparr>\<rparr>"

section \<open>Enemy logic helpers (enemy_logic.py)\<close>

text \<open>\<open>k in ENEMY_CONFIG\<close>.\<close>

definition in_enemy_config :: "config \<Rightarrow> string \<Rightarrow> bool" where
  "in_enemy_config c k = (map_of (ENEMY_CONFIG c) k \<noteq> None)"

text \<open>
  \<open>get_enabled_enemy_kinds\<close>: the per-level list when the level has a non-empty one,
  otherwise the default list (all keys of \<open>ENEMY_CONFIG\<close> when there is none); either way
  filtered to the kinds present in \<open>ENEMY_CONFIG\<close>.
\<close>

definition get_enabled_enemy_kinds :: "config \<Rightarrow> int \<Rightarrow> string list" where
  "get_enabled_enemy_kinds c lvl =
     (let fallback =
            (case default_enabled_kinds (LEVEL_ENEMY_CONFIG c) of
               Some kinds \<Rightarrow> filter (in_enemy_config c) kinds
             | None \<Rightarrow> filter (in_enemy_config c) (map fst (ENEMY_CONFIG c)))
      in case map_of (by_level (LEVEL_ENEMY_CONFIG c)) lvl of
           Some (Some kinds) \<Rightarrow>
             (if kinds \<noteq> [] then filter (in_enemy_config c) kinds else fallback)
         | _ \<Rightarrow> fallback)"

text \<open>
  \<open>get_base_spawn_weight\<close>:
  \<^verbatim>\<open>
  cfg = ENEMY_CONFIG.get(kind, {})
  base = cfg.get("spawn_chance", 0.05)
  return float(base) if base > 0 else 0.02
  \<close>
\<close>

definition get_base_spawn_weight :: "config \<Rightarrow> string \<Rightarrow> real" where
  "get_base_spawn_weight c kind =
     (let base = (case map_of (ENEMY_CONFIG c) kind of
                    None \<Rightarrow> 5 / 100
                  | Some cfg \<Rightarrow> (case spawn_chance cfg of None \<Rightarrow> 5 / 100 | Some b \<Rightarrow> b))
      in if base > 0 then base else 2 / 100)"

text \<open>\<open>get_level_scaled_spawn_weight\<close>. An empty scaling entry is falsy in the source and
  returns the base weight; with both fields absent the defaults (threshold 1, scale 0.0)
  give the same result.\<close>

definition get_level_scaled_spawn_weight :: "config \<Rightarrow> string \<Rightarrow> int \<Rightarrow> real" where
  "get_level_scaled_spawn_weight c kind lvl =
     (let base = get_base_spawn_weight c kind in
      case map_of (ENEMY_LEVEL_SCALING c) kind of
        None \<Rightarrow> base
      | Some scfg \<Rightarrow>
          (let threshold = (case level_threshold scfg of None \<Rightarrow> 1 | Some t \<Rightarrow> t);
               per_level = (case spawn_scale_per_level scfg of None \<Rightarrow> 0 | Some p \<Rightarrow> p)
           in if lvl \<le> threshold \<or> per_level \<le> 0 then base
              else (let extra_levels = max 0 (lvl - threshold)
                    in base * (1 + real_of_int extra_levels * per_level))))"

text \<open>\<open>build_spawn_table\<close>: the loop over the enabled kinds, appending \<open>(k, w)\<close> when
  \<open>w > 0\<close>.\<close>

fun spawn_table_loop :: "config \<Rightarrow> int \<Rightarrow> string list \<Rightarrow> (string \<times> real) list" where
  "spawn_table_loop c lvl [] = []"
| "spawn_table_loop c lvl (k # ks) =
     (let w = get_level_scaled_spawn_weight c k lvl in
      if w > 0 then (k, w) # spawn_table_loop c lvl ks else spawn_table_loop c lvl ks)"

definition build_spawn_table :: "config \<Rightarrow> int \<Rightarrow> (string \<times> real) list" where
  "build_spawn_table c lvl = spawn_table_loop c lvl (get_enabled_enemy_kinds c lvl)"

text \<open>
  \<open>pick_enemy_kind\<close>. The argument \<open>u\<close> is the value returned by the call \<open>rng()\<close>
  (\<open>random.random\<close> returns a float in \<open>[0, 1)\<close>). \<open>pick_loop\<close> is the accumulation loop;
  it yields \<open>None\<close> when the loop ends without returning, in which case the source
  returns the last kind of the table.
\<close>

fun pick_loop :: "real \<Rightarrow> real \<Rightarrow> (string \<times> real) list \<Rightarrow> string option" where
  "pick_loop r acc [] = None"
| "pick_loop r acc ((kind, w) # rest) =
     (let acc' = acc + w in if r \<le> acc' then Some kind else pick_loop r acc' rest)"

definition pick_enemy_kind :: "config \<Rightarrow> int \<Rightarrow> real \<Rightarrow> string option" where
  "pick_enemy_kind c lvl u =
     (let table = build_spawn_table c lvl in
      if table = [] then None
      else (let total = sum_list (map snd table) in
            if total \<le> 0 then None
            else (let r = u * total in
                  case pick_loop r 0 table of
                    Some kind \<Rightarrow> Some kind
                  | None \<Rightarrow> Some (fst (last table)))))"

section \<open>Rectangles (pygame.Rect)\<close>

text \<open>
  A \<open>pygame.Rect\<close> holds four integers. The derived attributes follow pygame:
  \<open>right = x + w\<close>, \<open>bottom = y + h\<close>, \<open>centerx = x + (w >> 1)\<close>, and assigning to one
  of them moves the rectangle without resizing it. \<open>colliderect\<close> is pygame 2's test:
  rectangles of zero width or height collide with nothing, otherwise the open
  intervals must overlap on both axes.
\<close>

record rect =
  rx :: int
  ry :: int
  rw :: int
  rh :: int

definition Rect :: "int \<Rightarrow> int \<Rightarrow> int \<Rightarrow> int \<Rightarrow> rect" where
  "Rect x y w h = \<lparr>rx = x, ry = y, rw = w, rh = h\<rparr>"

definition left :: "rect \<Rightarrow> int" where "left r = rx r"
definition top :: "rect \<Rightarrow> int" where "top r = ry r"
definition right :: "rect \<Rightarrow> int" where "right r = rx r + rw r"
definition bottom :: "rect \<Rightarrow> int" where "bottom r = ry r + rh r"
definition centerx :: "rect \<Rightarrow> int" where "centerx r = rx r + rw r div 2"
definition centery :: "rect \<Rightarrow> int" where "centery r = ry r + rh r div 2"

definition set_bottom :: "rect \<Rightarrow> int \<Rightarrow> rect" where
  "set_bottom r v = r\<lparr>ry := v - rh r\<rparr>"

definition set_centery :: "rect \<Rightarrow> int \<Rightarrow> rect" where
  "set_centery r v = r\<lparr>ry := v - rh r div 2\<rparr>"

definition set_center :: "rect \<Rightarrow> int \<times> int \<Rightarrow> rect" where
  "set_center r c = r\<lparr>rx := fst c - rw r div 2, ry := snd c - rh r div 2\<rparr>"

definition set_midbottom :: "rect \<Rightarrow> int \<times> int \<Rightarrow> rect" where
  "set_midbottom r c = r\<lparr>rx := fst c - rw r div 2, ry := snd c - rh r\<rparr>"

definition colliderect :: "rect \<Rightarrow> rect \<Rightarrow> bool" where
  "colliderect a b =
     (if rw a = 0 \<or> rh a = 0 \<or> rw b = 0 \<or> rh b = 0 then False
      else min (rx a) (rx a + rw a) < max (rx b) (rx b + rw b)
         \<and> min (ry a) (ry a + rh a) < max (ry b) (ry b + rh b)
         \<and> max (rx a) (rx a + rw a) > min (rx b) (rx b + rw b)
         \<and> max (ry a) (ry a + rh a) > min (ry b) (ry b + rh b))"

section \<open>Entities (world.py)\<close>

text \<open>
  Platforms and enemies are dictionaries in the source. Every constructor in the
  repository sets the keys below, except \<open>jump_cooldown\<close>, which only
  \<open>spawn_ground_enemy\<close> sets: it is an optional field. \<open>e_remove\<close> is the transient
  \<open>remove\<close> flag.
\<close>

record platform =
  p_rect :: rect
  p_type :: string
  p_vx :: real
  p_vy :: real
  fall_started :: bool
  fall_timer :: real
  fragile_hits :: int
  p_depth :: real

record enemy =
  e_kind :: string
  e_rect :: rect
  e_vx :: real
  e_vy :: real
  e_t :: real
  e_state :: string
  e_base_y :: real
  jump_cooldown :: "real option"
  e_remove :: bool

datatype py_error = KeyError | TypeError | ValueError | OverflowError

text \<open>\<open>random.uniform(a, b)\<close> computes \<open>a + (b - a) * random()\<close>; \<open>u\<close> is that draw.\<close>

definition py_uniform :: "real \<Rightarrow> real \<Rightarrow> real \<Rightarrow> real" where
  "py_uniform a b u = a + (b - a) * u"

section \<open>Settings, screen and input (slime_platformer.py)\<close>

text \<open>
  The values the playing frame reads from \<open>settings\<close>, \<open>save_data["upgrades"]\<close>, the
  screen set-up and \<open>PLATFORM_TYPE_CONFIG\<close>, and the input flags of the frame.
\<close>

record settings =
  move_speed_mult :: real
  jump_mult :: real
  gravity_mult :: real
  game_speed_mult :: real
  enemy_spawn_mult :: real
  enemy_damage_mult :: real
  double_jump :: bool

record screen =
  screen_w :: int
  screen_h :: int
  scale_factor :: real

record platform_type_config =
  bounce_mult :: real
  fall_delay :: real
  hits_to_break :: int

definition shipped_platform_config :: platform_type_config where
  "shipped_platform_config = \<lparr>bounce_mult = 14 / 10, fall_delay = 4 / 10, hits_to_break = 1\<rparr>"

text \<open>
  The input flags are loop variables of \<open>main\<close>: a KEYDOWN event of the bound key sets
  the flag, a KEYUP event clears it, and the playing frame reads the flag as it is.
  \<^verbatim>\<open>
  elif action_down_kb("jump", event.key, kb_cfg): jump_down = True    # KEYDOWN
  elif action_down_kb("jump", event.key, kb_cfg): jump_down = False   # KEYUP
  \<close>
\<close>

datatype key_event = KEYDOWN_jump | KEYUP_jump

fun handle_jump_event :: "bool \<Rightarrow> key_event \<Rightarrow> bool" where
  "handle_jump_event jump_down KEYDOWN_jump = True"
| "handle_jump_event jump_down KEYUP_jump = False"

definition handle_events :: "bool \<Rightarrow> key_event list \<Rightarrow> bool" where
  "handle_events jump_down evs = foldl handle_jump_event jump_down evs"

record inputs =
  move_left_down :: bool
  move_right_down :: bool
  jump_down :: bool
  dash_down :: bool
  dt_scaled :: real

section \<open>The player's variables in the playing frame\<close>

text \<open>
  The playing frame of \<open>main\<close> copies the run state into local variables, updates them
  block by block and writes them back. The record holds the ones that concern the
  player; each block below is a function on it.
\<close>

record pvars =
  player_rect :: rect
  player_vel_y :: real
  on_ground :: bool
  jump_count :: int
  health :: int
  max_health :: int
  took_damage :: bool
  inv_timer :: real
  knock_timer :: real
  knock_dx :: real
  dash_timer :: real
  dash_cooldown :: real
  dash_dir :: int
  shake_timer :: real

text \<open>\<open>reset_state\<close> (world.py), for these variables, with the player's rectangle.\<close>

definition reset_state :: "rect \<Rightarrow> int \<Rightarrow> pvars" where
  "reset_state r mh =
     \<lparr>player_rect = r, player_vel_y = 0, on_ground = False, jump_count = 0,
      health = mh, max_health = mh, took_damage = False, inv_timer = 0,
      knock_timer = 0, knock_dx = 0, dash_timer = 0, dash_cooldown = 0, dash_dir = 1,
      shake_timer = 0\<rparr>"

section \<open>Player controller: jump, gravity, motion and ground\<close>

text \<open>
  The Jump block:
  \<^verbatim>\<open>
  if jump_down:
      if on_ground:
          player_vel_y = JUMP_STRENGTH * settings["jump_mult"]
          on_ground = False
          wstate["jump_count"] = 1
      else:
          if save_data["upgrades"]["double_jump"] and wstate["jump_count"] == 1:
              player_vel_y = JUMP_STRENGTH * 0.9 * settings["jump_mult"]
              wstate["jump_count"] = 2
  \<close>
\<close>

definition jump_section :: "bool \<Rightarrow> bool \<Rightarrow> real \<Rightarrow> pvars \<Rightarrow> pvars" where
  "jump_section jd dj jm v =
     (if jd then
        (if on_ground v then
           v\<lparr>player_vel_y := JUMP_STRENGTH * jm, on_ground := False, jump_count := 1\<rparr>
         else if dj \<and> jump_count v = 1 then
           v\<lparr>player_vel_y := JUMP_STRENGTH * (9 / 10) * jm, jump_count := 2\<rparr>
         else v)
      else v)"

text \<open>
  Gravity: \<open>player_vel_y += GRAVITY * gravity_mult * dt_scaled\<close>,
  \<open>player_rect.y += int(player_vel_y * dt_scaled)\<close>.
\<close>

definition gravity_section :: "real \<Rightarrow> real \<Rightarrow> pvars \<Rightarrow> pvars" where
  "gravity_section gm dt v =
     (let vel = player_vel_y v + GRAVITY * gm * dt;
          r = player_rect v
      in v\<lparr>player_vel_y := vel, player_rect := r\<lparr>ry := ry r + py_int (vel * dt)\<rparr>\<rparr>)"

text \<open>
  \<^verbatim>\<open>
  move_x = 0
  if move_left_down: move_x -= 1
  if move_right_down: move_x += 1
  if move_x != 0: move_x *= PLAYER_MOVE_SPEED * settings["move_speed_mult"] * dt_scaled
  \<close>
\<close>

definition move_x_of :: "bool \<Rightarrow> bool \<Rightarrow> real \<Rightarrow> real \<Rightarrow> real" where
  "move_x_of ml mr msm dt =
     (let m0 = (if ml then -1 else 0);
          m1 = (if mr then m0 + 1 else m0)
      in if m1 \<noteq> 0 then m1 * (PLAYER_MOVE_SPEED * msm * dt) else m1)"

text \<open>
  Dash, regular x-movement and the clamp:
  \<^verbatim>\<open>
  dash_active = dash_timer > 0.0
  if dash_active:
      player_rect.x += int(dash_dir * DASH_SPEED * dt_scaled)
      dash_timer -= dt_scaled
  else:
      if dash_down and dash_cooldown <= 0.0:
          dash_timer = DASH_DURATION
          dash_cooldown = DASH_COOLDOWN
          dash_dir = -1 if move_x < 0 else 1 if move_x > 0 else 1
  dash_cooldown -= dt_scaled
  if dash_cooldown < 0: dash_cooldown = 0
  player_rect.x += int(move_x)
  player_rect.x = clamp(player_rect.x, int(40 * scale_factor), screen_w - player_rect.width)
  \<close>
\<close>

definition set_x :: "int \<Rightarrow> pvars \<Rightarrow> pvars" where
  "set_x x v = v\<lparr>player_rect := (player_rect v)\<lparr>rx := x\<rparr>\<rparr>"

definition move_section :: "bool \<Rightarrow> real \<Rightarrow> real \<Rightarrow> screen \<Rightarrow> pvars \<Rightarrow> pvars" where
  "move_section dd move_x dt scr v =
     (let v1 = (if dash_timer v > 0 then
                  (set_x (rx (player_rect v)
                           + py_int (real_of_int (dash_dir v) * DASH_SPEED * dt)) v)
                    \<lparr>dash_timer := dash_timer v - dt\<rparr>
                else if dd \<and> dash_cooldown v \<le> 0 then
                  v\<lparr>dash_timer := DASH_DURATION, dash_cooldown := DASH_COOLDOWN,
                    dash_dir := (if move_x < 0 then -1 else if move_x > 0 then 1 else 1)\<rparr>
                else v);
          cd = dash_cooldown v1 - dt;
          v2 = v1\<lparr>dash_cooldown := (if cd < 0 then 0 else cd)\<rparr>;
          v3 = set_x (rx (player_rect v2) + py_int move_x) v2
      in set_x (clamp (rx (player_rect v3)) (py_int (40 * scale_factor scr))
                  (screen_w scr - rw (player_rect v3))) v3)"

text \<open>
  Collision with ground (\<open>GROUND_Y_RATIO = 0.8\<close>):
  \<^verbatim>\<open>
  ground_y = int(screen_h * config.GROUND_Y_RATIO) - player_rect.height
  if player_rect.y >= ground_y:
      player_rect.y = ground_y; on_ground = True; player_vel_y = 0
  else:
      on_ground = False
  \<close>
\<close>

definition ground_section :: "screen \<Rightarrow> pvars \<Rightarrow> pvars" where
  "ground_section scr v =
     (let r = player_rect v;
          ground_y = py_int (real_of_int (screen_h scr) * (8 / 10)) - rh r in
      if ry r \<ge> ground_y then
        v\<lparr>player_rect := r\<lparr>ry := ground_y\<rparr>, on_ground := True, player_vel_y := 0\<rparr>
      else v\<lparr>on_ground := False\<rparr>)"

text \<open>The player-movement part of the frame, in the order of the source.\<close>

definition player_movement :: "settings \<Rightarrow> screen \<Rightarrow> inputs \<Rightarrow> pvars \<Rightarrow> pvars" where
  "player_movement st scr inp v =
     (let move_x = move_x_of (move_left_down inp) (move_right_down inp)
                     (move_speed_mult st) (dt_scaled inp);
          v1 = jump_section (jump_down inp) (double_jump st) (jump_mult st) v;
          v2 = gravity_section (gravity_mult st) (dt_scaled inp) v1;
          v3 = move_section (dash_down inp) move_x (dt_scaled inp) scr v2
      in ground_section scr v3)"

section \<open>Platforms: update pass and standing\<close>

text \<open>
  The platform update pass. A platform reaches \<open>new_plats\<close> unless it is a fragile
  platform whose hit counter has reached \<open>hits_to_break\<close>, or it has left the screen:
  \<^verbatim>\<open>
  for p in plats_list:
      r = p["rect"]
      r.x -= int((GAME_SPEED_BASE * settings["game_speed_mult"]) * dt_scaled)
      r.x += int(p["vx"] * dt_scaled)
      if p["type"] == "fall":
          if p["fall_started"]:
              p["fall_timer"] += dt_scaled
              if p["fall_timer"] > PLATFORM_TYPE_CONFIG["fall"]["fall_delay"]:
                  p["vy"] += GRAVITY * 0.9 * dt_scaled
                  r.y += int(p["vy"] * dt_scaled)
      if p["type"] == "fragile":
          if p["fragile_hits"] >= PLATFORM_TYPE_CONFIG["fragile"]["hits_to_break"]:
              continue
      if r.right < -200 or r.top > screen_h + 200:
          continue
      new_plats.append(p)
  \<close>
\<close>

definition move_platform :: "platform_type_config \<Rightarrow> real \<Rightarrow> real \<Rightarrow> platform \<Rightarrow> platform" where
  "move_platform pc gsm dt p =
     (let r0 = p_rect p;
          r1 = r0\<lparr>rx := rx r0 - py_int ((GAME_SPEED_BASE * gsm) * dt)\<rparr>;
          r2 = r1\<lparr>rx := rx r1 + py_int (p_vx p * dt)\<rparr>;
          p1 = p\<lparr>p_rect := r2\<rparr>
      in if p_type p1 = ''fall'' \<and> fall_started p1 then
           (let p2 = p1\<lparr>fall_timer := fall_timer p1 + dt\<rparr> in
            if fall_timer p2 > fall_delay pc then
              (let vy = p_vy p2 + GRAVITY * (9 / 10) * dt in
               p2\<lparr>p_vy := vy, p_rect := r2\<lparr>ry := ry r2 + py_int (vy * dt)\<rparr>\<rparr>)
            else p2)
         else p1)"

fun platforms_update ::
  "platform_type_config \<Rightarrow> real \<Rightarrow> real \<Rightarrow> screen \<Rightarrow> platform list \<Rightarrow> platform list" where
  "platforms_update pc gsm dt scr [] = []"
| "platforms_update pc gsm dt scr (p # ps) =
     (let p' = move_platform pc gsm dt p in
      if p_type p' = ''fragile'' \<and> fragile_hits p' \<ge> hits_to_break pc then
        platforms_update pc gsm dt scr ps
      else if right (p_rect p') < -200 \<or> top (p_rect p') > screen_h scr + 200 then
        platforms_update pc gsm dt scr ps
      else p' # platforms_update pc gsm dt scr ps)"

text \<open>
  Standing on a platform. \<open>lands_on\<close> is the condition of the source, \<open>stand_on_platform\<close>
  the loop body (the dust burst is left out), \<open>stand_on_platforms\<close> the loop, which
  keeps every platform in the list:
  \<^verbatim>\<open>
  for p in plats_list:
      r = p["rect"]
      if (player_rect.bottom <= r.top + 10 and player_rect.bottom >= r.top - 15 and
              r.left < player_rect.centerx < r.right and player_vel_y >= 0):
          player_rect.bottom = r.top
          player_vel_y = 0
          on_ground = True
          if p["type"] == "bounce":
              player_vel_y = JUMP_STRENGTH * PLATFORM_TYPE_CONFIG["bounce"]["bounce_mult"]
          elif p["type"] == "fall":
              p["fall_started"] = True
          elif p["type"] == "fragile":
              p["fragile_hits"] += 1
  \<close>
\<close>

definition lands_on :: "pvars \<Rightarrow> platform \<Rightarrow> bool" where
  "lands_on v p =
     (let r = p_rect p; pr = player_rect v in
      bottom pr \<le> top r + 10 \<and> bottom pr \<ge> top r - 15 \<and>
      left r < centerx pr \<and> centerx pr < right r \<and> player_vel_y v \<ge> 0)"

definition stand_on_platform ::
  "platform_type_config \<Rightarrow> pvars \<Rightarrow> platform \<Rightarrow> pvars \<times> platform" where
  "stand_on_platform pc v p =
     (if lands_on v p then
        (let v1 = v\<lparr>player_rect := set_bottom (player_rect v) (top (p_rect p)),
                   player_vel_y := 0, on_ground := True\<rparr>
         in if p_type p = ''bounce'' then (v1\<lparr>player_vel_y := JUMP_STRENGTH * bounce_mult pc\<rparr>, p)
            else if p_type p = ''fall'' then (v1, p\<lparr>fall_started := True\<rparr>)
            else if p_type p = ''fragile'' then (v1, p\<lparr>fragile_hits := fragile_hits p + 1\<rparr>)
            else (v1, p))
      else (v, p))"

fun stand_on_platforms ::
  "platform_type_config \<Rightarrow> pvars \<Rightarrow> platform list \<Rightarrow> pvars \<times> platform list" where
  "stand_on_platforms pc v [] = (v, [])"
| "stand_on_platforms pc v (p # ps) =
     (let (v1, p') = stand_on_platform pc v p;
          (v2, ps') = stand_on_platforms pc v1 ps
      in (v2, p' # ps'))"

text \<open>The platform part of one frame: the update pass, then the standing pass.\<close>

definition platforms_frame ::
  "platform_type_config \<Rightarrow> settings \<Rightarrow> screen \<Rightarrow> real \<Rightarrow> pvars \<times> platform list
     \<Rightarrow> pvars \<times> platform list" where
  "platforms_frame pc st scr dt s =
     stand_on_platforms pc (fst s) (platforms_update pc (game_speed_mult st) dt scr (snd s))"

section \<open>Damage, knockback and death\<close>

text \<open>
  The damage block. \<open>config.ENEMY_CONFIG[e["kind"]]\<close> raises KeyError for a kind that
  is not in the table. \<open>wdm\<close> is \<open>world_enemy_damage_mult\<close>.
  \<^verbatim>\<open>
  if inv_timer > 0:
      inv_timer -= dt_scaled
  else:
      for e in enemies_list:
          if e["rect"].colliderect(player_rect):
              dmg = config.ENEMY_CONFIG[e["kind"]]["damage"]
              dmg = int(dmg * settings["enemy_damage_mult"] * world_enemy_damage_mult)
              health -= dmg
              wstate["took_damage"] = True
              inv_timer = INVINCIBLE_TIME
              knock_timer = KNOCKBACK_TIME
              knock_dx = -KNOCKBACK_SPEED * scale_factor
                           * sign(player_rect.centerx - e["rect"].centerx)
              shake_timer = SCREEN_SHAKE_HIT
  \<close>
\<close>

definition hit_by :: "real \<Rightarrow> real \<Rightarrow> real \<Rightarrow> enemy_cfg \<Rightarrow> enemy \<Rightarrow> pvars \<Rightarrow> pvars" where
  "hit_by edm wdm sf cfg e v =
     (let dmg = py_int (real_of_int (damage cfg) * edm * wdm) in
      v\<lparr>health := health v - dmg,
        took_damage := True,
        inv_timer := INVINCIBLE_TIME,
        knock_timer := KNOCKBACK_TIME,
        knock_dx := - KNOCKBACK_SPEED * sf
                      * real_of_int (sign (centerx (player_rect v) - centerx (e_rect e))),
        shake_timer := SCREEN_SHAKE_HIT\<rparr>)"

fun damage_loop ::
  "config \<Rightarrow> real \<Rightarrow> real \<Rightarrow> real \<Rightarrow> enemy list \<Rightarrow> pvars \<Rightarrow> py_error + pvars" where
  "damage_loop c edm wdm sf [] v = Inr v"
| "damage_loop c edm wdm sf (e # es) v =
     (if colliderect (e_rect e) (player_rect v) then
        (case map_of (ENEMY_CONFIG c) (e_kind e) of
           None \<Rightarrow> Inl KeyError
         | Some cfg \<Rightarrow> damage_loop c edm wdm sf es (hit_by edm wdm sf cfg e v))
      else damage_loop c edm wdm sf es v)"

definition damage_section ::
  "config \<Rightarrow> real \<Rightarrow> real \<Rightarrow> real \<Rightarrow> real \<Rightarrow> enemy list \<Rightarrow> pvars \<Rightarrow> py_error + pvars" where
  "damage_section c edm wdm sf dt es v =
     (if inv_timer v > 0 then Inr (v\<lparr>inv_timer := inv_timer v - dt\<rparr>)
      else damage_loop c edm wdm sf es v)"

text \<open>
  Knockback, which runs after the damage block, later in the same frame than the
  clamp of the move section:
  \<^verbatim>\<open>
  if knock_timer > 0:
      player_rect.x += int(knock_dx * dt_scaled)
      knock_timer -= dt_scaled
  \<close>
\<close>

definition knockback_section :: "real \<Rightarrow> pvars \<Rightarrow> pvars" where
  "knockback_section dt v =
     (if knock_timer v > 0 then
        (set_x (rx (player_rect v) + py_int (knock_dx v * dt)) v)
          \<lparr>knock_timer := knock_timer v - dt\<rparr>
      else v)"

text \<open>
  The game state and a whole playing frame for the player's variables and the
  platforms. The block \<open>if game_state == "playing"\<close> runs the sections in the order of
  the source; \<open>es\<close> is \<open>enemies_list\<close> as the damage block sees it (after spawning and
  \<open>update_enemies\<close>). The KILL block ends the frame: \<open>if health <= 0: ... game_state =
  "game_over"\<close>. In any other game state the block does not run. The count-down of
  \<open>shake_timer\<close> happens outside the block and is not part of it.
\<close>

datatype game_state = Playing | Game_over

record run =
  run_game_state :: game_state
  run_vars :: pvars
  run_platforms :: "platform list"

record frame_env =
  env_config :: config
  env_platform_config :: platform_type_config
  env_settings :: settings
  env_screen :: screen
  env_world_damage_mult :: real

definition playing_frame :: "frame_env \<Rightarrow> inputs \<Rightarrow> enemy list \<Rightarrow> run \<Rightarrow> py_error + run" where
  "playing_frame env inp es s =
     (if run_game_state s \<noteq> Playing then Inr s
      else
        (let st = env_settings env; scr = env_screen env; dt = dt_scaled inp;
             v1 = player_movement st scr inp (run_vars s);
             (v2, plats) = platforms_frame (env_platform_config env) st scr dt
                             (v1, run_platforms s)
         in case damage_section (env_config env) (enemy_damage_mult st)
                   (env_world_damage_mult env) (scale_factor scr) dt es v2 of
              Inl err \<Rightarrow> Inl err
            | Inr v3 \<Rightarrow>
                (let v4 = knockback_section dt v3 in
                 Inr \<lparr>run_game_state = (if health v4 \<le> 0 then Game_over else Playing),
                      run_vars = v4, run_platforms = plats\<rparr>)))"

text \<open>A run: one frame per element, each with its input flags and its enemy list.\<close>

fun play :: "frame_env \<Rightarrow> (inputs \<times> enemy list) list \<Rightarrow> run \<Rightarrow> py_error + run" where
  "play env [] s = Inr s"
| "play env (f # fs) s =
     (case playing_frame env (fst f) (snd f) s of
        Inl err \<Rightarrow> Inl err
      | Inr s' \<Rightarrow> play env fs s')"

definition new_run :: "rect \<Rightarrow> int \<Rightarrow> platform list \<Rightarrow> run" where
  "new_run r mh plats =
     \<lparr>run_game_state = Playing, run_vars = reset_state r mh, run_platforms = plats\<rparr>"

section \<open>A concrete set-up\<close>

text \<open>
  The reference resolution 1920x1080 (\<open>scale_factor = 1\<close>), every multiplier at 1.0, no
  upgrade owned, the shipped tables, and the player's rectangle as \<open>main\<close> creates it:
  \<open>Rect(int(screen_w * 0.15), int(screen_h * 0.5) - player_h // 2, 80, 80)\<close>.
\<close>

definition example_screen :: screen where
  "example_screen = \<lparr>screen_w = 1920, screen_h = 1080, scale_factor = 1\<rparr>"

definition example_settings :: settings where
  "example_settings = \<lparr>move_speed_mult = 1, jump_mult = 1, gravity_mult = 1,
     game_speed_mult = 1, enemy_spawn_mult = 1, enemy_damage_mult = 1, double_jump = False\<rparr>"

definition example_env :: frame_env where
  "example_env = \<lparr>env_config = shipped_config,
     env_platform_config = shipped_platform_config, env_settings = example_settings,
     env_screen = example_screen, env_world_damage_mult = 1\<rparr>"

definition start_rect :: rect where
  "start_rect = Rect 288 500 80 80"

text \<open>No key down, at 60 frames per second.\<close>

definition idle :: inputs where
  "idle = \<lparr>move_left_down = False, move_right_down = False, jump_down = False,
     dash_down = False, dt_scaled = 1 / 60\<rparr>"

text \<open>
  The jump key went down before the run's first frame (key events set the flag in
  every game state, the menu included) and no further key event arrives: the flag of
  every frame is the flag after the press, with an empty event list. Frames of 1/30 s.
\<close>

definition held_jump :: inputs where
  "held_jump = \<lparr>move_left_down = False, move_right_down = False,
     jump_down = handle_events (handle_events False [KEYDOWN_jump]) [],
     dash_down = False, dt_scaled = 1 / 30\<rparr>"

text \<open>The player's variables of a fresh run with the player in the air at height \<open>y\<close>,
  falling at \<open>vel\<close>.\<close>

definition airborne :: "int \<Rightarrow> real \<Rightarrow> pvars" where
  "airborne y vel = (reset_state (Rect 288 y 80 80) 3)\<lparr>player_vel_y := vel\<rparr>"

text \<open>The player's variables with the player standing on the ground line at \<open>x\<close>.\<close>

definition standing :: "int \<Rightarrow> int \<Rightarrow> pvars" where
  "standing x hp = (reset_state (Rect x 784 80 80) 3)\<lparr>on_ground := True, health := hp\<rparr>"

definition enemy_at :: "string \<Rightarrow> rect \<Rightarrow> enemy" where
  "enemy_at k r = \<lparr>e_kind = k, e_rect = r, e_vx = 0, e_vy = 0, e_t = 0, e_state = ''idle'',
     e_base_y = real_of_int (centery r), jump_cooldown = None, e_remove = False\<rparr>"

definition fragile_platform :: "rect \<Rightarrow> platform" where
  "fragile_platform r = \<lparr>p_rect = r, p_type = ''fragile'', p_vx = 0, p_vy = 0,
     fall_started = False, fall_timer = 0, fragile_hits = 0, p_depth = 1\<rparr>"


section \<open>The damage step as the specification words it\<close>

text \<open>
  The enemies whose rectangle intersects the player's, and the damage of one hit as
  the specification gives it: \<open>floor(kind.damage * enemy_damage_mult *
  world_enemy_damage_mult)\<close>. These two follow the specification; the results compare
  them with \<open>damage_section\<close>.
\<close>

definition overlapping :: "pvars \<Rightarrow> enemy list \<Rightarrow> enemy list" where
  "overlapping v es = filter (\<lambda>e. colliderect (e_rect e) (player_rect v)) es"

definition spec_damage :: "config \<Rightarrow> real \<Rightarrow> real \<Rightarrow> enemy \<Rightarrow> int" where
  "spec_damage c edm wdm e =
     (case map_of (ENEMY_CONFIG c) (e_kind e) of
        Some cfg \<Rightarrow> \<lfloor>real_of_int (damage cfg) * edm * wdm\<rfloor>
      | None \<Rightarrow> 0)"


section \<open>Enemy spawning (world.py)\<close>

text \<open>
  \<open>enemy_sprites\<close> maps a kind to its image, of which only the size is used; a kind with
  no image gets the square placeholder of side \<open>int(48 * scale_factor)\<close>.
\<close>

type_synonym sprites = "string \<Rightarrow> (int \<times> int) option"

definition make_enemy_rect :: "string \<Rightarrow> sprites \<Rightarrow> real \<Rightarrow> rect" where
  "make_enemy_rect kind enemy_sprites sf =
     (case enemy_sprites kind of
        Some (w, h) \<Rightarrow> Rect 0 0 w h
      | None \<Rightarrow> (let size = py_int (48 * sf) in Rect 0 0 size size))"

text \<open>
  \<open>spawn_air_enemy\<close> and \<open>spawn_ground_enemy\<close>. \<open>dx\<close> and \<open>dy\<close> are the values returned by
  the two \<open>random.randint\<close> calls. Both return \<open>None\<close> for a kind that is not in
  \<open>ENEMY_CONFIG\<close>. Only \<open>spawn_ground_enemy\<close> sets the key \<open>"jump_cooldown"\<close>, to \<open>0.0\<close>.
\<close>

definition spawn_air_enemy ::
  "config \<Rightarrow> string \<Rightarrow> sprites \<Rightarrow> int \<Rightarrow> int \<Rightarrow> real \<Rightarrow> real \<Rightarrow> int \<Rightarrow> int \<Rightarrow> enemy option" where
  "spawn_air_enemy c kind enemy_sprites sw sh speed_mult sf dx dy =
     (case map_of (ENEMY_CONFIG c) kind of
        None \<Rightarrow> None
      | Some cfg \<Rightarrow>
          (let r0 = make_enemy_rect kind enemy_sprites sf;
               r = r0\<lparr>rx := sw + dx, ry := dy\<rparr>;
               spd = (case speed cfg of Some s \<Rightarrow> s | None \<Rightarrow> 160) * speed_mult
           in Some \<lparr>e_kind = kind, e_rect = r, e_vx = - spd, e_vy = 0, e_t = 0,
                    e_state = ''fly'', e_base_y = real_of_int (centery r),
                    jump_cooldown = None, e_remove = False\<rparr>))"

definition spawn_ground_enemy ::
  "config \<Rightarrow> string \<Rightarrow> sprites \<Rightarrow> int \<Rightarrow> int \<Rightarrow> real \<Rightarrow> int \<Rightarrow> enemy option" where
  "spawn_ground_enemy c kind enemy_sprites sw sh sf dx =
     (case map_of (ENEMY_CONFIG c) kind of
        None \<Rightarrow> None
      | Some cfg \<Rightarrow>
          (let r0 = make_enemy_rect kind enemy_sprites sf;
               r1 = r0\<lparr>ry := sh - rh r0\<rparr>;
               r = r1\<lparr>rx := sw + dx\<rparr>;
               spd = (case speed cfg of Some s \<Rightarrow> s | None \<Rightarrow> 140)
           in Some \<lparr>e_kind = kind, e_rect = r, e_vx = - spd, e_vy = 0, e_t = 0,
                    e_state = ''run'', e_base_y = real_of_int (centery r),
                    jump_cooldown = Some 0, e_remove = False\<rparr>))"

section \<open>Enemy behaviour (world.py)\<close>

text \<open>\<open>ENEMY_CONFIG.get(kind, {}).get("speed", d)\<close> and the like.\<close>

definition cfg_speed :: "config \<Rightarrow> string \<Rightarrow> real \<Rightarrow> real" where
  "cfg_speed c kind d =
     (case map_of (ENEMY_CONFIG c) kind of
        Some cfg \<Rightarrow> (case speed cfg of Some s \<Rightarrow> s | None \<Rightarrow> d)
      | None \<Rightarrow> d)"

definition bcfg_get ::
  "(behavior_cfg \<Rightarrow> 'a option) \<Rightarrow> config \<Rightarrow> string \<Rightarrow> 'a \<Rightarrow> 'a" where
  "bcfg_get field c kind d =
     (case map_of (ENEMY_BEHAVIOR_CONFIG c) kind of
        Some bcfg \<Rightarrow> (case field bcfg of Some x \<Rightarrow> x | None \<Rightarrow> d)
      | None \<Rightarrow> d)"

definition behavior_type :: "config \<Rightarrow> string \<Rightarrow> string" where
  "behavior_type c kind = bcfg_get b_type c kind ''plain''"

text \<open>
  The cooldown of the jump behaviour:
  \<^verbatim>\<open>
  cd = enemy.get("jump_cooldown", random.uniform(0.0, jump_interval))
  cd -= dt
  if cd <= 0.0:
      vy = jump_force
      cd = jump_interval
  enemy["jump_cooldown"] = cd
  \<close>
  \<open>u\<close> is the draw of \<open>random.uniform\<close>, which is used only when the key is absent. The
  result is the new cooldown and the new \<open>vy\<close>.
\<close>

definition jump_timer_step ::
  "real \<Rightarrow> real \<Rightarrow> real \<Rightarrow> real \<Rightarrow> real option \<Rightarrow> real \<Rightarrow> real \<times> real" where
  "jump_timer_step dt ji jf u cooldown vy =
     (let cd0 = (case cooldown of Some cd \<Rightarrow> cd | None \<Rightarrow> py_uniform 0 ji u);
          cd = cd0 - dt
      in if cd \<le> 0 then (ji, jf) else (cd, vy))"

text \<open>
  \<open>_update_enemy_behavior\<close>. In the patrol branch the local \<open>vx\<close> is not written back.
  The jump branch, after the cooldown:
  \<^verbatim>\<open>
  vy += GRAVITY * 0.9 * dt
  rect.y += int(vy * dt)
  if rect.bottom >= screen_h:
      rect.bottom = screen_h
      vy = 0.0
  enemy["vy"] = vy
  if rect.right < -120: enemy["remove"] = True
  \<close>
\<close>

definition update_enemy_behavior ::
  "config \<Rightarrow> real \<Rightarrow> real \<Rightarrow> real \<Rightarrow> int \<Rightarrow> int \<Rightarrow> real \<Rightarrow> enemy \<Rightarrow> enemy" where
  "update_enemy_behavior c dt game_speed sf sw sh u e0 =
     (let kind = e_kind e0;
          e = e0\<lparr>e_t := e_t e0 + dt\<rparr>;
          r = e_rect e;
          vx = e_vx e;
          vy = e_vy e;
          bt = behavior_type c kind;
          e1 =
            (if bt = ''patrol'' then
               (let spd = cfg_speed c kind 120;
                    vx1 = (if vx = 0 then - spd else vx);
                    r1 = r\<lparr>rx := rx r + py_int (vx1 * dt)\<rparr>;
                    r2 = r1\<lparr>rx := rx r1 - py_int (game_speed * dt)\<rparr>
                in e\<lparr>e_rect := r2, e_remove := (if right r2 < - 100 then True else e_remove e)\<rparr>)
             else if bt = ''sine_fly'' then
               (let spd = cfg_speed c kind 160;
                    amp = bcfg_get amplitude c kind 40 * sf;
                    freq = bcfg_get frequency c kind (14 / 10);
                    r1 = r\<lparr>rx := rx r - py_int ((spd + game_speed) * dt)\<rparr>;
                    r2 = set_centery r1 (py_int (e_base_y e + sin (e_t e * freq) * amp))
                in e\<lparr>e_rect := r2, e_remove := (if right r2 < - 100 then True else e_remove e)\<rparr>)
             else if bt = ''jump'' then
               (let spd = cfg_speed c kind 130;
                    ji = bcfg_get jump_interval c kind 2;
                    jf = bcfg_get jump_force c kind (- 750) * sf;
                    r1 = r\<lparr>rx := rx r - py_int ((spd + game_speed * (7 / 10)) * dt)\<rparr>;
                    (cd, vy1) = jump_timer_step dt ji jf u (jump_cooldown e) vy;
                    vy2 = vy1 + GRAVITY * (9 / 10) * dt;
                    r2 = r1\<lparr>ry := ry r1 + py_int (vy2 * dt)\<rparr>;
                    landed = (bottom r2 \<ge> sh);
                    r3 = (if landed then set_bottom r2 sh else r2);
                    vy3 = (if landed then 0 else vy2)
                in e\<lparr>e_rect := r3, jump_cooldown := Some cd, e_vy := vy3,
                      e_remove := (if right r3 < - 120 then True else e_remove e)\<rparr>)
             else
               (let r1 = r\<lparr>rx := rx r + py_int (vx * dt)\<rparr>;
                    r2 = r1\<lparr>ry := ry r1 + py_int (vy * dt)\<rparr>;
                    r3 = r2\<lparr>rx := rx r2 - py_int (game_speed * dt)\<rparr>
                in e\<lparr>e_rect := r3, e_remove := (if right r3 < - 120 then True else e_remove e)\<rparr>))
      in if left (e_rect e1) > sw + 200 \<or> top (e_rect e1) > sh + 200 \<or> bottom (e_rect e1) < - 200
         then e1\<lparr>e_remove := True\<rparr> else e1)"

text \<open>\<open>update_enemies\<close>; \<open>us i\<close> is the draw made while the \<open>i\<close>-th enemy is updated.\<close>

fun update_enemies_from ::
  "config \<Rightarrow> real \<Rightarrow> real \<Rightarrow> real \<Rightarrow> int \<Rightarrow> int \<Rightarrow> (nat \<Rightarrow> real) \<Rightarrow> nat \<Rightarrow> enemy list
     \<Rightarrow> enemy list" where
  "update_enemies_from c dt game_speed sf sw sh us i [] = []"
| "update_enemies_from c dt game_speed sf sw sh us i (e # es) =
     (let e' = update_enemy_behavior c dt game_speed sf sw sh (us i) (e\<lparr>e_remove := False\<rparr>)
      in if \<not> e_remove e' then e' # update_enemies_from c dt game_speed sf sw sh us (Suc i) es
         else update_enemies_from c dt game_speed sf sw sh us (Suc i) es)"

definition update_enemies ::
  "config \<Rightarrow> real \<Rightarrow> real \<Rightarrow> real \<Rightarrow> int \<Rightarrow> int \<Rightarrow> (nat \<Rightarrow> real) \<Rightarrow> enemy list \<Rightarrow> enemy list" where
  "update_enemies c dt game_speed sf sw sh us es =
     update_enemies_from c dt game_speed sf sw sh us 0 es"

text \<open>The cooldown an update of the jump behaviour starts from: the stored one, or the
  draw from \<open>[0, jump_interval]\<close> when the enemy has none.\<close>

definition start_cooldown :: "config \<Rightarrow> real \<Rightarrow> enemy \<Rightarrow> real" where
  "start_cooldown c u e =
     (case jump_cooldown e of
        Some cd \<Rightarrow> cd
      | None \<Rightarrow> py_uniform 0 (bcfg_get jump_interval c (e_kind e) 2) u)"

section \<open>The per-frame ground/air spawn roll (slime_platformer.py)\<close>

text \<open>
  \<^verbatim>\<open>
  for kind, cfg_e in config.ENEMY_CONFIG.items():
      if cfg_e["spawn_type"] == "air":
          if random.random() < cfg_e["spawn_chance"] * settings["enemy_spawn_mult"]
                                 * world_enemy_spawn_mult * dt_scaled:
              e = spawn_air_enemy(kind, enemy_sprites, screen_w, screen_h,
                      settings["enemy_spawn_mult"] * world_enemy_spawn_mult, scale_factor)
              if e: enemies_list.append(e)
      elif cfg_e["spawn_type"] == "ground":
          if random.random() < cfg_e["spawn_chance"] * ... * dt_scaled:
              e = spawn_ground_enemy(kind, enemy_sprites, screen_w, screen_h, scale_factor)
              if e: enemies_list.append(e)
  \<close>
  The loop reads neither the level nor \<open>LEVEL_ENEMY_CONFIG\<close>. The draws of the frame are
  given per kind: \<open>roll\<close> is the value of \<open>random.random()\<close>, \<open>dx\<close> and \<open>dy\<close> the
  values of the \<open>randint\<close> calls of the spawn function. \<open>cfg_e["spawn_chance"]\<close> raises
  KeyError when the key is absent. \<open>wsm\<close> is \<open>world_enemy_spawn_mult\<close>.
\<close>

record spawn_draws =
  roll :: real
  dx :: int
  dy :: int

fun spawn_roll_loop ::
  "config \<Rightarrow> real \<Rightarrow> real \<Rightarrow> real \<Rightarrow> sprites \<Rightarrow> screen \<Rightarrow> (string \<Rightarrow> spawn_draws)
     \<Rightarrow> (string \<times> enemy_cfg) list \<Rightarrow> enemy list \<Rightarrow> py_error + enemy list" where
  "spawn_roll_loop c esm wsm dt spr scr draws [] es = Inr es"
| "spawn_roll_loop c esm wsm dt spr scr draws ((kind, cfg_e) # rest) es =
     (if spawn_type cfg_e = ''air'' then
        (case spawn_chance cfg_e of
           None \<Rightarrow> Inl KeyError
         | Some ch \<Rightarrow>
             (if roll (draws kind) < ch * esm * wsm * dt then
                (case spawn_air_enemy c kind spr (screen_w scr) (screen_h scr) (esm * wsm)
                        (scale_factor scr) (dx (draws kind)) (dy (draws kind)) of
                   Some e \<Rightarrow> spawn_roll_loop c esm wsm dt spr scr draws rest (es @ [e])
                 | None \<Rightarrow> spawn_roll_loop c esm wsm dt spr scr draws rest es)
              else spawn_roll_loop c esm wsm dt spr scr draws rest es))
      else if spawn_type cfg_e = ''ground'' then
        (case spawn_chance cfg_e of
           None \<Rightarrow> Inl KeyError
         | Some ch \<Rightarrow>
             (if roll (draws kind) < ch * esm * wsm * dt then
                (case spawn_ground_enemy c kind spr (screen_w scr) (screen_h scr)
                        (scale_factor scr) (dx (draws kind)) of
                   Some e \<Rightarrow> spawn_roll_loop c esm wsm dt spr scr draws rest (es @ [e])
                 | None \<Rightarrow> spawn_roll_loop c esm wsm dt spr scr draws rest es)
              else spawn_roll_loop c esm wsm dt spr scr draws rest es))
      else spawn_roll_loop c esm wsm dt spr scr draws rest es)"

definition spawn_enemies ::
  "config \<Rightarrow> real \<Rightarrow> real \<Rightarrow> real \<Rightarrow> sprites \<Rightarrow> screen \<Rightarrow> (string \<Rightarrow> spawn_draws)
     \<Rightarrow> enemy list \<Rightarrow> py_error + enemy list" where
  "spawn_enemies c esm wsm dt spr scr draws es =
     spawn_roll_loop c esm wsm dt spr scr draws (ENEMY_CONFIG c) es"

text \<open>
  The kinds whose roll succeeds, in table order: spawn type air or ground, and the
  draw below \<open>spawn_chance * enemy_spawn_mult * world_enemy_spawn_mult * dt_scaled\<close>.
\<close>

definition roll_succeeds :: "real \<Rightarrow> real \<Rightarrow> real \<Rightarrow> (string \<Rightarrow> spawn_draws) \<Rightarrow> string \<times> enemy_cfg \<Rightarrow> bool" where
  "roll_succeeds esm wsm dt draws kc =
     ((spawn_type (snd kc) = ''air'' \<or> spawn_type (snd kc) = ''ground'')
      \<and> (case spawn_chance (snd kc) of
            Some ch \<Rightarrow> roll (draws (fst kc)) < ch * esm * wsm * dt
          | None \<Rightarrow> False))"

definition rolled_kinds ::
  "real \<Rightarrow> real \<Rightarrow> real \<Rightarrow> (string \<Rightarrow> spawn_draws) \<Rightarrow> (string \<times> enemy_cfg) list \<Rightarrow> string list" where
  "rolled_kinds esm wsm dt draws tbl = map fst (filter (roll_succeeds esm wsm dt draws) tbl)"

text \<open>Every draw as small as it can be (\<open>random.random()\<close> may return 0.0).\<close>

definition lowest_draws :: "string \<Rightarrow> spawn_draws" where
  "lowest_draws kind = \<lparr>roll = 0, dx = 50, dy = 300\<rparr>"

definition no_sprites :: sprites where
  "no_sprites kind = None"


section \<open>Custom levels (slime_platformer.py)\<close>

text \<open>
  The data of a custom level as \<open>editor_load_level\<close> returns it: three lists of
  objects. An entry that may be absent is an optional field. The value of \<open>"x"\<close>,
  \<open>"y"\<close>, \<open>"w"\<close> or \<open>"h"\<close> is what \<open>json.load\<close> yields for a JSON number or \<open>null\<close>: a finite
  number, \<open>NaN\<close>, \<open>Infinity\<close>, \<open>-Infinity\<close> or \<open>None\<close>. Strings, booleans, arrays and
  objects in these places are outside the model, as is a \<open>"type"\<close> or \<open>"kind"\<close> that is
  not a string.
\<close>

datatype jnum = JNum real | JNaN | JInf | JNegInf | JNull

record plat_entry =
  pe_x :: "jnum option"
  pe_y :: "jnum option"
  pe_w :: "jnum option"
  pe_h :: "jnum option"
  pe_type :: "string option"

record coin_entry =
  ce_x :: "jnum option"
  ce_y :: "jnum option"

record enemy_entry =
  ee_x :: "jnum option"
  ee_y :: "jnum option"
  ee_kind :: "string option"

record level_data =
  ld_platforms :: "plat_entry list"
  ld_coins :: "coin_entry list"
  ld_enemies :: "enemy_entry list"

text \<open>
  \<open>int(p[key])\<close>: the subscript raises KeyError for an absent key; \<open>int\<close> raises
  TypeError for \<open>None\<close>, ValueError for \<open>NaN\<close>, OverflowError for an infinity, and
  truncates a finite number toward zero.
\<close>

definition json_int :: "jnum option \<Rightarrow> py_error + int" where
  "json_int v =
     (case v of
        None \<Rightarrow> Inl KeyError
      | Some JNull \<Rightarrow> Inl TypeError
      | Some JNaN \<Rightarrow> Inl ValueError
      | Some JInf \<Rightarrow> Inl OverflowError
      | Some JNegInf \<Rightarrow> Inl OverflowError
      | Some (JNum x) \<Rightarrow> Inr (py_int x))"

text \<open>
  What \<open>pygame.Rect\<close> does with a Python int. The fields of a rectangle are 32-bit C
  ints. pygame reads an argument as a C long (64 bits) and narrows it to an int, so a
  value outside the 32-bit range wraps modulo \<open>2^32\<close>, and a value that does not fit a
  long is refused: the constructor and the assignment to \<open>center\<close> then raise
  TypeError. Arithmetic on the stored fields wraps in the same way. The assignment
  \<open>r.center = (cx, cy)\<close> computes \<open>r.x += cx - (r.x + (r.w >> 1))\<close>, that is
  \<open>cx - (r.w >> 1)\<close> modulo \<open>2^32\<close>, and likewise for \<open>y\<close>; the attribute \<open>r.centery\<close> is
  \<open>r.y + (r.h >> 1)\<close> in the same arithmetic.
\<close>

definition c_int :: "int \<Rightarrow> int" where
  "c_int n = (n + 2147483648) mod 4294967296 - 2147483648"

definition pg_int :: "int \<Rightarrow> int option" where
  "pg_int n =
     (if - 9223372036854775808 \<le> n \<and> n < 9223372036854775808 then Some (c_int n) else None)"

definition pg_Rect :: "int \<Rightarrow> int \<Rightarrow> int \<Rightarrow> int \<Rightarrow> py_error + rect" where
  "pg_Rect x y w h =
     (case (pg_int x, pg_int y, pg_int w, pg_int h) of
        (Some x', Some y', Some w', Some h') \<Rightarrow> Inr \<lparr>rx = x', ry = y', rw = w', rh = h'\<rparr>
      | _ \<Rightarrow> Inl TypeError)"

definition pg_set_center :: "rect \<Rightarrow> int \<times> int \<Rightarrow> py_error + rect" where
  "pg_set_center r c =
     (case (pg_int (fst c), pg_int (snd c)) of
        (Some cx, Some cy) \<Rightarrow>
          Inr (r\<lparr>rx := c_int (cx - rw r div 2), ry := c_int (cy - rh r div 2)\<rparr>)
      | _ \<Rightarrow> Inl TypeError)"

definition pg_centery :: "rect \<Rightarrow> int" where
  "pg_centery r = c_int (ry r + rh r div 2)"

text \<open>Sequencing of steps that may raise: the first error ends the computation.\<close>

definition and_then :: "py_error + 'a \<Rightarrow> ('a \<Rightarrow> py_error + 'b) \<Rightarrow> py_error + 'b" where
  "and_then m f = (case m of Inl err \<Rightarrow> Inl err | Inr a \<Rightarrow> f a)"

text \<open>
  The run state dictionary, as far as it is modelled: the three collections the
  function overwrites, the player's variables and the progression variables.
  \<open>reset_wstate\<close> is the dictionary \<open>reset_state\<close> returns.
\<close>

record wstate =
  ws_platforms :: "platform list"
  ws_coins :: "rect list"
  ws_enemies :: "enemy list"
  ws_vars :: pvars
  ws_progress :: levelup_vars

definition reset_wstate :: "rect \<Rightarrow> int \<Rightarrow> wstate" where
  "reset_wstate r mh =
     \<lparr>ws_platforms = [], ws_coins = [], ws_enemies = [],
      ws_vars = reset_state r mh, ws_progress = reset_progress\<rparr>"

text \<open>
  The platform loop of \<open>apply_custom_level_to_state\<close>; \<open>depths i\<close> is the draw of
  \<open>random.uniform(0.9, 1.1)\<close> for the \<open>i\<close>-th platform:
  \<^verbatim>\<open>
  for p in data.get("platforms", []):
      rect = Rect(int(p["x"]), int(p["y"]), int(p["w"]), int(p["h"]))
      ptype = p.get("type", "normal")
      plats.append({"rect": rect, "type": ptype, "vx": 0.0, "vy": 0.0,
                    "fall_started": False, "fall_timer": 0.0, "fragile_hits": 0,
                    "depth": random.uniform(0.9, 1.1)})
  \<close>
\<close>

definition custom_platform :: "real \<Rightarrow> plat_entry \<Rightarrow> py_error + platform" where
  "custom_platform depth p =
     and_then (json_int (pe_x p)) (\<lambda>x.
     and_then (json_int (pe_y p)) (\<lambda>y.
     and_then (json_int (pe_w p)) (\<lambda>w.
     and_then (json_int (pe_h p)) (\<lambda>h.
     and_then (pg_Rect x y w h) (\<lambda>rect.
       Inr \<lparr>p_rect = rect,
            p_type = (case pe_type p of Some t \<Rightarrow> t | None \<Rightarrow> ''normal''),
            p_vx = 0, p_vy = 0, fall_started = False, fall_timer = 0, fragile_hits = 0,
            p_depth = py_uniform (9 / 10) (11 / 10) depth\<rparr>)))))"

fun custom_platforms ::
  "(nat \<Rightarrow> real) \<Rightarrow> nat \<Rightarrow> plat_entry list \<Rightarrow> py_error + platform list" where
  "custom_platforms depths i [] = Inr []"
| "custom_platforms depths i (p # ps) =
     and_then (custom_platform (depths i) p) (\<lambda>q.
     and_then (custom_platforms depths (Suc i) ps) (\<lambda>qs. Inr (q # qs)))"

text \<open>
  The coin loop; \<open>coin_img\<close> is the size of the coin image, if there is one:
  \<^verbatim>\<open>
  if coin_img is not None: cw, ch = coin_img.get_size()
  else: size = int(32 * scale_factor); cw = ch = size
  for c in data.get("coins", []):
      r = Rect(0, 0, cw, ch)
      r.center = (int(c["x"]), int(c["y"]))
      coins.append(r)
  \<close>
\<close>

definition coin_size :: "(int \<times> int) option \<Rightarrow> real \<Rightarrow> int \<times> int" where
  "coin_size coin_img sf =
     (case coin_img of
        Some (w, h) \<Rightarrow> (w, h)
      | None \<Rightarrow> (let size = py_int (32 * sf) in (size, size)))"

definition custom_coin :: "int \<times> int \<Rightarrow> coin_entry \<Rightarrow> py_error + rect" where
  "custom_coin sz c =
     and_then (pg_Rect 0 0 (fst sz) (snd sz)) (\<lambda>r.
     and_then (json_int (ce_x c)) (\<lambda>x.
     and_then (json_int (ce_y c)) (\<lambda>y.
       pg_set_center r (x, y))))"

fun custom_coins :: "int \<times> int \<Rightarrow> coin_entry list \<Rightarrow> py_error + rect list" where
  "custom_coins sz [] = Inr []"
| "custom_coins sz (c # cs) =
     and_then (custom_coin sz c) (\<lambda>r.
     and_then (custom_coins sz cs) (\<lambda>rs. Inr (r # rs)))"

text \<open>
  The enemy loop:
  \<^verbatim>\<open>
  for e in data.get("enemies", []):
      kind = e.get("kind", "walker")
      img = enemy_sprites.get(kind)
      if img is not None: w, h = img.get_size()
      else: size = int(48 * scale_factor); w = h = size
      r = Rect(0, 0, w, h)
      r.center = (int(e["x"]), int(e["y"]))
      enemies.append({"kind": kind, "rect": r, "vx": 0.0, "vy": 0.0, "t": 0.0,
                      "state": "idle", "base_y": float(r.centery)})
  \<close>
\<close>

definition entry_kind :: "enemy_entry \<Rightarrow> string" where
  "entry_kind e = (case ee_kind e of Some k \<Rightarrow> k | None \<Rightarrow> ''walker'')"

definition enemy_size :: "sprites \<Rightarrow> real \<Rightarrow> string \<Rightarrow> int \<times> int" where
  "enemy_size enemy_sprites sf kind =
     (case enemy_sprites kind of
        Some (w, h) \<Rightarrow> (w, h)
      | None \<Rightarrow> (let size = py_int (48 * sf) in (size, size)))"

definition custom_enemy :: "sprites \<Rightarrow> real \<Rightarrow> enemy_entry \<Rightarrow> py_error + enemy" where
  "custom_enemy enemy_sprites sf e =
     (let kind = entry_kind e; sz = enemy_size enemy_sprites sf kind in
      and_then (pg_Rect 0 0 (fst sz) (snd sz)) (\<lambda>r0.
      and_then (json_int (ee_x e)) (\<lambda>x.
      and_then (json_int (ee_y e)) (\<lambda>y.
      and_then (pg_set_center r0 (x, y)) (\<lambda>r.
        Inr \<lparr>e_kind = kind, e_rect = r, e_vx = 0, e_vy = 0, e_t = 0, e_state = ''idle'',
             e_base_y = real_of_int (pg_centery r), jump_cooldown = None,
             e_remove = False\<rparr>)))))"

fun custom_enemies :: "sprites \<Rightarrow> real \<Rightarrow> enemy_entry list \<Rightarrow> py_error + enemy list" where
  "custom_enemies enemy_sprites sf [] = Inr []"
| "custom_enemies enemy_sprites sf (e # es) =
     and_then (custom_enemy enemy_sprites sf e) (\<lambda>q.
     and_then (custom_enemies enemy_sprites sf es) (\<lambda>qs. Inr (q # qs)))"

text \<open>
  \<open>apply_custom_level_to_state\<close>: the three loops in the order of the source, each
  followed by the assignment to its collection. An exception leaves the function (and
  the program); the result is then the error.
\<close>

definition apply_custom_level_to_state ::
  "level_data \<Rightarrow> (int \<times> int) option \<Rightarrow> sprites \<Rightarrow> real \<Rightarrow> (nat \<Rightarrow> real) \<Rightarrow> wstate
     \<Rightarrow> py_error + wstate" where
  "apply_custom_level_to_state d coin_img enemy_sprites sf depths ws =
     and_then (custom_platforms depths 0 (ld_platforms d)) (\<lambda>plats.
     and_then (custom_coins (coin_size coin_img sf) (ld_coins d)) (\<lambda>coins.
     and_then (custom_enemies enemy_sprites sf (ld_enemies d)) (\<lambda>enemies.
       Inr (ws\<lparr>ws_platforms := plats, ws_coins := coins, ws_enemies := enemies\<rparr>))))"

text \<open>
  Where an entity is, and where the level data place it: a platform by its top-left
  corner and size, a coin and an enemy by their centre. \<open>placed\<close> reads a placement
  number as the integer \<open>int(...)\<close> makes of it.
\<close>

definition platform_box :: "platform \<Rightarrow> int \<times> int \<times> int \<times> int" where
  "platform_box p = (rx (p_rect p), ry (p_rect p), rw (p_rect p), rh (p_rect p))"

definition center :: "rect \<Rightarrow> int \<times> int" where
  "center r = (centerx r, centery r)"

definition size_of :: "rect \<Rightarrow> int \<times> int" where
  "size_of r = (rw r, rh r)"

definition placed :: "jnum option \<Rightarrow> int" where
  "placed v = (case v of Some (JNum x) \<Rightarrow> py_int x | _ \<Rightarrow> 0)"

definition placed_box :: "plat_entry \<Rightarrow> int \<times> int \<times> int \<times> int" where
  "placed_box p = (placed (pe_x p), placed (pe_y p), placed (pe_w p), placed (pe_h p))"

definition placed_coin :: "coin_entry \<Rightarrow> int \<times> int" where
  "placed_coin c = (placed (ce_x c), placed (ce_y c))"

definition placed_enemy :: "enemy_entry \<Rightarrow> int \<times> int" where
  "placed_enemy e = (placed (ee_x e), placed (ee_y e))"

text \<open>
  The level data the round trip is about: every placement number is present and
  finite and, as an integer, of magnitude below \<open>2^30\<close>, and the sizes used for coins
  and enemies are not negative and below \<open>2^30\<close>, so that nothing wraps in pygame's
  32-bit fields. The editor writes screen coordinates, which are far inside the range.
\<close>

definition placeable :: "jnum option \<Rightarrow> bool" where
  "placeable v =
     (case v of
        Some (JNum x) \<Rightarrow> - 1073741824 \<le> py_int x \<and> py_int x < 1073741824
      | _ \<Rightarrow> False)"

definition platform_ok :: "plat_entry \<Rightarrow> bool" where
  "platform_ok p =
     (placeable (pe_x p) \<and> placeable (pe_y p) \<and> placeable (pe_w p) \<and> placeable (pe_h p))"

definition coin_ok :: "coin_entry \<Rightarrow> bool" where
  "coin_ok c = (placeable (ce_x c) \<and> placeable (ce_y c))"

definition size_ok :: "int \<times> int \<Rightarrow> bool" where
  "size_ok sz = (0 \<le> fst sz \<and> fst sz < 1073741824 \<and> 0 \<le> snd sz \<and> snd sz < 1073741824)"

definition enemy_ok :: "sprites \<Rightarrow> real \<Rightarrow> enemy_entry \<Rightarrow> bool" where
  "enemy_ok enemy_sprites sf e =
     (placeable (ee_x e) \<and> placeable (ee_y e)
      \<and> size_ok (enemy_size enemy_sprites sf (entry_kind e)))"

text \<open>A level of three platforms, two coins and a jumper, at integer coordinates.\<close>

definition example_level :: level_data where
  "example_level =
     \<lparr>ld_platforms =
        [\<lparr>pe_x = Some (JNum 300), pe_y = Some (JNum 700), pe_w = Some (JNum 200),
          pe_h = Some (JNum 24), pe_type = None\<rparr>,
         \<lparr>pe_x = Some (JNum 640), pe_y = Some (JNum 560), pe_w = Some (JNum 180),
          pe_h = Some (JNum 24), pe_type = Some ''bounce''\<rparr>,
         \<lparr>pe_x = Some (JNum 980), pe_y = Some (JNum 480), pe_w = Some (JNum 220),
          pe_h = Some (JNum 24), pe_type = Some ''fragile''\<rparr>],
      ld_coins = [\<lparr>ce_x = Some (JNum 400), ce_y = Some (JNum 660)\<rparr>,
                  \<lparr>ce_x = Some (JNum 731), ce_y = Some (JNum 517)\<rparr>],
      ld_enemies = [\<lparr>ee_x = Some (JNum 1090), ee_y = Some (JNum 455),
                     ee_kind = Some ''jumper''\<rparr>]\<rparr>"

text \<open>Every depth draw in the middle of its range.\<close>

definition middle_depths :: "nat \<Rightarrow> real" where
  "middle_depths i = 1 / 2"


section \<open>Level-up check: results\<close>

lemma level_up_check_level:
  "lu_level (level_up_check v) = max (lu_level v) (1 + lu_coins v div LEVEL_UP_EVERY_COINS)"
  by (simp add: level_up_check_def Let_def)

lemma level_up_check_coins: "lu_coins (level_up_check v) = lu_coins v"
  by (simp add: level_up_check_def Let_def)

lemma progress_run_snoc:
  "progress_run v (ks @ [k]) = progress_frame (progress_run v ks) k"
  by (simp add: progress_run_def)

lemma progress_run_level_mono: "lu_level v \<le> lu_level (progress_run v ks)"
proof (induction ks rule: rev_induct)
  case Nil
  show ?case by (simp add: progress_run_def)
next
  case (snoc k ks)
  have "lu_level (progress_run v ks) \<le> lu_level (progress_frame (progress_run v ks) k)"
    by (simp add: progress_frame_def level_up_check_level)
  with snoc show ?case by (simp add: progress_run_snoc)
qed

lemma progress_run_from_reset:
  "lu_level (progress_run reset_progress ks)
     = 1 + lu_coins (progress_run reset_progress ks) div LEVEL_UP_EVERY_COINS"
proof (induction ks rule: rev_induct)
  case Nil
  show ?case by (simp add: progress_run_def reset_progress_def LEVEL_UP_EVERY_COINS_def)
next
  case (snoc k ks)
  let ?v = "progress_run reset_progress ks"
  have "lu_coins ?v div LEVEL_UP_EVERY_COINS \<le> (lu_coins ?v + int k) div LEVEL_UP_EVERY_COINS"
    by (rule zdiv_mono1) (simp_all add: LEVEL_UP_EVERY_COINS_def)
  with snoc show ?case
    by (simp add: progress_run_snoc progress_frame_def level_up_check_level
        level_up_check_coins)
qed

text \<open>
  C1 (as stated): after the level-up check the level equals
  \<open>1 + floor(coins_collected_run / LEVEL_UP_EVERY_COINS)\<close>. This fails for a run started
  from the level-select screen at level 3 with no coins: the check leaves the level at 3.
\<close>

theorem C1_level_formula_counterexample:
  "lu_level (level_up_check (level_select_progress 3))
     \<noteq> 1 + lu_coins (level_up_check (level_select_progress 3)) div LEVEL_UP_EVERY_COINS"
  by (simp add: level_up_check_def level_select_progress_def reset_progress_def
      LEVEL_UP_EVERY_COINS_def Let_def)

text \<open>
  C1 (amended): after every level-up check the level is the larger of the level before
  the check and \<open>1 + floor(coins_collected_run / LEVEL_UP_EVERY_COINS)\<close>, reached in that
  single check (one burst per level gained); the level never decreases over a run,
  whatever the starting level; and in a run started by \<open>reset_state\<close> at level 1 the
  level equals \<open>1 + floor(coins_collected_run / LEVEL_UP_EVERY_COINS)\<close> after every frame.
\<close>

theorem C1_level_up_amended:
  "lu_level (level_up_check v) = max (lu_level v) (1 + lu_coins v div LEVEL_UP_EVERY_COINS)
   \<and> lu_bursts (level_up_check v)
       = lu_bursts v + nat (1 + lu_coins v div LEVEL_UP_EVERY_COINS - lu_level v)
   \<and> lu_level v \<le> lu_level (progress_run v ks)
   \<and> lu_level (progress_run v ks) \<le> lu_level (progress_run v (ks @ ks'))
   \<and> lu_level (progress_run reset_progress ks)
       = 1 + lu_coins (progress_run reset_progress ks) div LEVEL_UP_EVERY_COINS"
proof -
  have "progress_run v (ks @ ks') = progress_run (progress_run v ks) ks'"
    by (simp add: progress_run_def)
  then have "lu_level (progress_run v ks) \<le> lu_level (progress_run v (ks @ ks'))"
    by (simp add: progress_run_level_mono)
  moreover have "lu_bursts (level_up_check v)
       = lu_bursts v + nat (1 + lu_coins v div LEVEL_UP_EVERY_COINS - lu_level v)"
    by (simp add: level_up_check_def Let_def)
  ultimately show ?thesis
    by (simp add: level_up_check_level progress_run_level_mono progress_run_from_reset)
qed

section \<open>Enemy spawn table: results\<close>

lemma get_base_spawn_weight_pos: "0 < get_base_spawn_weight c k"
  by (simp add: get_base_spawn_weight_def Let_def)

lemma get_level_scaled_spawn_weight_pos: "0 < get_level_scaled_spawn_weight c k lvl"
proof -
  have b: "0 < get_base_spawn_weight c k" by (rule get_base_spawn_weight_pos)
  show ?thesis
  proof (cases "map_of (ENEMY_LEVEL_SCALING c) k")
    case None
    with b show ?thesis by (simp add: get_level_scaled_spawn_weight_def Let_def)
  next
    case (Some scfg)
    define t where "t = (case level_threshold scfg of None \<Rightarrow> 1 | Some t \<Rightarrow> t)"
    define p where "p = (case spawn_scale_per_level scfg of None \<Rightarrow> 0 | Some p \<Rightarrow> p)"
    have eq: "get_level_scaled_spawn_weight c k lvl =
        (if lvl \<le> t \<or> p \<le> 0 then get_base_spawn_weight c k
         else get_base_spawn_weight c k * (1 + real_of_int (max 0 (lvl - t)) * p))"
      using Some by (simp add: get_level_scaled_spawn_weight_def Let_def t_def p_def)
    show ?thesis
    proof (cases "lvl \<le> t \<or> p \<le> 0")
      case True
      with eq b show ?thesis by simp
    next
      case False
      then have "0 < p" and "0 \<le> real_of_int (max 0 (lvl - t))" by simp_all
      then have "0 < 1 + real_of_int (max 0 (lvl - t)) * p"
        by (simp add: add_pos_nonneg)
      with b have "0 < get_base_spawn_weight c k * (1 + real_of_int (max 0 (lvl - t)) * p)"
        by (rule mult_pos_pos)
      with eq False show ?thesis by simp
    qed
  qed
qed

lemma spawn_table_loop_eq:
  "spawn_table_loop c lvl ks = map (\<lambda>k. (k, get_level_scaled_spawn_weight c k lvl)) ks"
  by (induction ks) (simp_all add: get_level_scaled_spawn_weight_pos Let_def)

lemma pick_loop_hits:
  "(\<forall>kw \<in> set pre. 0 \<le> snd kw) \<Longrightarrow> acc + sum_list (map snd pre) < r
     \<Longrightarrow> r \<le> acc + sum_list (map snd pre) + w
     \<Longrightarrow> pick_loop r acc (pre @ (k, w) # post) = Some k"
proof (induction pre arbitrary: acc)
  case Nil
  then show ?case by (simp add: Let_def)
next
  case (Cons a pre)
  obtain k' w' where a: "a = (k', w')" by (cases a)
  from Cons.prems a have w': "0 \<le> w'" by simp
  have rest: "0 \<le> sum_list (map snd pre)"
    using Cons.prems(1) by (intro sum_list_nonneg) auto
  from Cons.prems a w' rest have skip: "\<not> r \<le> acc + w'" by simp
  have "pick_loop r (acc + w') (pre @ (k, w) # post) = Some k"
    using Cons.prems a by (intro Cons.IH) (simp_all add: add.assoc)
  with skip a show ?case by (simp add: Let_def)
qed

lemma pick_can_select:
  assumes pos: "\<forall>kw \<in> set table. 0 < snd kw" and mem: "(k, w) \<in> set table"
  shows "\<exists>u. 0 \<le> u \<and> u < 1 \<and>
     (let total = sum_list (map snd table) in
        0 < total \<and> pick_loop (u * total) 0 table = Some k)"
proof -
  from mem obtain pre post where split: "table = pre @ (k, w) # post"
    by (auto dest: split_list)
  let ?total = "sum_list (map snd table)"
  let ?sp = "sum_list (map snd pre)"
  have w: "0 < w" using pos mem by force
  have pre0: "\<forall>kw \<in> set pre. 0 \<le> snd kw" using pos split by force
  have sp: "0 \<le> ?sp" using pre0 by (intro sum_list_nonneg) auto
  have post0: "0 \<le> sum_list (map snd post)"
    using pos split by (intro sum_list_nonneg) force
  have total: "?total = ?sp + w + sum_list (map snd post)" by (simp add: split)
  define r where "r = ?sp + w / 2"
  have r1: "?sp < r" and r2: "r \<le> ?sp + w" and r3: "r < ?total" and r0: "0 \<le> r"
    using w sp post0 total by (simp_all add: r_def)
  have tpos: "0 < ?total" using r0 r3 by linarith
  have hit: "pick_loop r 0 table = Some k"
    unfolding split using pre0 r1 r2 by (intro pick_loop_hits) simp_all
  let ?u = "r / ?total"
  have "0 \<le> ?u" using r0 tpos by simp
  moreover have "?u < 1" using r3 tpos by simp
  moreover have "?u * ?total = r" using tpos by simp
  ultimately show ?thesis using hit tpos by (intro exI[of _ ?u]) (simp add: Let_def)
qed

text \<open>
  C10: every kind has a strictly positive base spawn weight; a kind of
  \<open>ENEMY_CONFIG\<close> whose \<open>spawn_chance\<close> is 0.0 gets the fallback weight 0.02 (brute and
  swift in the shipped table); and a kind in the enabled list of a level is in the spawn
  table of that level and is returned by \<open>pick_enemy_kind\<close> for some draw \<open>u\<close> in
  \<open>[0, 1)\<close>. The tables are arbitrary, so this covers an override that enables brute.
\<close>

theorem C10_spawn_weight_positive:
  "0 < get_base_spawn_weight c k
   \<and> (map_of (ENEMY_CONFIG c) k = Some e \<and> spawn_chance e = Some 0
        \<longrightarrow> get_base_spawn_weight c k = 2 / 100)
   \<and> get_base_spawn_weight shipped_config ''brute'' = 2 / 100
   \<and> get_base_spawn_weight shipped_config ''swift'' = 2 / 100
   \<and> (k \<in> set (get_enabled_enemy_kinds c lvl)
        \<longrightarrow> k \<in> fst ` set (build_spawn_table c lvl)
            \<and> (\<exists>u. 0 \<le> u \<and> u < 1 \<and> pick_enemy_kind c lvl u = Some k))"
proof (intro conjI impI)
  show "0 < get_base_spawn_weight c k" by (rule get_base_spawn_weight_pos)
next
  assume "map_of (ENEMY_CONFIG c) k = Some e \<and> spawn_chance e = Some 0"
  then show "get_base_spawn_weight c k = 2 / 100"
    by (simp add: get_base_spawn_weight_def)
next
  show "get_base_spawn_weight shipped_config ''brute'' = 2 / 100"
    by (simp add: get_base_spawn_weight_def shipped_config_def shipped_ENEMY_CONFIG_def)
next
  show "get_base_spawn_weight shipped_config ''swift'' = 2 / 100"
    by (simp add: get_base_spawn_weight_def shipped_config_def shipped_ENEMY_CONFIG_def)
next
  assume en: "k \<in> set (get_enabled_enemy_kinds c lvl)"
  let ?table = "build_spawn_table c lvl"
  have tab: "?table = map (\<lambda>k. (k, get_level_scaled_spawn_weight c k lvl))
      (get_enabled_enemy_kinds c lvl)"
    by (simp add: build_spawn_table_def spawn_table_loop_eq)
  from en have mem: "(k, get_level_scaled_spawn_weight c k lvl) \<in> set ?table"
    by (simp add: tab)
  then show "k \<in> fst ` set ?table" by force
  have pos: "\<forall>kw \<in> set ?table. 0 < snd kw"
    by (auto simp: tab get_level_scaled_spawn_weight_pos)
  from pick_can_select[OF pos mem] obtain u where u: "0 \<le> u" "u < 1"
    and tot: "0 < sum_list (map snd ?table)"
    and hit: "pick_loop (u * sum_list (map snd ?table)) 0 ?table = Some k"
    by (auto simp: Let_def)
  from mem have ne: "?table \<noteq> []" by auto
  have "pick_enemy_kind c lvl u = Some k"
    using ne tot hit by (simp add: pick_enemy_kind_def Let_def)
  with u show "\<exists>u. 0 \<le> u \<and> u < 1 \<and> pick_enemy_kind c lvl u = Some k" by blast
qed

text \<open>
  The theorem at a table set that enables brute (the shipped tables with the default
  enabled list replaced by walker and brute), at level 7.
\<close>

theorem C10_spawn_weight_positive_witness:
  "map_of (ENEMY_CONFIG (shipped_config\<lparr>LEVEL_ENEMY_CONFIG :=
        \<lparr>default_enabled_kinds = Some [''walker'', ''brute''], by_level = []\<rparr>\<rparr>)) ''brute''
     = Some \<lparr>spawn_type = ''ground'', spawn_chance = Some 0, damage = 3, speed = Some 110\<rparr>
   \<and> ''brute'' \<in> set (get_enabled_enemy_kinds (shipped_config\<lparr>LEVEL_ENEMY_CONFIG :=
        \<lparr>default_enabled_kinds = Some [''walker'', ''brute''], by_level = []\<rparr>\<rparr>) 7)
   \<and> get_base_spawn_weight (shipped_config\<lparr>LEVEL_ENEMY_CONFIG :=
        \<lparr>default_enabled_kinds = Some [''walker'', ''brute''], by_level = []\<rparr>\<rparr>) ''brute''
       = 2 / 100
   \<and> ''brute'' \<in> fst ` set (build_spawn_table (shipped_config\<lparr>LEVEL_ENEMY_CONFIG :=
        \<lparr>default_enabled_kinds = Some [''walker'', ''brute''], by_level = []\<rparr>\<rparr>) 7)
   \<and> (\<exists>u. 0 \<le> u \<and> u < 1 \<and> pick_enemy_kind (shipped_config\<lparr>LEVEL_ENEMY_CONFIG :=
        \<lparr>default_enabled_kinds = Some [''walker'', ''brute''], by_level = []\<rparr>\<rparr>) 7 u
       = Some ''brute'')"
proof -
  let ?c = "shipped_config\<lparr>LEVEL_ENEMY_CONFIG :=
        \<lparr>default_enabled_kinds = Some [''walker'', ''brute''], by_level = []\<rparr>\<rparr>"
  let ?e = "\<lparr>spawn_type = ''ground'', spawn_chance = Some 0, damage = 3, speed = Some 110\<rparr>"
  have cfg: "map_of (ENEMY_CONFIG ?c) ''brute'' = Some ?e"
    by (simp add: shipped_config_def shipped_ENEMY_CONFIG_def)
  have en: "''brute'' \<in> set (get_enabled_enemy_kinds ?c 7)"
    by (simp add: get_enabled_enemy_kinds_def in_enemy_config_def shipped_config_def
        shipped_ENEMY_CONFIG_def)
  show ?thesis
    using C10_spawn_weight_positive [of ?c "''brute''" ?e 7] cfg en by simp
qed

section \<open>Jump: results\<close>

lemma held_jump_flags:
  "jump_down held_jump" "\<not> dash_down held_jump" "\<not> move_left_down held_jump"
  "\<not> move_right_down held_jump" "dt_scaled held_jump = 1 / 30"
  by (simp_all add: held_jump_def handle_events_def)

lemma airborne_jump: "jump_section True False jm (airborne y vel) = airborne y vel"
  by (simp add: jump_section_def airborne_def reset_state_def)

lemma airborne_gravity:
  "0 \<le> vel \<Longrightarrow> gravity_section 1 (1 / 30) (airborne y vel)
     = airborne (y + \<lfloor>(vel + 220 / 3) / 30\<rfloor>) (vel + 220 / 3)"
  by (simp add: gravity_section_def airborne_def reset_state_def Rect_def py_int_def
      GRAVITY_def Let_def)

lemma airborne_move:
  "move_section False 0 (1 / 30) example_screen (airborne y vel) = airborne y vel"
  by (simp add: move_section_def airborne_def reset_state_def Rect_def py_int_def set_x_def
      clamp_def example_screen_def Let_def)

lemma airborne_ground:
  "ground_section example_screen (airborne y vel)
     = (if y \<ge> 784 then (reset_state (Rect 288 784 80 80) 3)\<lparr>on_ground := True\<rparr>
        else airborne y vel)"
  by (simp add: ground_section_def airborne_def reset_state_def Rect_def py_int_def
      example_screen_def Let_def)

lemma fall_step:
  "0 \<le> vel \<Longrightarrow> player_movement example_settings example_screen held_jump (airborne y vel)
     = (if y + \<lfloor>(vel + 220 / 3) / 30\<rfloor> \<ge> 784
        then (reset_state (Rect 288 784 80 80) 3)\<lparr>on_ground := True\<rparr>
        else airborne (y + \<lfloor>(vel + 220 / 3) / 30\<rfloor>) (vel + 220 / 3))"
  by (simp add: player_movement_def held_jump_flags example_settings_def move_x_of_def
      airborne_jump airborne_gravity airborne_move airborne_ground del: One_nat_def)

lemma held_jump_15_frames:
  "(player_movement example_settings example_screen held_jump ^^ 15) (reset_state start_rect 3)
     = (reset_state (Rect 288 784 80 80) 3)\<lparr>on_ground := True\<rparr>"
proof -
  have "reset_state start_rect 3 = airborne 500 0"
    by (simp add: airborne_def start_rect_def reset_state_def)
  then show ?thesis by (simp add: fall_step eval_nat_numeral)
qed

lemma held_jump_16th_frame:
  "player_movement example_settings example_screen held_jump
       ((reset_state (Rect 288 784 80 80) 3)\<lparr>on_ground := True\<rparr>)
     = (airborne 757 (- 2480 / 3))\<lparr>jump_count := 1\<rparr>"
  by (simp add: player_movement_def jump_section_def gravity_section_def move_section_def
      ground_section_def move_x_of_def set_x_def clamp_def py_int_def GRAVITY_def
      JUMP_STRENGTH_def Let_def example_settings_def example_screen_def reset_state_def
      Rect_def held_jump_def handle_events_def airborne_def)

text \<open>
  C2 (as stated): a ground jump is triggered only in a frame in which the jump input
  goes from false to true. In the run below the key goes down once, before the first
  frame, and no key event follows. The player falls from the start position, is on the
  ground after frame 15 with \<open>jump_count = 0\<close>, and frame 16, in which the input did not
  change, performs a ground jump: \<open>jump_count\<close> becomes 1 and the player leaves the
  ground moving upwards.
\<close>

theorem C2_held_jump_counterexample:
  "jump_down held_jump
   \<and> on_ground ((player_movement example_settings example_screen held_jump ^^ 15)
         (reset_state start_rect 3))
   \<and> jump_count ((player_movement example_settings example_screen held_jump ^^ 15)
         (reset_state start_rect 3)) = 0
   \<and> jump_count ((player_movement example_settings example_screen held_jump ^^ 16)
         (reset_state start_rect 3)) = 1
   \<and> \<not> on_ground ((player_movement example_settings example_screen held_jump ^^ 16)
         (reset_state start_rect 3))
   \<and> player_vel_y ((player_movement example_settings example_screen held_jump ^^ 16)
         (reset_state start_rect 3)) = JUMP_STRENGTH * 1 + GRAVITY * 1 * (1 / 30)"
proof -
  let ?F = "player_movement example_settings example_screen held_jump"
  have "(?F ^^ 16) (reset_state start_rect 3) = (?F ^^ Suc 15) (reset_state start_rect 3)"
    by simp
  also have "\<dots> = ?F ((?F ^^ 15) (reset_state start_rect 3))"
    by (simp only: funpow.simps o_apply)
  also have "\<dots> = (airborne 757 (- 2480 / 3))\<lparr>jump_count := 1\<rparr>"
    by (simp only: held_jump_15_frames held_jump_16th_frame)
  finally have s16: "(?F ^^ 16) (reset_state start_rect 3)
      = (airborne 757 (- 2480 / 3))\<lparr>jump_count := 1\<rparr>" .
  show ?thesis
    unfolding s16 held_jump_15_frames
    by (simp add: held_jump_flags reset_state_def airborne_def JUMP_STRENGTH_def GRAVITY_def)
qed

lemma jump_count_gravity: "jump_count (gravity_section gm dt v) = jump_count v"
  by (simp add: gravity_section_def Let_def)

lemma jump_count_set_x: "jump_count (set_x x v) = jump_count v"
  by (simp add: set_x_def)

lemma jump_count_move: "jump_count (move_section dd mx dt scr v) = jump_count v"
  by (simp add: move_section_def Let_def jump_count_set_x)

lemma jump_count_ground: "jump_count (ground_section scr v) = jump_count v"
  by (simp add: ground_section_def Let_def)

lemma jump_count_stand_on_platform:
  "jump_count (fst (stand_on_platform pc v p)) = jump_count v"
  by (simp add: stand_on_platform_def Let_def)

lemma jump_count_stand_on_platforms:
  "jump_count (fst (stand_on_platforms pc v ps)) = jump_count v"
proof (induction ps arbitrary: v)
  case Nil
  show ?case by simp
next
  case (Cons p ps)
  obtain v1 p' where a: "stand_on_platform pc v p = (v1, p')" by (cases "stand_on_platform pc v p")
  obtain v2 ps' where b: "stand_on_platforms pc v1 ps = (v2, ps')"
    by (cases "stand_on_platforms pc v1 ps")
  have "jump_count v2 = jump_count v1" using Cons.IH [of v1] b by simp
  moreover have "jump_count v1 = jump_count v" using jump_count_stand_on_platform [of pc v p] a by simp
  ultimately show ?case using a b by simp
qed

lemma jump_count_knockback: "jump_count (knockback_section dt v) = jump_count v"
  by (simp add: knockback_section_def jump_count_set_x)

lemma jump_count_damage_loop:
  "damage_loop c edm wdm sf es v = Inr v' \<Longrightarrow> jump_count v' = jump_count v"
proof (induction es arbitrary: v)
  case Nil
  then show ?case by simp
next
  case (Cons e es)
  show ?case
  proof (cases "colliderect (e_rect e) (player_rect v)")
    case False
    with Cons show ?thesis by simp
  next
    case True
    with Cons.prems obtain cfg where
      "damage_loop c edm wdm sf es (hit_by edm wdm sf cfg e v) = Inr v'"
      by (auto split: option.splits)
    from Cons.IH [OF this] show ?thesis by (simp add: hit_by_def Let_def)
  qed
qed

lemma jump_count_damage:
  "damage_section c edm wdm sf dt es v = Inr v' \<Longrightarrow> jump_count v' = jump_count v"
  by (auto simp: damage_section_def split: if_splits dest: jump_count_damage_loop)

text \<open>
  C2 (amended): in every frame in which the jump input is down (newly pressed or still
  held) and the player is grounded, a ground jump sets the vertical velocity to
  \<open>JUMP_STRENGTH * jump_mult\<close>, clears grounded and sets \<open>jump_count\<close> to 1; if the player
  is airborne, an air jump at 0.9 strength is granted only when the double-jump upgrade
  is owned and \<open>jump_count\<close> equals 1, and sets \<open>jump_count\<close> to 2; in every other case the
  block changes nothing, so with \<open>jump_count = 2\<close> no jump happens while airborne. Only
  the jump block writes \<open>jump_count\<close>: neither the ground collision nor standing on a
  platform resets it, and the next ground jump sets it back to 1.
\<close>

theorem C2_jump_amended:
  "(jd \<and> on_ground v \<longrightarrow>
      jump_section jd dj jm v
        = v\<lparr>player_vel_y := JUMP_STRENGTH * jm, on_ground := False, jump_count := 1\<rparr>)
   \<and> (jd \<and> \<not> on_ground v \<and> dj \<and> jump_count v = 1 \<longrightarrow>
      jump_section jd dj jm v
        = v\<lparr>player_vel_y := JUMP_STRENGTH * (9 / 10) * jm, jump_count := 2\<rparr>)
   \<and> (\<not> jd \<or> (\<not> on_ground v \<and> \<not> (dj \<and> jump_count v = 1)) \<longrightarrow>
      jump_section jd dj jm v = v)
   \<and> jump_count (player_movement st scr inp v)
        = jump_count (jump_section (jump_down inp) (double_jump st) (jump_mult st) v)
   \<and> jump_count (fst (platforms_frame pc st scr dt (v, ps))) = jump_count v"
proof (intro conjI impI)
  show "jump_count (player_movement st scr inp v)
        = jump_count (jump_section (jump_down inp) (double_jump st) (jump_mult st) v)"
    by (simp add: player_movement_def Let_def jump_count_ground jump_count_move
        jump_count_gravity)
  show "jump_count (fst (platforms_frame pc st scr dt (v, ps))) = jump_count v"
    by (simp add: platforms_frame_def jump_count_stand_on_platforms)
qed (auto simp: jump_section_def)

theorem C2_jump_amended_witness:
  "jump_section True False 1 (standing 288 3)
     = (standing 288 3)\<lparr>player_vel_y := JUMP_STRENGTH * 1, on_ground := False, jump_count := 1\<rparr>
   \<and> jump_section True True 1 ((airborne 500 0)\<lparr>jump_count := 1\<rparr>)
     = ((airborne 500 0)\<lparr>jump_count := 1\<rparr>)
         \<lparr>player_vel_y := JUMP_STRENGTH * (9 / 10) * 1, jump_count := 2\<rparr>
   \<and> jump_section True True 1 ((airborne 500 0)\<lparr>jump_count := 2\<rparr>)
     = (airborne 500 0)\<lparr>jump_count := 2\<rparr>"
proof -
  have g: "on_ground (standing 288 3)" by (simp add: standing_def)
  have a1: "\<not> on_ground ((airborne 500 0)\<lparr>jump_count := 1\<rparr>)"
    "jump_count ((airborne 500 0)\<lparr>jump_count := 1\<rparr>) = 1"
    by (simp_all add: airborne_def reset_state_def)
  have a2: "\<not> on_ground ((airborne 500 0)\<lparr>jump_count := 2\<rparr>)"
    "jump_count ((airborne 500 0)\<lparr>jump_count := 2\<rparr>) \<noteq> 1"
    by (simp_all add: airborne_def reset_state_def)
  from C2_jump_amended [of True "standing 288 3" False 1] g
  have 1: "jump_section True False 1 (standing 288 3)
     = (standing 288 3)\<lparr>player_vel_y := JUMP_STRENGTH * 1, on_ground := False, jump_count := 1\<rparr>"
    by blast
  from C2_jump_amended [of True "(airborne 500 0)\<lparr>jump_count := 1\<rparr>" True 1] a1
  have 2: "jump_section True True 1 ((airborne 500 0)\<lparr>jump_count := 1\<rparr>)
     = ((airborne 500 0)\<lparr>jump_count := 1\<rparr>)
         \<lparr>player_vel_y := JUMP_STRENGTH * (9 / 10) * 1, jump_count := 2\<rparr>"
    by blast
  from C2_jump_amended [of True "(airborne 500 0)\<lparr>jump_count := 2\<rparr>" True 1] a2
  have 3: "jump_section True True 1 ((airborne 500 0)\<lparr>jump_count := 2\<rparr>)
     = (airborne 500 0)\<lparr>jump_count := 2\<rparr>"
    by blast
  from 1 2 3 show ?thesis by blast
qed


section \<open>Horizontal position: results\<close>

lemma rw_set_x: "rw (player_rect (set_x x v)) = rw (player_rect v)"
  by (simp add: set_x_def)

lemma rx_set_x: "rx (player_rect (set_x x v)) = x"
  by (simp add: set_x_def)

text \<open>The clamp does its work for the dash and for regular movement: right after the
  move section the player is between the left margin and the right edge.\<close>

lemma move_section_clamped:
  assumes "py_int (40 * scale_factor scr) \<le> screen_w scr - rw (player_rect v)"
  shows "py_int (40 * scale_factor scr) \<le> rx (player_rect (move_section dd mx dt scr v))
       \<and> rx (player_rect (move_section dd mx dt scr v)) \<le> screen_w scr - rw (player_rect v)"
  using assms by (simp add: move_section_def Let_def rx_set_x rw_set_x clamp_def)

text \<open>
  C5 at a failing input: the player stands at the left margin (\<open>x = 40\<close> at scale 1), no
  key is down, and a walker overlaps the player from the left. The damage block starts
  the knockback, the knockback block moves the player by \<open>int(-680 / 60) = -11\<close>, and
  the frame ends, with nothing clamping again, at \<open>x = 29\<close>, left of the margin.
\<close>

theorem C5_knockback_leaves_playfield:
  "playing_frame example_env idle [enemy_at ''walker'' (Rect 30 800 48 48)]
       \<lparr>run_game_state = Playing, run_vars = standing 40 3, run_platforms = []\<rparr>
     = Inr \<lparr>run_game_state = Playing,
            run_vars = (standing 40 3)\<lparr>player_rect := Rect 29 784 80 80, health := 2,
              took_damage := True, inv_timer := INVINCIBLE_TIME,
              knock_timer := KNOCKBACK_TIME - 1 / 60, knock_dx := - KNOCKBACK_SPEED,
              shake_timer := SCREEN_SHAKE_HIT\<rparr>,
            run_platforms = []\<rparr>
   \<and> rx (Rect 29 784 80 80) < py_int (40 * scale_factor example_screen)"
proof -
  have mv: "player_movement example_settings example_screen idle (standing 40 3) = standing 40 3"
    by (simp add: player_movement_def jump_section_def gravity_section_def move_section_def
      ground_section_def move_x_of_def set_x_def clamp_def py_int_def GRAVITY_def Let_def
      example_settings_def example_screen_def reset_state_def Rect_def idle_def standing_def)
  have pf: "platforms_frame shipped_platform_config example_settings example_screen (1 / 60)
      (standing 40 3, []) = (standing 40 3, [])"
    by (simp add: platforms_frame_def)
  have dm: "damage_section shipped_config 1 1 1 (1 / 60)
      [enemy_at ''walker'' (Rect 30 800 48 48)] (standing 40 3)
    = Inr ((standing 40 3)\<lparr>health := 2, took_damage := True, inv_timer := INVINCIBLE_TIME,
              knock_timer := KNOCKBACK_TIME, knock_dx := - KNOCKBACK_SPEED,
              shake_timer := SCREEN_SHAKE_HIT\<rparr>)"
    by (simp add: damage_section_def hit_by_def colliderect_def enemy_at_def standing_def
        reset_state_def Rect_def shipped_config_def shipped_ENEMY_CONFIG_def centerx_def
        sign_def py_int_def Let_def)
  have kb: "knockback_section (1 / 60)
      ((standing 40 3)\<lparr>health := 2, took_damage := True, inv_timer := INVINCIBLE_TIME,
              knock_timer := KNOCKBACK_TIME, knock_dx := - KNOCKBACK_SPEED,
              shake_timer := SCREEN_SHAKE_HIT\<rparr>)
    = (standing 40 3)\<lparr>player_rect := Rect 29 784 80 80, health := 2,
              took_damage := True, inv_timer := INVINCIBLE_TIME,
              knock_timer := KNOCKBACK_TIME - 1 / 60, knock_dx := - KNOCKBACK_SPEED,
              shake_timer := SCREEN_SHAKE_HIT\<rparr>"
    by (simp add: knockback_section_def set_x_def standing_def reset_state_def Rect_def
        KNOCKBACK_TIME_def KNOCKBACK_SPEED_def py_int_def)
  have env: "env_settings example_env = example_settings" "env_screen example_env = example_screen"
    "env_config example_env = shipped_config"
    "env_platform_config example_env = shipped_platform_config"
    "env_world_damage_mult example_env = 1" "enemy_damage_mult example_settings = 1"
    "scale_factor example_screen = 1" "dt_scaled idle = 1 / 60"
    by (simp_all add: example_env_def example_settings_def example_screen_def idle_def)
  have hp: "health ((standing 40 3)\<lparr>player_rect := Rect 29 784 80 80, health := 2,
              took_damage := True, inv_timer := INVINCIBLE_TIME,
              knock_timer := KNOCKBACK_TIME - 1 / 60, knock_dx := - KNOCKBACK_SPEED,
              shake_timer := SCREEN_SHAKE_HIT\<rparr>) = 2"
    by simp
  have "playing_frame example_env idle [enemy_at ''walker'' (Rect 30 800 48 48)]
       \<lparr>run_game_state = Playing, run_vars = standing 40 3, run_platforms = []\<rparr>
     = Inr \<lparr>run_game_state = Playing,
            run_vars = (standing 40 3)\<lparr>player_rect := Rect 29 784 80 80, health := 2,
              took_damage := True, inv_timer := INVINCIBLE_TIME,
              knock_timer := KNOCKBACK_TIME - 1 / 60, knock_dx := - KNOCKBACK_SPEED,
              shake_timer := SCREEN_SHAKE_HIT\<rparr>,
            run_platforms = []\<rparr>"
    unfolding playing_frame_def Let_def
    by (simp only: env mv pf dm kb hp run.simps game_state.simps if_False if_True
        split_conv sum.case simp_thms) simp
  moreover have "rx (Rect 29 784 80 80) < py_int (40 * scale_factor example_screen)"
    by (simp add: Rect_def example_screen_def py_int_def)
  ultimately show ?thesis by blast
qed

section \<open>Damage: results\<close>

lemma hit_by_fields:
  "player_rect (hit_by edm wdm sf cfg e v) = player_rect v"
  "max_health (hit_by edm wdm sf cfg e v) = max_health v"
  "health (hit_by edm wdm sf cfg e v) = health v - py_int (real_of_int (damage cfg) * edm * wdm)"
  "took_damage (hit_by edm wdm sf cfg e v)"
  "inv_timer (hit_by edm wdm sf cfg e v) = INVINCIBLE_TIME"
  "knock_timer (hit_by edm wdm sf cfg e v) = KNOCKBACK_TIME"
  by (simp_all add: hit_by_def Let_def)

lemma overlapping_cong: "player_rect v' = player_rect v \<Longrightarrow> overlapping v' es = overlapping v es"
  by (simp add: overlapping_def)

lemma damage_loop_sum:
  assumes "\<forall>e \<in> set es. colliderect (e_rect e) (player_rect v) \<longrightarrow>
             (\<exists>cfg. map_of (ENEMY_CONFIG c) (e_kind e) = Some cfg
                    \<and> 0 \<le> real_of_int (damage cfg) * edm * wdm)"
  shows "\<exists>v'. damage_loop c edm wdm sf es v = Inr v'
           \<and> player_rect v' = player_rect v
           \<and> health v' = health v - sum_list (map (spec_damage c edm wdm) (overlapping v es))
           \<and> (overlapping v es = [] \<longrightarrow> v' = v)
           \<and> (overlapping v es \<noteq> [] \<longrightarrow>
                 took_damage v' \<and> inv_timer v' = INVINCIBLE_TIME \<and> knock_timer v' = KNOCKBACK_TIME)"
  using assms
proof (induction es arbitrary: v)
  case Nil
  show ?case by (simp add: overlapping_def)
next
  case (Cons e es)
  show ?case
  proof (cases "colliderect (e_rect e) (player_rect v)")
    case False
    from Cons.prems have "\<forall>e \<in> set es. colliderect (e_rect e) (player_rect v) \<longrightarrow>
             (\<exists>cfg. map_of (ENEMY_CONFIG c) (e_kind e) = Some cfg
                    \<and> 0 \<le> real_of_int (damage cfg) * edm * wdm)" by simp
    from Cons.IH [OF this] False show ?thesis by (simp add: overlapping_def)
  next
    case True
    with Cons.prems obtain cfg where cfg: "map_of (ENEMY_CONFIG c) (e_kind e) = Some cfg"
      and nn: "0 \<le> real_of_int (damage cfg) * edm * wdm" by auto
    let ?v1 = "hit_by edm wdm sf cfg e v"
    have r1: "player_rect ?v1 = player_rect v" by (rule hit_by_fields)
    from Cons.prems r1 have "\<forall>e \<in> set es. colliderect (e_rect e) (player_rect ?v1) \<longrightarrow>
             (\<exists>cfg. map_of (ENEMY_CONFIG c) (e_kind e) = Some cfg
                    \<and> 0 \<le> real_of_int (damage cfg) * edm * wdm)" by simp
    from Cons.IH [OF this] obtain v' where v': "damage_loop c edm wdm sf es ?v1 = Inr v'"
      and rect: "player_rect v' = player_rect ?v1"
      and hp: "health v' = health ?v1 - sum_list (map (spec_damage c edm wdm) (overlapping ?v1 es))"
      and none: "overlapping ?v1 es = [] \<longrightarrow> v' = ?v1"
      and some: "overlapping ?v1 es \<noteq> [] \<longrightarrow>
                 took_damage v' \<and> inv_timer v' = INVINCIBLE_TIME \<and> knock_timer v' = KNOCKBACK_TIME"
      by blast
    have ov: "overlapping ?v1 es = overlapping v es" by (rule overlapping_cong [OF r1])
    have step: "damage_loop c edm wdm sf (e # es) v = Inr v'" using True cfg v' by simp
    have dmg: "spec_damage c edm wdm e = py_int (real_of_int (damage cfg) * edm * wdm)"
      using cfg nn by (simp add: spec_damage_def py_int_def)
    have ovc: "overlapping v (e # es) = e # overlapping v es" using True by (simp add: overlapping_def)
    have hp': "health v' = health v - sum_list (map (spec_damage c edm wdm) (overlapping v (e # es)))"
      using hp by (simp add: ovc ov dmg hit_by_fields)
    have fl: "took_damage v' \<and> inv_timer v' = INVINCIBLE_TIME \<and> knock_timer v' = KNOCKBACK_TIME"
    proof (cases "overlapping v es = []")
      case True
      with none ov have "v' = ?v1" by simp
      then show ?thesis by (simp add: hit_by_fields)
    next
      case False
      with some ov show ?thesis by simp
    qed
    from step rect r1 hp' fl ovc show ?thesis by simp
  qed
qed

text \<open>
  C3: with \<open>invincible_timer > 0\<close> the damage step only counts the timer down; health,
  \<open>took_damage\<close> and the knockback variables stay as they are. Otherwise health drops by
  the sum, over every enemy whose rectangle intersects the player's, of
  \<open>floor(kind.damage * enemy_damage_mult * world_enemy_damage_mult)\<close> (each overlap
  counts, none is skipped after the first hit), and if there is such an enemy
  \<open>took_damage\<close> is true and the invincibility and knockback timers are started. The
  hypothesis is the configured range: the intersecting enemies' kinds are in
  \<open>ENEMY_CONFIG\<close> and the damage product is not negative (so that \<open>int\<close> is \<open>floor\<close>).
\<close>

theorem C3_damage_resolution:
  assumes "\<forall>e \<in> set es. colliderect (e_rect e) (player_rect v) \<longrightarrow>
             (\<exists>cfg. map_of (ENEMY_CONFIG c) (e_kind e) = Some cfg
                    \<and> 0 \<le> real_of_int (damage cfg) * edm * wdm)"
  shows "(inv_timer v > 0 \<longrightarrow>
            damage_section c edm wdm sf dt es v = Inr (v\<lparr>inv_timer := inv_timer v - dt\<rparr>))
       \<and> (\<not> inv_timer v > 0 \<longrightarrow>
            (\<exists>v'. damage_section c edm wdm sf dt es v = Inr v'
               \<and> health v' = health v - sum_list (map (spec_damage c edm wdm) (overlapping v es))
               \<and> (overlapping v es \<noteq> [] \<longrightarrow>
                     took_damage v' \<and> inv_timer v' = INVINCIBLE_TIME
                     \<and> knock_timer v' = KNOCKBACK_TIME)
               \<and> (overlapping v es = [] \<longrightarrow> v' = v)))"
proof (intro conjI impI)
  assume "inv_timer v > 0"
  then show "damage_section c edm wdm sf dt es v = Inr (v\<lparr>inv_timer := inv_timer v - dt\<rparr>)"
    by (simp add: damage_section_def)
next
  assume "\<not> inv_timer v > 0"
  then have "damage_section c edm wdm sf dt es v = damage_loop c edm wdm sf es v"
    by (simp add: damage_section_def)
  with damage_loop_sum [OF assms, of sf]
  show "\<exists>v'. damage_section c edm wdm sf dt es v = Inr v'
               \<and> health v' = health v - sum_list (map (spec_damage c edm wdm) (overlapping v es))
               \<and> (overlapping v es \<noteq> [] \<longrightarrow>
                     took_damage v' \<and> inv_timer v' = INVINCIBLE_TIME
                     \<and> knock_timer v' = KNOCKBACK_TIME)
               \<and> (overlapping v es = [] \<longrightarrow> v' = v)"
    by auto
qed

text \<open>
  The theorem at a player with 3 health touched by a walker (damage 1) and a jumper
  (damage 2) at once, a flyer being elsewhere: health drops by 3 in the one frame; with
  half a second of invincibility left nothing but the timer changes.
\<close>

theorem C3_damage_resolution_witness:
  "damage_section shipped_config 1 1 1 (1 / 60)
       [enemy_at ''walker'' (Rect 30 800 48 48), enemy_at ''flyer'' (Rect 500 200 44 44),
        enemy_at ''jumper'' (Rect 100 790 48 48)]
       ((standing 40 3)\<lparr>inv_timer := 1 / 2\<rparr>)
     = Inr ((standing 40 3)\<lparr>inv_timer := 1 / 2 - 1 / 60\<rparr>)
   \<and> (\<exists>v'. damage_section shipped_config 1 1 1 (1 / 60)
              [enemy_at ''walker'' (Rect 30 800 48 48), enemy_at ''flyer'' (Rect 500 200 44 44),
               enemy_at ''jumper'' (Rect 100 790 48 48)]
              (standing 40 3) = Inr v'
          \<and> health v' = 0 \<and> took_damage v' \<and> inv_timer v' = INVINCIBLE_TIME
          \<and> knock_timer v' = KNOCKBACK_TIME)"
proof -
  let ?es = "[enemy_at ''walker'' (Rect 30 800 48 48), enemy_at ''flyer'' (Rect 500 200 44 44),
        enemy_at ''jumper'' (Rect 100 790 48 48)]"
  have rect: "player_rect (standing 40 3) = Rect 40 784 80 80"
    "player_rect ((standing 40 3)\<lparr>inv_timer := 1 / 2\<rparr>) = Rect 40 784 80 80"
    by (simp_all add: standing_def reset_state_def)
  have col: "colliderect (e_rect (enemy_at ''walker'' (Rect 30 800 48 48))) (Rect 40 784 80 80)"
    "\<not> colliderect (e_rect (enemy_at ''flyer'' (Rect 500 200 44 44))) (Rect 40 784 80 80)"
    "colliderect (e_rect (enemy_at ''jumper'' (Rect 100 790 48 48))) (Rect 40 784 80 80)"
    by (simp_all add: colliderect_def enemy_at_def Rect_def)
  have cfgs: "map_of (ENEMY_CONFIG shipped_config) (e_kind (enemy_at ''walker'' (Rect 30 800 48 48)))
        = Some \<lparr>spawn_type = ''platform'', spawn_chance = Some 0, damage = 1, speed = Some 140\<rparr>"
     "map_of (ENEMY_CONFIG shipped_config) (e_kind (enemy_at ''jumper'' (Rect 100 790 48 48)))
        = Some \<lparr>spawn_type = ''ground'', spawn_chance = Some (4 / 100), damage = 2, speed = Some 160\<rparr>"
    by (simp_all add: shipped_config_def shipped_ENEMY_CONFIG_def enemy_at_def)
  have hyp: "\<forall>e \<in> set ?es. colliderect (e_rect e) (player_rect v) \<longrightarrow>
             (\<exists>cfg. map_of (ENEMY_CONFIG shipped_config) (e_kind e) = Some cfg
                    \<and> 0 \<le> real_of_int (damage cfg) * 1 * 1)"
    if "player_rect v = Rect 40 784 80 80" for v
    using that col cfgs by simp
  have ov: "overlapping (standing 40 3) ?es
      = [enemy_at ''walker'' (Rect 30 800 48 48), enemy_at ''jumper'' (Rect 100 790 48 48)]"
    by (simp add: overlapping_def rect col)
  have sm: "sum_list (map (spec_damage shipped_config 1 1) (overlapping (standing 40 3) ?es)) = 3"
    by (simp add: ov spec_damage_def cfgs)
  have t: "inv_timer ((standing 40 3)\<lparr>inv_timer := 1 / 2\<rparr>) > 0"
    "\<not> inv_timer (standing 40 3) > 0" "health (standing 40 3) = 3"
    by (simp_all add: standing_def reset_state_def)
  from C3_damage_resolution [OF hyp [OF rect(2)], of 1 "1 / 60"] t(1)
  have 1: "damage_section shipped_config 1 1 1 (1 / 60) ?es ((standing 40 3)\<lparr>inv_timer := 1 / 2\<rparr>)
     = Inr ((standing 40 3)\<lparr>inv_timer := 1 / 2 - 1 / 60\<rparr>)"
    by simp
  from C3_damage_resolution [OF hyp [OF rect(1)], of 1 "1 / 60"] t(2)
  obtain v' where "damage_section shipped_config 1 1 1 (1 / 60) ?es (standing 40 3) = Inr v'"
    "health v' = health (standing 40 3)
        - sum_list (map (spec_damage shipped_config 1 1) (overlapping (standing 40 3) ?es))"
    "overlapping (standing 40 3) ?es \<noteq> [] \<longrightarrow>
       took_damage v' \<and> inv_timer v' = INVINCIBLE_TIME \<and> knock_timer v' = KNOCKBACK_TIME"
    by blast
  then have "damage_section shipped_config 1 1 1 (1 / 60) ?es (standing 40 3) = Inr v'
      \<and> health v' = 0 \<and> took_damage v' \<and> inv_timer v' = INVINCIBLE_TIME
      \<and> knock_timer v' = KNOCKBACK_TIME"
    using sm t(3) ov by simp
  with 1 show ?thesis by blast
qed

section \<open>Health: results\<close>

lemma health_set_x: "health (set_x x v) = health v" "max_health (set_x x v) = max_health v"
  by (simp_all add: set_x_def)

lemma health_player_movement:
  "health (player_movement st scr inp v) = health v"
  "max_health (player_movement st scr inp v) = max_health v"
  by (simp_all add: player_movement_def jump_section_def gravity_section_def move_section_def
      ground_section_def Let_def health_set_x)

lemma health_stand_on_platform:
  "health (fst (stand_on_platform pc v p)) = health v"
  "max_health (fst (stand_on_platform pc v p)) = max_health v"
  by (simp_all add: stand_on_platform_def Let_def)

lemma health_stand_on_platforms:
  "health (fst (stand_on_platforms pc v ps)) = health v
   \<and> max_health (fst (stand_on_platforms pc v ps)) = max_health v"
proof (induction ps arbitrary: v)
  case Nil
  show ?case by simp
next
  case (Cons p ps)
  obtain v1 p' where a: "stand_on_platform pc v p = (v1, p')" by (cases "stand_on_platform pc v p")
  obtain v2 ps' where b: "stand_on_platforms pc v1 ps = (v2, ps')"
    by (cases "stand_on_platforms pc v1 ps")
  have "health v2 = health v1 \<and> max_health v2 = max_health v1" using Cons.IH [of v1] b by simp
  moreover have "health v1 = health v \<and> max_health v1 = max_health v"
    using health_stand_on_platform [of pc v p] a by simp
  ultimately show ?case using a b by simp
qed

lemma health_knockback:
  "health (knockback_section dt v) = health v"
  "max_health (knockback_section dt v) = max_health v"
  by (simp_all add: knockback_section_def health_set_x)

lemma py_int_nonneg: "0 \<le> x \<Longrightarrow> 0 \<le> py_int x"
  by (simp add: py_int_def)

lemma damage_loop_health:
  assumes "0 \<le> edm" "0 \<le> wdm" "\<forall>cfg \<in> snd ` set (ENEMY_CONFIG c). 0 \<le> damage cfg"
    and "damage_loop c edm wdm sf es v = Inr v'"
  shows "health v' \<le> health v \<and> max_health v' = max_health v"
  using assms(4)
proof (induction es arbitrary: v)
  case Nil
  then show ?case by simp
next
  case (Cons e es)
  show ?case
  proof (cases "colliderect (e_rect e) (player_rect v)")
    case False
    with Cons show ?thesis by simp
  next
    case True
    with Cons.prems obtain cfg where cfg: "map_of (ENEMY_CONFIG c) (e_kind e) = Some cfg"
      and rest: "damage_loop c edm wdm sf es (hit_by edm wdm sf cfg e v) = Inr v'"
      by (auto split: option.splits)
    from cfg have "cfg \<in> snd ` set (ENEMY_CONFIG c)" by (force dest: map_of_SomeD)
    with assms(3) have "0 \<le> damage cfg" by blast
    with assms(1,2) have "0 \<le> real_of_int (damage cfg) * edm * wdm" by simp
    then have "0 \<le> py_int (real_of_int (damage cfg) * edm * wdm)" by (rule py_int_nonneg)
    then have "health (hit_by edm wdm sf cfg e v) \<le> health v"
      by (simp add: hit_by_fields)
    moreover have "max_health (hit_by edm wdm sf cfg e v) = max_health v" by (rule hit_by_fields)
    ultimately show ?thesis using Cons.IH [OF rest] by simp
  qed
qed

lemma playing_frame_not_playing:
  "run_game_state s \<noteq> Playing \<Longrightarrow> playing_frame env inp es s = Inr s"
  by (simp add: playing_frame_def)

lemma playing_frame_health:
  assumes nn: "0 \<le> enemy_damage_mult (env_settings env)" "0 \<le> env_world_damage_mult env"
      "\<forall>cfg \<in> snd ` set (ENEMY_CONFIG (env_config env)). 0 \<le> damage cfg"
    and pl: "run_game_state s = Playing"
    and fr: "playing_frame env inp es s = Inr s'"
  shows "health (run_vars s') \<le> health (run_vars s)
       \<and> max_health (run_vars s') = max_health (run_vars s)
       \<and> (run_game_state s' = Game_over) = (health (run_vars s') \<le> 0)"
proof -
  let ?st = "env_settings env" and ?scr = "env_screen env" and ?dt = "dt_scaled inp"
  let ?v1 = "player_movement ?st ?scr inp (run_vars s)"
  obtain v2 plats where pf: "platforms_frame (env_platform_config env) ?st ?scr ?dt
      (?v1, run_platforms s) = (v2, plats)"
    by (cases "platforms_frame (env_platform_config env) ?st ?scr ?dt (?v1, run_platforms s)")
  have v2: "health v2 = health (run_vars s) \<and> max_health v2 = max_health (run_vars s)"
    using health_stand_on_platforms [of "env_platform_config env" ?v1
        "platforms_update (env_platform_config env) (game_speed_mult ?st) ?dt ?scr
           (run_platforms s)"] pf
    by (simp add: platforms_frame_def health_player_movement)
  from fr pl pf obtain v3 where d: "damage_section (env_config env) (enemy_damage_mult ?st)
        (env_world_damage_mult env) (scale_factor ?scr) ?dt es v2 = Inr v3"
    and s': "s' = \<lparr>run_game_state = (if health (knockback_section ?dt v3) \<le> 0
                                      then Game_over else Playing),
                  run_vars = knockback_section ?dt v3, run_platforms = plats\<rparr>"
    by (auto simp: playing_frame_def Let_def split: sum.splits)
  have v3: "health v3 \<le> health v2 \<and> max_health v3 = max_health v2"
  proof (cases "inv_timer v2 > 0")
    case True
    with d show ?thesis by (auto simp: damage_section_def)
  next
    case False
    with d have "damage_loop (env_config env) (enemy_damage_mult ?st)
        (env_world_damage_mult env) (scale_factor ?scr) es v2 = Inr v3"
      by (simp add: damage_section_def)
    from damage_loop_health [OF nn this] show ?thesis .
  qed
  from s' v2 v3 show ?thesis by (simp add: health_knockback)
qed

lemma play_game_over: "run_game_state s = Game_over \<Longrightarrow> play env fs s = Inr s"
  by (induction fs) (simp_all add: playing_frame_not_playing)

lemma play_health:
  assumes nn: "0 \<le> enemy_damage_mult (env_settings env)" "0 \<le> env_world_damage_mult env"
      "\<forall>cfg \<in> snd ` set (ENEMY_CONFIG (env_config env)). 0 \<le> damage cfg"
    and run: "play env fs s = Inr s'"
    and inv: "health (run_vars s) \<le> max_health (run_vars s)"
      "(run_game_state s = Game_over) = (health (run_vars s) \<le> 0)"
  shows "health (run_vars s') \<le> max_health (run_vars s')
       \<and> max_health (run_vars s') = max_health (run_vars s)
       \<and> (run_game_state s' = Game_over) = (health (run_vars s') \<le> 0)"
  using run inv
proof (induction fs arbitrary: s)
  case Nil
  then show ?case by simp
next
  case (Cons f fs)
  from Cons.prems(1) obtain s1 where f1: "playing_frame env (fst f) (snd f) s = Inr s1"
    and rest: "play env fs s1 = Inr s'"
    by (auto split: sum.splits)
  have s1: "health (run_vars s1) \<le> max_health (run_vars s1)
       \<and> max_health (run_vars s1) = max_health (run_vars s)
       \<and> (run_game_state s1 = Game_over) = (health (run_vars s1) \<le> 0)"
  proof (cases "run_game_state s = Playing")
    case True
    from playing_frame_health [OF nn True f1] Cons.prems(2) show ?thesis by simp
  next
    case False
    with f1 have "s1 = s" by (simp add: playing_frame_not_playing)
    with Cons.prems show ?thesis by simp
  qed
  from Cons.IH [OF rest] s1 show ?case by simp
qed

lemma damage_loop_returns:
  "\<forall>e \<in> set es. map_of (ENEMY_CONFIG c) (e_kind e) \<noteq> None
     \<Longrightarrow> \<exists>v'. damage_loop c edm wdm sf es v = Inr v'"
  by (induction es arbitrary: v) auto

lemma playing_frame_returns:
  assumes "\<forall>e \<in> set es. map_of (ENEMY_CONFIG (env_config env)) (e_kind e) \<noteq> None"
  shows "\<exists>s'. playing_frame env inp es s = Inr s'"
proof (cases "run_game_state s = Playing")
  case False
  then show ?thesis by (simp add: playing_frame_def)
next
  case True
  let ?st = "env_settings env" and ?scr = "env_screen env" and ?dt = "dt_scaled inp"
  obtain v2 plats where pf: "platforms_frame (env_platform_config env) ?st ?scr ?dt
      (player_movement ?st ?scr inp (run_vars s), run_platforms s) = (v2, plats)"
    by (cases "platforms_frame (env_platform_config env) ?st ?scr ?dt
      (player_movement ?st ?scr inp (run_vars s), run_platforms s)")
  have "\<exists>v3. damage_section (env_config env) (enemy_damage_mult ?st)
        (env_world_damage_mult env) (scale_factor ?scr) ?dt es v2 = Inr v3"
  proof (cases "inv_timer v2 > 0")
    case True
    then show ?thesis by (simp add: damage_section_def)
  next
    case False
    with damage_loop_returns [OF assms, of "enemy_damage_mult ?st" "env_world_damage_mult env"
        "scale_factor ?scr" v2]
    show ?thesis by (simp add: damage_section_def)
  qed
  then obtain v3 where
    "damage_section (env_config env) (enemy_damage_mult ?st) (env_world_damage_mult env)
        (scale_factor ?scr) ?dt es v2 = Inr v3"
    by blast
  with True pf show ?thesis by (simp add: playing_frame_def Let_def)
qed

lemma play_returns:
  "\<forall>f \<in> set fs. \<forall>e \<in> set (snd f). map_of (ENEMY_CONFIG (env_config env)) (e_kind e) \<noteq> None
     \<Longrightarrow> \<exists>s'. play env fs s = Inr s'"
proof (induction fs arbitrary: s)
  case Nil
  show ?case by simp
next
  case (Cons f fs)
  from Cons.prems have "\<forall>e \<in> set (snd f). map_of (ENEMY_CONFIG (env_config env)) (e_kind e) \<noteq> None"
    by simp
  from playing_frame_returns [OF this] obtain s1 where
    "playing_frame env (fst f) (snd f) s = Inr s1" by blast
  moreover from Cons.prems have "\<exists>s'. play env fs s1 = Inr s'" by (intro Cons.IH) simp
  ultimately show ?case by simp
qed

text \<open>
  C4 (as stated): health stays within \<open>[0, max_health]\<close>. The damage block subtracts
  without clamping: a player with 1 health left who is touched by a jumper (damage 2)
  ends the frame with health \<open>-1\<close>.
\<close>

theorem C4_health_below_zero_counterexample:
  "playing_frame example_env idle [enemy_at ''jumper'' (Rect 100 790 48 48)]
       \<lparr>run_game_state = Playing, run_vars = standing 40 1, run_platforms = []\<rparr>
     = Inr \<lparr>run_game_state = Game_over,
            run_vars = (standing 40 1)\<lparr>player_rect := Rect 51 784 80 80, health := - 1,
              took_damage := True, inv_timer := INVINCIBLE_TIME,
              knock_timer := KNOCKBACK_TIME - 1 / 60, knock_dx := KNOCKBACK_SPEED,
              shake_timer := SCREEN_SHAKE_HIT\<rparr>,
            run_platforms = []\<rparr>
   \<and> health ((standing 40 1)\<lparr>player_rect := Rect 51 784 80 80, health := - 1,
              took_damage := True, inv_timer := INVINCIBLE_TIME,
              knock_timer := KNOCKBACK_TIME - 1 / 60, knock_dx := KNOCKBACK_SPEED,
              shake_timer := SCREEN_SHAKE_HIT\<rparr>) < 0"
proof -
  have mv: "player_movement example_settings example_screen idle (standing 40 1) = standing 40 1"
    by (simp add: player_movement_def jump_section_def gravity_section_def move_section_def
      ground_section_def move_x_of_def set_x_def clamp_def py_int_def GRAVITY_def Let_def
      example_settings_def example_screen_def reset_state_def Rect_def idle_def standing_def)
  have pf: "platforms_frame shipped_platform_config example_settings example_screen (1 / 60)
      (standing 40 1, []) = (standing 40 1, [])"
    by (simp add: platforms_frame_def)
  have dm: "damage_section shipped_config 1 1 1 (1 / 60)
      [enemy_at ''jumper'' (Rect 100 790 48 48)] (standing 40 1)
    = Inr ((standing 40 1)\<lparr>health := - 1, took_damage := True, inv_timer := INVINCIBLE_TIME,
              knock_timer := KNOCKBACK_TIME, knock_dx := KNOCKBACK_SPEED,
              shake_timer := SCREEN_SHAKE_HIT\<rparr>)"
    by (simp add: damage_section_def hit_by_def colliderect_def enemy_at_def standing_def
        reset_state_def Rect_def shipped_config_def shipped_ENEMY_CONFIG_def centerx_def
        sign_def py_int_def Let_def)
  have kb: "knockback_section (1 / 60)
      ((standing 40 1)\<lparr>health := - 1, took_damage := True, inv_timer := INVINCIBLE_TIME,
              knock_timer := KNOCKBACK_TIME, knock_dx := KNOCKBACK_SPEED,
              shake_timer := SCREEN_SHAKE_HIT\<rparr>)
    = (standing 40 1)\<lparr>player_rect := Rect 51 784 80 80, health := - 1,
              took_damage := True, inv_timer := INVINCIBLE_TIME,
              knock_timer := KNOCKBACK_TIME - 1 / 60, knock_dx := KNOCKBACK_SPEED,
              shake_timer := SCREEN_SHAKE_HIT\<rparr>"
    by (simp add: knockback_section_def set_x_def standing_def reset_state_def Rect_def
        KNOCKBACK_TIME_def KNOCKBACK_SPEED_def py_int_def)
  have env: "env_settings example_env = example_settings" "env_screen example_env = example_screen"
    "env_config example_env = shipped_config"
    "env_platform_config example_env = shipped_platform_config"
    "env_world_damage_mult example_env = 1" "enemy_damage_mult example_settings = 1"
    "scale_factor example_screen = 1" "dt_scaled idle = 1 / 60"
    by (simp_all add: example_env_def example_settings_def example_screen_def idle_def)
  have hp: "health ((standing 40 1)\<lparr>player_rect := Rect 51 784 80 80, health := - 1,
              took_damage := True, inv_timer := INVINCIBLE_TIME,
              knock_timer := KNOCKBACK_TIME - 1 / 60, knock_dx := KNOCKBACK_SPEED,
              shake_timer := SCREEN_SHAKE_HIT\<rparr>) = - 1"
    by simp
  have "playing_frame example_env idle [enemy_at ''jumper'' (Rect 100 790 48 48)]
       \<lparr>run_game_state = Playing, run_vars = standing 40 1, run_platforms = []\<rparr>
     = Inr \<lparr>run_game_state = Game_over,
            run_vars = (standing 40 1)\<lparr>player_rect := Rect 51 784 80 80, health := - 1,
              took_damage := True, inv_timer := INVINCIBLE_TIME,
              knock_timer := KNOCKBACK_TIME - 1 / 60, knock_dx := KNOCKBACK_SPEED,
              shake_timer := SCREEN_SHAKE_HIT\<rparr>,
            run_platforms = []\<rparr>"
    unfolding playing_frame_def Let_def
    by (simp only: env mv pf dm kb hp run.simps game_state.simps if_False if_True
        split_conv sum.case simp_thms) simp
  with hp show ?thesis by simp
qed

text \<open>
  C4 (amended): in every run started by \<open>reset_state\<close> with a positive \<open>max_health\<close>, with
  damage values and multipliers that are not negative and enemies whose kinds are in
  \<open>ENEMY_CONFIG\<close>, every frame completes, and after every frame health is at most
  \<open>max_health\<close> (which does not change), the game state is game-over exactly when
  health is at most 0 (so health is positive whenever a frame is played, but the final
  value may be below 0: it is not clamped), and game-over is terminal: further frames
  leave the run as it is.
\<close>

theorem C4_health_amended:
  assumes "0 \<le> enemy_damage_mult (env_settings env)" "0 \<le> env_world_damage_mult env"
      "\<forall>cfg \<in> snd ` set (ENEMY_CONFIG (env_config env)). 0 \<le> damage cfg"
    and "0 < mh"
    and "\<forall>f \<in> set fs. \<forall>e \<in> set (snd f).
           map_of (ENEMY_CONFIG (env_config env)) (e_kind e) \<noteq> None"
  shows "\<exists>s. play env fs (new_run r mh plats) = Inr s
       \<and> health (run_vars s) \<le> max_health (run_vars s)
       \<and> max_health (run_vars s) = mh
       \<and> (run_game_state s = Game_over) = (health (run_vars s) \<le> 0)
       \<and> (run_game_state s = Game_over \<longrightarrow> play env fs' s = Inr s)"
proof -
  from play_returns [OF assms(5)] obtain s where
    run: "play env fs (new_run r mh plats) = Inr s" by blast
  have "health (run_vars (new_run r mh plats)) \<le> max_health (run_vars (new_run r mh plats))"
    by (simp add: new_run_def reset_state_def)
  moreover have "(run_game_state (new_run r mh plats) = Game_over)
      = (health (run_vars (new_run r mh plats)) \<le> 0)"
    using assms(4) by (simp add: new_run_def reset_state_def)
  ultimately have "health (run_vars s) \<le> max_health (run_vars s)
       \<and> max_health (run_vars s) = max_health (run_vars (new_run r mh plats))
       \<and> (run_game_state s = Game_over) = (health (run_vars s) \<le> 0)"
    by (rule play_health [OF assms(1,2,3) run])
  with run show ?thesis by (simp add: new_run_def reset_state_def play_game_over)
qed

text \<open>
  The theorem at a run of two frames: the player, with 3 health, starts on the ground
  line touched by a walker and a jumper at once; the first frame takes health to 0 and
  ends the run, and the second frame changes nothing.
\<close>

theorem C4_health_amended_witness:
  "0 \<le> enemy_damage_mult (env_settings example_env)
   \<and> 0 \<le> env_world_damage_mult example_env
   \<and> list_all (\<lambda>kc. 0 \<le> damage (snd kc)) (ENEMY_CONFIG (env_config example_env))
   \<and> play example_env
        [(idle, [enemy_at ''walker'' (Rect 30 800 48 48), enemy_at ''jumper'' (Rect 100 790 48 48)]),
         (idle, [enemy_at ''walker'' (Rect 30 800 48 48)])]
        (new_run (Rect 40 784 80 80) 3 [])
      = Inr \<lparr>run_game_state = Game_over,
            run_vars = (standing 40 0)\<lparr>player_rect := Rect 51 784 80 80,
              took_damage := True, inv_timer := INVINCIBLE_TIME,
              knock_timer := KNOCKBACK_TIME - 1 / 60, knock_dx := KNOCKBACK_SPEED,
              shake_timer := SCREEN_SHAKE_HIT\<rparr>,
            run_platforms = []\<rparr>
   \<and> max_health ((standing 40 0)\<lparr>player_rect := Rect 51 784 80 80,
              took_damage := True, inv_timer := INVINCIBLE_TIME,
              knock_timer := KNOCKBACK_TIME - 1 / 60, knock_dx := KNOCKBACK_SPEED,
              shake_timer := SCREEN_SHAKE_HIT\<rparr>) = 3
   \<and> play example_env [(idle, [enemy_at ''walker'' (Rect 30 800 48 48)])]
        \<lparr>run_game_state = Game_over,
            run_vars = (standing 40 0)\<lparr>player_rect := Rect 51 784 80 80,
              took_damage := True, inv_timer := INVINCIBLE_TIME,
              knock_timer := KNOCKBACK_TIME - 1 / 60, knock_dx := KNOCKBACK_SPEED,
              shake_timer := SCREEN_SHAKE_HIT\<rparr>,
            run_platforms = []\<rparr>
      = Inr \<lparr>run_game_state = Game_over,
            run_vars = (standing 40 0)\<lparr>player_rect := Rect 51 784 80 80,
              took_damage := True, inv_timer := INVINCIBLE_TIME,
              knock_timer := KNOCKBACK_TIME - 1 / 60, knock_dx := KNOCKBACK_SPEED,
              shake_timer := SCREEN_SHAKE_HIT\<rparr>,
            run_platforms = []\<rparr>"
proof -
  let ?es = "[enemy_at ''walker'' (Rect 30 800 48 48), enemy_at ''jumper'' (Rect 100 790 48 48)]"
  let ?v = "(standing 40 0)\<lparr>player_rect := Rect 51 784 80 80,
              took_damage := True, inv_timer := INVINCIBLE_TIME,
              knock_timer := KNOCKBACK_TIME - 1 / 60, knock_dx := KNOCKBACK_SPEED,
              shake_timer := SCREEN_SHAKE_HIT\<rparr>"
  let ?s = "\<lparr>run_game_state = Game_over, run_vars = ?v, run_platforms = []\<rparr>"
  have nn: "0 \<le> enemy_damage_mult (env_settings example_env)"
    "0 \<le> env_world_damage_mult example_env"
    "\<forall>cfg \<in> snd ` set (ENEMY_CONFIG (env_config example_env)). 0 \<le> damage cfg"
    by (simp_all add: example_env_def example_settings_def shipped_config_def
        shipped_ENEMY_CONFIG_def)
  have mv: "player_movement example_settings example_screen idle (reset_state (Rect 40 784 80 80) 3)
      = standing 40 3"
    by (simp add: player_movement_def jump_section_def gravity_section_def move_section_def
      ground_section_def move_x_of_def set_x_def clamp_def py_int_def GRAVITY_def Let_def
      example_settings_def example_screen_def reset_state_def Rect_def idle_def standing_def)
  have pf: "platforms_frame shipped_platform_config example_settings example_screen (1 / 60)
      (standing 40 3, []) = (standing 40 3, [])"
    by (simp add: platforms_frame_def)
  have dm: "damage_section shipped_config 1 1 1 (1 / 60) ?es (standing 40 3)
    = Inr ((standing 40 0)\<lparr>took_damage := True, inv_timer := INVINCIBLE_TIME,
              knock_timer := KNOCKBACK_TIME, knock_dx := KNOCKBACK_SPEED,
              shake_timer := SCREEN_SHAKE_HIT\<rparr>)"
    by (simp add: damage_section_def hit_by_def colliderect_def enemy_at_def standing_def
        reset_state_def Rect_def shipped_config_def shipped_ENEMY_CONFIG_def centerx_def
        sign_def py_int_def Let_def)
  have kb: "knockback_section (1 / 60)
      ((standing 40 0)\<lparr>took_damage := True, inv_timer := INVINCIBLE_TIME,
              knock_timer := KNOCKBACK_TIME, knock_dx := KNOCKBACK_SPEED,
              shake_timer := SCREEN_SHAKE_HIT\<rparr>) = ?v"
    by (simp add: knockback_section_def set_x_def standing_def reset_state_def Rect_def
        KNOCKBACK_TIME_def KNOCKBACK_SPEED_def py_int_def)
  have env: "env_settings example_env = example_settings" "env_screen example_env = example_screen"
    "env_config example_env = shipped_config"
    "env_platform_config example_env = shipped_platform_config"
    "env_world_damage_mult example_env = 1" "enemy_damage_mult example_settings = 1"
    "scale_factor example_screen = 1" "dt_scaled idle = 1 / 60"
    by (simp_all add: example_env_def example_settings_def example_screen_def idle_def)
  have hp: "health ?v = 0" by (simp add: standing_def)
  have mh: "max_health ?v = 3" by (simp add: standing_def reset_state_def)
  have f1: "playing_frame example_env idle ?es (new_run (Rect 40 784 80 80) 3 []) = Inr ?s"
    unfolding playing_frame_def Let_def new_run_def
    by (simp only: env mv pf dm kb hp run.simps game_state.simps if_False if_True
        split_conv sum.case simp_thms) simp
  have f2: "playing_frame example_env idle [enemy_at ''walker'' (Rect 30 800 48 48)] ?s = Inr ?s"
    by (simp add: playing_frame_def)
  have run: "play example_env [(idle, ?es), (idle, [enemy_at ''walker'' (Rect 30 800 48 48)])]
        (new_run (Rect 40 784 80 80) 3 []) = Inr ?s"
    by (simp add: f1 f2)
  have pos: "(0::int) < 3" by simp
  have known: "\<forall>f \<in> set [(idle, ?es), (idle, [enemy_at ''walker'' (Rect 30 800 48 48)])].
      \<forall>e \<in> set (snd f). map_of (ENEMY_CONFIG (env_config example_env)) (e_kind e) \<noteq> None"
    by (simp add: example_env_def shipped_config_def shipped_ENEMY_CONFIG_def enemy_at_def
        del: not_None_eq)
  from C4_health_amended [OF nn pos known,
      of "Rect 40 784 80 80" "[]" "[(idle, [enemy_at ''walker'' (Rect 30 800 48 48)])]"] run
  have "play example_env [(idle, [enemy_at ''walker'' (Rect 30 800 48 48)])] ?s = Inr ?s"
    and "max_health ?v = 3"
    by simp_all
  moreover have "list_all (\<lambda>kc. 0 \<le> damage (snd kc)) (ENEMY_CONFIG (env_config example_env))"
    by (simp add: example_env_def shipped_config_def shipped_ENEMY_CONFIG_def)
  ultimately show ?thesis using nn(1,2) run by blast
qed

section \<open>Fragile platforms: results\<close>

lemma move_platform_keeps:
  "p_type (move_platform pc gsm dt p) = p_type p"
  "fragile_hits (move_platform pc gsm dt p) = fragile_hits p"
  by (simp_all add: move_platform_def Let_def)

lemma platforms_update_no_broken:
  "q \<in> set (platforms_update pc gsm dt scr ps)
     \<Longrightarrow> \<not> (p_type q = ''fragile'' \<and> hits_to_break pc \<le> fragile_hits q)"
  by (induction ps) (auto simp: Let_def split: if_splits)

lemma stand_on_platform_rect: "p_rect (snd (stand_on_platform pc v p)) = p_rect p"
  by (simp add: stand_on_platform_def Let_def)

lemma stand_on_platforms_rects:
  "map p_rect (snd (stand_on_platforms pc v ps)) = map p_rect ps"
proof (induction ps arbitrary: v)
  case Nil
  show ?case by simp
next
  case (Cons p ps)
  obtain v1 p' where a: "stand_on_platform pc v p = (v1, p')" by (cases "stand_on_platform pc v p")
  obtain v2 ps' where b: "stand_on_platforms pc v1 ps = (v2, ps')"
    by (cases "stand_on_platforms pc v1 ps")
  have "p_rect p' = p_rect p" using stand_on_platform_rect [of pc v p] a by simp
  moreover have "map p_rect ps' = map p_rect ps" using Cons.IH [of v1] b by simp
  ultimately show ?case using a b by simp
qed

lemma fragile_landing:
  "lands_on v p \<Longrightarrow> p_type p = ''fragile''
     \<Longrightarrow> snd (stand_on_platform pc v p) = p\<lparr>fragile_hits := fragile_hits p + 1\<rparr>"
  by (simp add: stand_on_platform_def Let_def)

lemma broken_removed:
  "p_type p = ''fragile'' \<Longrightarrow> hits_to_break pc \<le> fragile_hits p
     \<Longrightarrow> platforms_update pc gsm dt scr [p] = []"
  by (simp add: Let_def move_platform_keeps)

lemma landing_frame:
  "platforms_frame shipped_platform_config example_settings example_screen (1 / 60)
       (airborne 625 100, [fragile_platform (Rect 200 700 200 24)])
     = ((airborne 620 0)\<lparr>on_ground := True\<rparr>,
        [(fragile_platform (Rect 197 700 200 24))\<lparr>fragile_hits := 1\<rparr>])"
proof -
  have up: "platforms_update shipped_platform_config (game_speed_mult example_settings) (1 / 60)
      example_screen [fragile_platform (Rect 200 700 200 24)]
      = [fragile_platform (Rect 197 700 200 24)]"
    by (simp add: move_platform_def fragile_platform_def shipped_platform_config_def
        example_settings_def example_screen_def Rect_def right_def top_def py_int_def
        GAME_SPEED_BASE_def Let_def)
  have ld: "lands_on (airborne 625 100) (fragile_platform (Rect 197 700 200 24))"
    by (simp add: lands_on_def airborne_def reset_state_def fragile_platform_def Rect_def
        bottom_def top_def left_def right_def centerx_def Let_def)
  have st: "stand_on_platform shipped_platform_config (airborne 625 100)
        (fragile_platform (Rect 197 700 200 24))
      = ((airborne 620 0)\<lparr>on_ground := True\<rparr>,
         (fragile_platform (Rect 197 700 200 24))\<lparr>fragile_hits := 1\<rparr>)"
    using ld
    by (simp add: stand_on_platform_def airborne_def reset_state_def fragile_platform_def
        Rect_def set_bottom_def top_def Let_def)
  show ?thesis by (simp add: platforms_frame_def up st del: platforms_update.simps)
qed

text \<open>
  C6 (as stated): a platform with \<open>hits_to_break = 1\<close> is removed on the update that
  follows its second stand-on event. With the shipped table (\<open>hits_to_break = 1\<close>) the
  player lands on a fresh fragile platform: at the end of that frame the platform is
  still in the list, with one hit; the update pass of the next frame removes it, so
  it is gone after its first stand-on event and there is no second one.
\<close>

theorem C6_fragile_first_landing_counterexample:
  "hits_to_break shipped_platform_config = 1
   \<and> platforms_frame shipped_platform_config example_settings example_screen (1 / 60)
        (airborne 625 100, [fragile_platform (Rect 200 700 200 24)])
      = ((airborne 620 0)\<lparr>on_ground := True\<rparr>,
         [(fragile_platform (Rect 197 700 200 24))\<lparr>fragile_hits := 1\<rparr>])
   \<and> snd (platforms_frame shipped_platform_config example_settings example_screen (1 / 60)
        ((airborne 620 0)\<lparr>on_ground := True\<rparr>,
         [(fragile_platform (Rect 197 700 200 24))\<lparr>fragile_hits := 1\<rparr>])) = []"
proof -
  have "platforms_update shipped_platform_config (game_speed_mult example_settings) (1 / 60)
      example_screen [(fragile_platform (Rect 197 700 200 24))\<lparr>fragile_hits := 1\<rparr>] = []"
    by (rule broken_removed) (simp_all add: fragile_platform_def shipped_platform_config_def)
  then have "snd (platforms_frame shipped_platform_config example_settings example_screen (1 / 60)
        ((airborne 620 0)\<lparr>on_ground := True\<rparr>,
         [(fragile_platform (Rect 197 700 200 24))\<lparr>fragile_hits := 1\<rparr>])) = []"
    by (simp add: platforms_frame_def del: platforms_update.simps)
  moreover have "hits_to_break shipped_platform_config = 1"
    by (simp add: shipped_platform_config_def)
  ultimately show ?thesis using landing_frame by blast
qed

text \<open>
  C6 (amended): landing on a fragile platform increments its hit counter (and a
  platform that is not landed on is left as it is); the standing pass removes no
  platform, so the platform whose counter has just reached \<open>hits_to_break\<close> stays in the
  list for the rest of that frame; the update pass drops every fragile platform whose
  counter has reached \<open>hits_to_break\<close>, so none is left after it; in particular a fresh
  platform with \<open>hits_to_break = 1\<close> is removed by the update pass that follows its first
  stand-on event.
\<close>

theorem C6_fragile_amended:
  "(lands_on v p \<and> p_type p = ''fragile'' \<longrightarrow>
      snd (stand_on_platform pc v p) = p\<lparr>fragile_hits := fragile_hits p + 1\<rparr>)
   \<and> (\<not> lands_on v p \<longrightarrow> snd (stand_on_platform pc v p) = p)
   \<and> map p_rect (snd (stand_on_platforms pc v ps)) = map p_rect ps
   \<and> (\<forall>q \<in> set (platforms_update pc gsm dt scr ps).
         \<not> (p_type q = ''fragile'' \<and> hits_to_break pc \<le> fragile_hits q))
   \<and> (lands_on v p \<and> p_type p = ''fragile'' \<and> fragile_hits p = 0 \<and> hits_to_break pc = 1 \<longrightarrow>
        platforms_update pc gsm dt scr [snd (stand_on_platform pc v p)] = [])"
proof (intro conjI impI ballI)
  assume "lands_on v p \<and> p_type p = ''fragile''"
  then show "snd (stand_on_platform pc v p) = p\<lparr>fragile_hits := fragile_hits p + 1\<rparr>"
    by (simp add: fragile_landing)
next
  assume "\<not> lands_on v p"
  then show "snd (stand_on_platform pc v p) = p" by (simp add: stand_on_platform_def)
next
  show "map p_rect (snd (stand_on_platforms pc v ps)) = map p_rect ps"
    by (rule stand_on_platforms_rects)
next
  fix q assume "q \<in> set (platforms_update pc gsm dt scr ps)"
  then show "\<not> (p_type q = ''fragile'' \<and> hits_to_break pc \<le> fragile_hits q)"
    by (rule platforms_update_no_broken)
next
  assume a: "lands_on v p \<and> p_type p = ''fragile'' \<and> fragile_hits p = 0 \<and> hits_to_break pc = 1"
  then have "snd (stand_on_platform pc v p) = p\<lparr>fragile_hits := fragile_hits p + 1\<rparr>"
    by (simp add: fragile_landing)
  moreover have "platforms_update pc gsm dt scr [p\<lparr>fragile_hits := fragile_hits p + 1\<rparr>] = []"
    using a by (intro broken_removed) simp_all
  ultimately show "platforms_update pc gsm dt scr [snd (stand_on_platform pc v p)] = []"
    by simp
qed

text \<open>
  The theorem at the landing above, and at an update pass over a fragile platform
  that has not been stood on, which survives it.
\<close>

theorem C6_fragile_amended_witness:
  "lands_on (airborne 625 100) (fragile_platform (Rect 197 700 200 24))
   \<and> snd (stand_on_platform shipped_platform_config (airborne 625 100)
            (fragile_platform (Rect 197 700 200 24)))
      = (fragile_platform (Rect 197 700 200 24))\<lparr>fragile_hits := 1\<rparr>
   \<and> \<not> lands_on (airborne 500 100) (fragile_platform (Rect 197 700 200 24))
   \<and> snd (stand_on_platform shipped_platform_config (airborne 500 100)
            (fragile_platform (Rect 197 700 200 24)))
      = fragile_platform (Rect 197 700 200 24)
   \<and> platforms_update shipped_platform_config 1 (1 / 60) example_screen
        [snd (stand_on_platform shipped_platform_config (airborne 625 100)
            (fragile_platform (Rect 197 700 200 24)))] = []
   \<and> fragile_platform (Rect 197 700 200 24)
        \<in> set (platforms_update shipped_platform_config 1 (1 / 60) example_screen
                 [fragile_platform (Rect 200 700 200 24)])
   \<and> \<not> (p_type (fragile_platform (Rect 197 700 200 24)) = ''fragile''
         \<and> hits_to_break shipped_platform_config
              \<le> fragile_hits (fragile_platform (Rect 197 700 200 24)))"
proof -
  let ?P = "fragile_platform (Rect 197 700 200 24)"
  have ld: "lands_on (airborne 625 100) ?P"
    by (simp add: lands_on_def airborne_def reset_state_def fragile_platform_def Rect_def
        bottom_def top_def left_def right_def centerx_def Let_def)
  have nl: "\<not> lands_on (airborne 500 100) ?P"
    by (simp add: lands_on_def airborne_def reset_state_def fragile_platform_def Rect_def
        bottom_def top_def left_def right_def centerx_def Let_def)
  have fr: "p_type ?P = ''fragile''" "fragile_hits ?P = 0"
    "hits_to_break shipped_platform_config = 1"
    by (simp_all add: fragile_platform_def shipped_platform_config_def)
  have up: "?P \<in> set (platforms_update shipped_platform_config 1 (1 / 60)
      example_screen [fragile_platform (Rect 200 700 200 24)])"
    by (simp add: move_platform_def fragile_platform_def shipped_platform_config_def
        example_screen_def Rect_def right_def top_def py_int_def
        GAME_SPEED_BASE_def Let_def)
  note thm1 = C6_fragile_amended [where v = "airborne 625 100" and p = ?P
      and pc = shipped_platform_config and gsm = 1 and dt = "1 / 60" and scr = example_screen
      and ps = "[fragile_platform (Rect 200 700 200 24)]"]
  note thm2 = C6_fragile_amended [where v = "airborne 500 100" and p = ?P
      and pc = shipped_platform_config and gsm = 1 and dt = "1 / 60" and scr = example_screen
      and ps = "[]"]
  from thm1 ld fr have 1: "snd (stand_on_platform shipped_platform_config (airborne 625 100) ?P)
      = ?P\<lparr>fragile_hits := 1\<rparr>"
    by simp
  from thm2 nl have 2: "snd (stand_on_platform shipped_platform_config (airborne 500 100) ?P) = ?P"
    by blast
  from thm1 ld fr have 3: "platforms_update shipped_platform_config 1 (1 / 60) example_screen
        [snd (stand_on_platform shipped_platform_config (airborne 625 100) ?P)] = []"
    by blast
  from thm1 up have 4: "\<not> (p_type ?P = ''fragile''
         \<and> hits_to_break shipped_platform_config \<le> fragile_hits ?P)"
    by blast
  from ld nl 1 2 3 4 up show ?thesis by blast
qed

section \<open>Jumper cooldown: results\<close>

lemma py_uniform_range:
  "0 \<le> b \<Longrightarrow> 0 \<le> u \<Longrightarrow> u \<le> 1 \<Longrightarrow> 0 \<le> py_uniform 0 b u \<and> py_uniform 0 b u \<le> b"
  by (simp add: py_uniform_def mult_left_le)

lemma jump_update_cooldown:
  assumes "behavior_type c (e_kind e) = ''jump''"
  shows "jump_cooldown (update_enemy_behavior c dt gs sf sw sh u e)
     = Some (fst (jump_timer_step dt (bcfg_get jump_interval c (e_kind e) 2)
                    (bcfg_get jump_force c (e_kind e) (- 750) * sf) u (jump_cooldown e) (e_vy e)))"
  using assms by (simp add: update_enemy_behavior_def Let_def split_def)

lemma jump_update_vy:
  assumes "behavior_type c (e_kind e) = ''jump''"
  shows "e_vy (update_enemy_behavior c dt gs sf sw sh u e)
     = (let vy2 = snd (jump_timer_step dt (bcfg_get jump_interval c (e_kind e) 2)
                    (bcfg_get jump_force c (e_kind e) (- 750) * sf) u (jump_cooldown e) (e_vy e))
                  + GRAVITY * (9 / 10) * dt
        in if sh \<le> ry (e_rect e) + py_int (vy2 * dt) + rh (e_rect e) then 0 else vy2)"
  using assms by (simp add: update_enemy_behavior_def Let_def split_def bottom_def)

lemma jump_update_bottom:
  assumes "behavior_type c (e_kind e) = ''jump''"
  shows "bottom (e_rect (update_enemy_behavior c dt gs sf sw sh u e))
     = (let vy2 = snd (jump_timer_step dt (bcfg_get jump_interval c (e_kind e) 2)
                    (bcfg_get jump_force c (e_kind e) (- 750) * sf) u (jump_cooldown e) (e_vy e))
                  + GRAVITY * (9 / 10) * dt
        in if sh \<le> ry (e_rect e) + py_int (vy2 * dt) + rh (e_rect e) then sh
           else ry (e_rect e) + py_int (vy2 * dt) + rh (e_rect e))"
  using assms by (simp add: update_enemy_behavior_def Let_def split_def bottom_def set_bottom_def)

lemma jump_timer_step_cases:
  "jump_timer_step dt ji jf u cooldown vy =
     (if (case cooldown of Some cd \<Rightarrow> cd | None \<Rightarrow> py_uniform 0 ji u) \<le> dt then (ji, jf)
      else ((case cooldown of Some cd \<Rightarrow> cd | None \<Rightarrow> py_uniform 0 ji u) - dt, vy))"
  by (simp add: jump_timer_step_def Let_def)

text \<open>
  C7 (as stated): the cooldown of a jumper is initialised at spawn to a random value
  in \<open>[0, jump_interval]\<close>, that is to \<open>random.uniform(0.0, jump_interval)\<close>.
  \<open>spawn_ground_enemy\<close>, which creates the jumpers, sets it to \<open>0.0\<close> whatever is drawn:
  for the draw 1/2 the uniform value would be 1.
\<close>

theorem C7_spawn_cooldown_counterexample:
  "spawn_ground_enemy shipped_config ''jumper'' no_sprites 1920 1080 1 50
     = Some \<lparr>e_kind = ''jumper'', e_rect = Rect 1970 1032 48 48, e_vx = - 160, e_vy = 0,
             e_t = 0, e_state = ''run'', e_base_y = 1056, jump_cooldown = Some 0,
             e_remove = False\<rparr>
   \<and> Some (0::real)
       \<noteq> Some (py_uniform 0 (bcfg_get jump_interval shipped_config ''jumper'' 2) (1 / 2))"
  by (simp add: spawn_ground_enemy_def make_enemy_rect_def no_sprites_def shipped_config_def
      shipped_ENEMY_CONFIG_def shipped_ENEMY_BEHAVIOR_CONFIG_def bcfg_get_def py_uniform_def
      py_int_def Rect_def centery_def Let_def)

text \<open>
  C7 (amended): an enemy created by \<open>spawn_ground_enemy\<close> (every spawned jumper) starts
  with the cooldown 0.0, not with a random value, so it jumps on its first update; an
  enemy with the jump behaviour that has no cooldown yet (one placed by a custom
  level) starts its first update from a uniform draw, which lies in
  \<open>[0, jump_interval]\<close>. At every update of the jump behaviour the cooldown decreases by
  \<open>dt\<close>; when that reaches zero or less, the vertical velocity is set to the configured
  jump force scaled by \<open>scale_factor\<close> and the cooldown is reset to exactly
  \<open>jump_interval\<close>. The velocity stored by that update is the jump force plus the
  update's gravity step, or 0 when the enemy is on the floor after moving.
\<close>

theorem C7_jumper_amended:
  assumes "behavior_type c (e_kind e) = ''jump''"
  shows "(map_of (ENEMY_CONFIG c) k \<noteq> None \<longrightarrow>
            map_option jump_cooldown (spawn_ground_enemy c k spr sw sh sf xoff) = Some (Some 0))
       \<and> (jump_cooldown e = None \<and> 0 \<le> bcfg_get jump_interval c (e_kind e) 2 \<and> 0 \<le> u \<and> u \<le> 1
            \<longrightarrow> 0 \<le> start_cooldown c u e
                \<and> start_cooldown c u e \<le> bcfg_get jump_interval c (e_kind e) 2)
       \<and> (dt < start_cooldown c u e \<longrightarrow>
            jump_cooldown (update_enemy_behavior c dt gs sf sw sh u e)
              = Some (start_cooldown c u e - dt))
       \<and> (start_cooldown c u e \<le> dt \<longrightarrow>
            jump_cooldown (update_enemy_behavior c dt gs sf sw sh u e)
              = Some (bcfg_get jump_interval c (e_kind e) 2)
            \<and> snd (jump_timer_step dt (bcfg_get jump_interval c (e_kind e) 2)
                     (bcfg_get jump_force c (e_kind e) (- 750) * sf) u (jump_cooldown e) (e_vy e))
                = bcfg_get jump_force c (e_kind e) (- 750) * sf
            \<and> (e_vy (update_enemy_behavior c dt gs sf sw sh u e)
                  = bcfg_get jump_force c (e_kind e) (- 750) * sf + GRAVITY * (9 / 10) * dt
                \<or> e_vy (update_enemy_behavior c dt gs sf sw sh u e) = 0
                  \<and> bottom (e_rect (update_enemy_behavior c dt gs sf sw sh u e)) = sh))"
proof (intro conjI impI)
  assume "map_of (ENEMY_CONFIG c) k \<noteq> None"
  then show "map_option jump_cooldown (spawn_ground_enemy c k spr sw sh sf xoff) = Some (Some 0)"
    by (auto simp: spawn_ground_enemy_def Let_def)
next
  assume a: "jump_cooldown e = None \<and> 0 \<le> bcfg_get jump_interval c (e_kind e) 2 \<and> 0 \<le> u \<and> u \<le> 1"
  then have "start_cooldown c u e = py_uniform 0 (bcfg_get jump_interval c (e_kind e) 2) u"
    by (simp add: start_cooldown_def)
  with a py_uniform_range [of "bcfg_get jump_interval c (e_kind e) 2" u]
  show "0 \<le> start_cooldown c u e" "start_cooldown c u e \<le> bcfg_get jump_interval c (e_kind e) 2"
    by simp_all
next
  assume "dt < start_cooldown c u e"
  then show "jump_cooldown (update_enemy_behavior c dt gs sf sw sh u e)
              = Some (start_cooldown c u e - dt)"
    by (simp add: jump_update_cooldown [OF assms] jump_timer_step_cases start_cooldown_def)
next
  assume le: "start_cooldown c u e \<le> dt"
  then show "jump_cooldown (update_enemy_behavior c dt gs sf sw sh u e)
              = Some (bcfg_get jump_interval c (e_kind e) 2)"
    by (simp add: jump_update_cooldown [OF assms] jump_timer_step_cases start_cooldown_def)
  from le show vy1: "snd (jump_timer_step dt (bcfg_get jump_interval c (e_kind e) 2)
                     (bcfg_get jump_force c (e_kind e) (- 750) * sf) u (jump_cooldown e) (e_vy e))
                = bcfg_get jump_force c (e_kind e) (- 750) * sf"
    by (simp add: jump_timer_step_cases start_cooldown_def)
  show "e_vy (update_enemy_behavior c dt gs sf sw sh u e)
                  = bcfg_get jump_force c (e_kind e) (- 750) * sf + GRAVITY * (9 / 10) * dt
                \<or> e_vy (update_enemy_behavior c dt gs sf sw sh u e) = 0
                  \<and> bottom (e_rect (update_enemy_behavior c dt gs sf sw sh u e)) = sh"
    unfolding jump_update_vy [OF assms] jump_update_bottom [OF assms] vy1 Let_def
    by simp
qed

text \<open>
  The theorem at the shipped jumper (\<open>jump_interval = 2.0\<close>, \<open>jump_force = -750.0\<close>,
  scale 1) standing on the floor of a 1080 pixel high screen: at spawn the cooldown is
  0; with one second left a frame of 1/60 s leaves 59/60; with 1/60 s left the frame
  resets the cooldown to 2 and the jumper leaves the floor at \<open>-750 + 33 = -717\<close>; and
  a jumper without a cooldown that draws 1/2 starts from 1.
\<close>

theorem C7_jumper_amended_witness:
  "map_option jump_cooldown (spawn_ground_enemy shipped_config ''jumper'' no_sprites 1920 1080 1 50)
     = Some (Some 0)
   \<and> 0 \<le> start_cooldown shipped_config (1 / 2) (enemy_at ''jumper'' (Rect 900 1032 48 48))
   \<and> start_cooldown shipped_config (1 / 2) (enemy_at ''jumper'' (Rect 900 1032 48 48)) \<le> 2
   \<and> jump_cooldown (update_enemy_behavior shipped_config (1 / 60) 220 1 1920 1080 0
        ((enemy_at ''jumper'' (Rect 900 1032 48 48))\<lparr>jump_cooldown := Some 1\<rparr>))
      = Some (59 / 60)
   \<and> jump_cooldown (update_enemy_behavior shipped_config (1 / 60) 220 1 1920 1080 0
        ((enemy_at ''jumper'' (Rect 900 1032 48 48))\<lparr>jump_cooldown := Some (1 / 60)\<rparr>))
      = Some 2
   \<and> e_vy (update_enemy_behavior shipped_config (1 / 60) 220 1 1920 1080 0
        ((enemy_at ''jumper'' (Rect 900 1032 48 48))\<lparr>jump_cooldown := Some (1 / 60)\<rparr>))
      = - 717"
proof -
  let ?e = "enemy_at ''jumper'' (Rect 900 1032 48 48)"
  have bt: "behavior_type shipped_config (e_kind (?e\<lparr>jump_cooldown := cd\<rparr>)) = ''jump''"
    "behavior_type shipped_config (e_kind ?e) = ''jump''" for cd
    by (simp_all add: behavior_type_def bcfg_get_def shipped_config_def
        shipped_ENEMY_BEHAVIOR_CONFIG_def enemy_at_def)
  have cfg: "map_of (ENEMY_CONFIG shipped_config) ''jumper'' \<noteq> None"
    by (simp add: shipped_config_def shipped_ENEMY_CONFIG_def)
  have ji: "bcfg_get jump_interval shipped_config (e_kind (?e\<lparr>jump_cooldown := cd\<rparr>)) 2 = 2"
    "bcfg_get jump_interval shipped_config (e_kind ?e) 2 = 2"
    "bcfg_get jump_force shipped_config (e_kind (?e\<lparr>jump_cooldown := cd\<rparr>)) (- 750) = - 750"
    "bcfg_get jump_force shipped_config (e_kind ?e) (- 750) = - 750" for cd
    by (simp_all add: bcfg_get_def shipped_config_def shipped_ENEMY_BEHAVIOR_CONFIG_def
        enemy_at_def)
  have sc: "start_cooldown shipped_config 0 (?e\<lparr>jump_cooldown := Some cd\<rparr>) = cd" for cd
    by (simp add: start_cooldown_def)
  have none: "jump_cooldown ?e = None" by (simp add: enemy_at_def)
  from C7_jumper_amended [OF bt(2), where k = "''jumper''" and spr = no_sprites and sw = 1920
      and sh = 1080 and sf = 1 and xoff = 50 and u = "1 / 2"] cfg none
  have 1: "map_option jump_cooldown
      (spawn_ground_enemy shipped_config ''jumper'' no_sprites 1920 1080 1 50) = Some (Some 0)"
    and 2: "0 \<le> start_cooldown shipped_config (1 / 2) ?e"
      "start_cooldown shipped_config (1 / 2) ?e \<le> 2"
    by (simp_all add: ji)
  from C7_jumper_amended [OF bt(1) [of "Some 1"], where u = 0 and dt = "1 / 60" and gs = 220
      and sf = 1 and sw = 1920 and sh = 1080]
  have 3: "jump_cooldown (update_enemy_behavior shipped_config (1 / 60) 220 1 1920 1080 0
        (?e\<lparr>jump_cooldown := Some 1\<rparr>)) = Some (59 / 60)"
    by (simp add: sc)
  note t4 = C7_jumper_amended [OF bt(1) [of "Some (1 / 60)"], where u = 0 and dt = "1 / 60"
      and gs = 220 and sf = 1 and sw = 1920 and sh = 1080]
  from t4 have 4: "jump_cooldown (update_enemy_behavior shipped_config (1 / 60) 220 1 1920 1080 0
        (?e\<lparr>jump_cooldown := Some (1 / 60)\<rparr>)) = Some 2"
    by (simp add: sc ji)
  have nb: "bottom (e_rect (update_enemy_behavior shipped_config (1 / 60) 220 1 1920 1080 0
        (?e\<lparr>jump_cooldown := Some (1 / 60)\<rparr>))) \<noteq> 1080"
    unfolding jump_update_bottom [OF bt(1) [of "Some (1 / 60)"]]
    by (simp add: jump_timer_step_cases bcfg_get_def shipped_config_def
        shipped_ENEMY_BEHAVIOR_CONFIG_def enemy_at_def Rect_def GRAVITY_def py_int_def Let_def)
  from t4 nb have 5: "e_vy (update_enemy_behavior shipped_config (1 / 60) 220 1 1920 1080 0
        (?e\<lparr>jump_cooldown := Some (1 / 60)\<rparr>)) = - 717"
    by (simp add: sc ji GRAVITY_def)
  from 1 2 3 4 5 show ?thesis by blast
qed

section \<open>Spawn roll: results\<close>

lemma spawn_air_enemy_kind:
  "spawn_air_enemy c kind spr sw sh sm sf x y = Some e \<Longrightarrow> e_kind e = kind"
  by (auto simp: spawn_air_enemy_def Let_def split: option.splits)

lemma spawn_ground_enemy_kind:
  "spawn_ground_enemy c kind spr sw sh sf x = Some e \<Longrightarrow> e_kind e = kind"
  by (auto simp: spawn_ground_enemy_def Let_def split: option.splits)

lemma spawn_air_enemy_Some:
  "map_of (ENEMY_CONFIG c) kind \<noteq> None \<Longrightarrow> \<exists>e. spawn_air_enemy c kind spr sw sh sm sf x y = Some e"
  by (auto simp: spawn_air_enemy_def Let_def)

lemma spawn_ground_enemy_Some:
  "map_of (ENEMY_CONFIG c) kind \<noteq> None \<Longrightarrow> \<exists>e. spawn_ground_enemy c kind spr sw sh sf x = Some e"
  by (auto simp: spawn_ground_enemy_def Let_def)

lemma spawn_roll_loop_kinds:
  assumes "\<forall>kc \<in> set tbl. map_of (ENEMY_CONFIG c) (fst kc) \<noteq> None
             \<and> ((spawn_type (snd kc) = ''air'' \<or> spawn_type (snd kc) = ''ground'')
                  \<longrightarrow> spawn_chance (snd kc) \<noteq> None)"
  shows "\<exists>es'. spawn_roll_loop c esm wsm dt spr scr draws tbl es = Inr es'
           \<and> map e_kind es' = map e_kind es @ rolled_kinds esm wsm dt draws tbl"
  using assms
proof (induction tbl arbitrary: es)
  case Nil
  show ?case by (simp add: rolled_kinds_def)
next
  case (Cons kc tbl)
  obtain kind cfg_e where kc: "kc = (kind, cfg_e)" by (cases kc)
  from Cons.prems kc have known: "map_of (ENEMY_CONFIG c) kind \<noteq> None" by simp
  from Cons.prems have rest: "\<forall>kc \<in> set tbl. map_of (ENEMY_CONFIG c) (fst kc) \<noteq> None
             \<and> ((spawn_type (snd kc) = ''air'' \<or> spawn_type (snd kc) = ''ground'')
                  \<longrightarrow> spawn_chance (snd kc) \<noteq> None)" by simp
  note IH = Cons.IH [OF rest]
  show ?case
  proof (cases "roll_succeeds esm wsm dt draws (kind, cfg_e)")
    case False
    then have skip: "spawn_roll_loop c esm wsm dt spr scr draws ((kind, cfg_e) # tbl) es
        = spawn_roll_loop c esm wsm dt spr scr draws tbl es"
      using Cons.prems kc by (auto simp: roll_succeeds_def split: option.splits)
    from False have "rolled_kinds esm wsm dt draws ((kind, cfg_e) # tbl)
        = rolled_kinds esm wsm dt draws tbl"
      by (simp add: rolled_kinds_def)
    with skip IH [of es] kc show ?thesis by simp
  next
    case True
    then obtain ch where ch: "spawn_chance cfg_e = Some ch"
      and lt: "roll (draws kind) < ch * esm * wsm * dt"
      and ty: "spawn_type cfg_e = ''air'' \<or> spawn_type cfg_e = ''ground''"
      by (auto simp: roll_succeeds_def split: option.splits)
    from True have rk: "rolled_kinds esm wsm dt draws ((kind, cfg_e) # tbl)
        = kind # rolled_kinds esm wsm dt draws tbl"
      by (simp add: rolled_kinds_def)
    show ?thesis
    proof (cases "spawn_type cfg_e = ''air''")
      case True
      from spawn_air_enemy_Some [OF known] obtain e where
        e: "spawn_air_enemy c kind spr (screen_w scr) (screen_h scr) (esm * wsm)
              (scale_factor scr) (dx (draws kind)) (dy (draws kind)) = Some e"
        by blast
      then have k: "e_kind e = kind" by (rule spawn_air_enemy_kind)
      have "spawn_roll_loop c esm wsm dt spr scr draws ((kind, cfg_e) # tbl) es
          = spawn_roll_loop c esm wsm dt spr scr draws tbl (es @ [e])"
        using True ch lt e by simp
      with IH [of "es @ [e]"] rk k kc show ?thesis by simp
    next
      case False
      with ty have g: "spawn_type cfg_e = ''ground''" by simp
      from spawn_ground_enemy_Some [OF known] obtain e where
        e: "spawn_ground_enemy c kind spr (screen_w scr) (screen_h scr)
              (scale_factor scr) (dx (draws kind)) = Some e"
        by blast
      then have k: "e_kind e = kind" by (rule spawn_ground_enemy_kind)
      have "spawn_roll_loop c esm wsm dt spr scr draws ((kind, cfg_e) # tbl) es
          = spawn_roll_loop c esm wsm dt spr scr draws tbl (es @ [e])"
        using False g ch lt e by simp
      with IH [of "es @ [e]"] rk k kc show ?thesis by simp
    qed
  qed
qed

lemma rolled_kinds_zero_chance:
  assumes "\<forall>kc \<in> set tbl. fst kc = k \<longrightarrow> spawn_chance (snd kc) = Some 0"
    and "0 \<le> roll (draws k)"
  shows "k \<notin> set (rolled_kinds esm wsm dt draws tbl)"
  using assms by (auto simp: rolled_kinds_def roll_succeeds_def)

text \<open>
  C8 (as stated): a kind that is disabled at the current level by the per-level
  enablement config is never spawned by the per-frame roll. At level 1 the enabled
  kinds of the shipped tables are just the walker, yet the roll of a frame at level 1
  (forest world, every multiplier 1.0, 60 frames per second), with every draw at its
  lowest, spawns a flyer and a jumper.
\<close>

theorem C8_disabled_kind_spawned_counterexample:
  "get_enabled_enemy_kinds shipped_config 1 = [''walker'']
   \<and> spawn_enemies shipped_config 1 1 (1 / 60) no_sprites example_screen lowest_draws []
     = Inr [\<lparr>e_kind = ''flyer'', e_rect = Rect 1970 300 48 48, e_vx = - 180, e_vy = 0,
              e_t = 0, e_state = ''fly'', e_base_y = 324, jump_cooldown = None,
              e_remove = False\<rparr>,
            \<lparr>e_kind = ''jumper'', e_rect = Rect 1970 1032 48 48, e_vx = - 160, e_vy = 0,
              e_t = 0, e_state = ''run'', e_base_y = 1056, jump_cooldown = Some 0,
              e_remove = False\<rparr>]"
proof -
  have "get_enabled_enemy_kinds shipped_config 1 = [''walker'']"
    by (simp add: get_enabled_enemy_kinds_def in_enemy_config_def shipped_config_def
        shipped_ENEMY_CONFIG_def)
  moreover have "spawn_enemies shipped_config 1 1 (1 / 60) no_sprites example_screen lowest_draws []
     = Inr [\<lparr>e_kind = ''flyer'', e_rect = Rect 1970 300 48 48, e_vx = - 180, e_vy = 0,
              e_t = 0, e_state = ''fly'', e_base_y = 324, jump_cooldown = None,
              e_remove = False\<rparr>,
            \<lparr>e_kind = ''jumper'', e_rect = Rect 1970 1032 48 48, e_vx = - 160, e_vy = 0,
              e_t = 0, e_state = ''run'', e_base_y = 1056, jump_cooldown = Some 0,
              e_remove = False\<rparr>]"
    by (simp add: spawn_enemies_def spawn_air_enemy_def spawn_ground_enemy_def
        make_enemy_rect_def no_sprites_def lowest_draws_def example_screen_def
        shipped_config_def shipped_ENEMY_CONFIG_def py_int_def Rect_def centery_def Let_def)
  ultimately show ?thesis by blast
qed

text \<open>
  C8 (amended): the ground/air spawn evaluation of a frame rolls every kind of
  \<open>ENEMY_CONFIG\<close> whose spawn type is air or ground, at every level: it takes no level
  and does not consult the per-level enablement config. The enemies it appends are, in
  table order, exactly those kinds whose draw is below \<open>spawn_chance * enemy_spawn_mult
  * world_enemy_spawn_mult * dt_scaled\<close>; a kind whose \<open>spawn_chance\<close> is 0 (brute and
  swift in the shipped table) is never spawned by the roll.
\<close>

theorem C8_spawn_roll_amended:
  assumes "\<forall>kc \<in> set (ENEMY_CONFIG c).
             (spawn_type (snd kc) = ''air'' \<or> spawn_type (snd kc) = ''ground'')
               \<longrightarrow> spawn_chance (snd kc) \<noteq> None"
  shows "(\<exists>es'. spawn_enemies c esm wsm dt spr scr draws es = Inr es'
            \<and> map e_kind es' = map e_kind es @ rolled_kinds esm wsm dt draws (ENEMY_CONFIG c))
       \<and> ((\<forall>kc \<in> set (ENEMY_CONFIG c). fst kc = k \<longrightarrow> spawn_chance (snd kc) = Some 0)
             \<and> 0 \<le> roll (draws k)
           \<longrightarrow> k \<notin> set (rolled_kinds esm wsm dt draws (ENEMY_CONFIG c)))"
proof (intro conjI impI)
  have "\<forall>kc \<in> set (ENEMY_CONFIG c). map_of (ENEMY_CONFIG c) (fst kc) \<noteq> None"
    by (auto simp: map_of_eq_None_iff)
  with assms have "\<forall>kc \<in> set (ENEMY_CONFIG c). map_of (ENEMY_CONFIG c) (fst kc) \<noteq> None
             \<and> ((spawn_type (snd kc) = ''air'' \<or> spawn_type (snd kc) = ''ground'')
                  \<longrightarrow> spawn_chance (snd kc) \<noteq> None)"
    by blast
  from spawn_roll_loop_kinds [OF this]
  show "\<exists>es'. spawn_enemies c esm wsm dt spr scr draws es = Inr es'
            \<and> map e_kind es' = map e_kind es @ rolled_kinds esm wsm dt draws (ENEMY_CONFIG c)"
    by (simp add: spawn_enemies_def)
next
  assume "(\<forall>kc \<in> set (ENEMY_CONFIG c). fst kc = k \<longrightarrow> spawn_chance (snd kc) = Some 0)
             \<and> 0 \<le> roll (draws k)"
  then show "k \<notin> set (rolled_kinds esm wsm dt draws (ENEMY_CONFIG c))"
    by (intro rolled_kinds_zero_chance) simp_all
qed

text \<open>The theorem at the shipped tables and the frame of the counterexample.\<close>

theorem C8_spawn_roll_amended_witness:
  "rolled_kinds 1 1 (1 / 60) lowest_draws (ENEMY_CONFIG shipped_config) = [''flyer'', ''jumper'']
   \<and> (\<exists>es'. spawn_enemies shipped_config 1 1 (1 / 60) no_sprites example_screen lowest_draws []
              = Inr es'
           \<and> map e_kind es' = [''flyer'', ''jumper''])
   \<and> ''brute'' \<notin> set (rolled_kinds 1 1 (1 / 60) lowest_draws (ENEMY_CONFIG shipped_config))"
proof -
  have h: "\<forall>kc \<in> set (ENEMY_CONFIG shipped_config).
             (spawn_type (snd kc) = ''air'' \<or> spawn_type (snd kc) = ''ground'')
               \<longrightarrow> spawn_chance (snd kc) \<noteq> None"
    by (simp add: shipped_config_def shipped_ENEMY_CONFIG_def del: not_None_eq)
  have z: "\<forall>kc \<in> set (ENEMY_CONFIG shipped_config).
             fst kc = ''brute'' \<longrightarrow> spawn_chance (snd kc) = Some 0"
    by (simp add: shipped_config_def shipped_ENEMY_CONFIG_def)
  have r: "0 \<le> roll (lowest_draws ''brute'')" by (simp add: lowest_draws_def)
  have rk: "rolled_kinds 1 1 (1 / 60) lowest_draws (ENEMY_CONFIG shipped_config)
      = [''flyer'', ''jumper'']"
    by (simp add: rolled_kinds_def roll_succeeds_def lowest_draws_def shipped_config_def
        shipped_ENEMY_CONFIG_def)
  from C8_spawn_roll_amended [OF h, where esm = 1 and wsm = 1 and dt = "1 / 60"
      and spr = no_sprites and scr = example_screen and draws = lowest_draws and es = "[]"
      and k = "''brute''"] z r
  have "(\<exists>es'. spawn_enemies shipped_config 1 1 (1 / 60) no_sprites example_screen lowest_draws []
              = Inr es'
           \<and> map e_kind es' = rolled_kinds 1 1 (1 / 60) lowest_draws (ENEMY_CONFIG shipped_config))"
    and "''brute'' \<notin> set (rolled_kinds 1 1 (1 / 60) lowest_draws (ENEMY_CONFIG shipped_config))"
    by simp_all
  with rk show ?thesis by simp
qed

section \<open>Custom levels: results\<close>

lemma and_then_Inr [simp]: "and_then (Inr a) f = f a"
  by (simp add: and_then_def)

lemma and_then_Inl [simp]: "and_then (Inl err) f = Inl err"
  by (simp add: and_then_def)

lemma and_then_eq_Inr:
  "and_then m f = Inr b \<longleftrightarrow> (\<exists>a. m = Inr a \<and> f a = Inr b)"
  by (cases m) simp_all

lemma c_int_small: "- 2147483648 \<le> n \<Longrightarrow> n < 2147483648 \<Longrightarrow> c_int n = n"
  by (simp add: c_int_def)

lemma pg_int_small: "- 2147483648 \<le> n \<Longrightarrow> n < 2147483648 \<Longrightarrow> pg_int n = Some n"
  by (simp add: pg_int_def c_int_small)

lemma placeable_json_int:
  "placeable v \<Longrightarrow> json_int v = Inr (placed v)
     \<and> - 1073741824 \<le> placed v \<and> placed v < 1073741824"
  by (auto simp: placeable_def json_int_def placed_def split: option.splits jnum.splits)

lemma custom_platform_ok:
  assumes "platform_ok p"
  shows "\<exists>q. custom_platform depth p = Inr q \<and> platform_box q = placed_box p"
proof -
  from assms have x: "json_int (pe_x p) = Inr (placed (pe_x p))"
      "- 1073741824 \<le> placed (pe_x p)" "placed (pe_x p) < 1073741824"
    and y: "json_int (pe_y p) = Inr (placed (pe_y p))"
      "- 1073741824 \<le> placed (pe_y p)" "placed (pe_y p) < 1073741824"
    and w: "json_int (pe_w p) = Inr (placed (pe_w p))"
      "- 1073741824 \<le> placed (pe_w p)" "placed (pe_w p) < 1073741824"
    and h: "json_int (pe_h p) = Inr (placed (pe_h p))"
      "- 1073741824 \<le> placed (pe_h p)" "placed (pe_h p) < 1073741824"
    using placeable_json_int by (simp_all add: platform_ok_def)
  have "pg_Rect (placed (pe_x p)) (placed (pe_y p)) (placed (pe_w p)) (placed (pe_h p))
      = Inr \<lparr>rx = placed (pe_x p), ry = placed (pe_y p), rw = placed (pe_w p),
             rh = placed (pe_h p)\<rparr>"
    using x y w h by (simp add: pg_Rect_def pg_int_small)
  then show ?thesis
    using x(1) y(1) w(1) h(1) by (simp add: custom_platform_def platform_box_def placed_box_def)
qed

lemma custom_platforms_ok:
  "list_all platform_ok ps
     \<Longrightarrow> \<exists>qs. custom_platforms depths i ps = Inr qs \<and> map platform_box qs = map placed_box ps"
proof (induction ps arbitrary: i)
  case Nil
  show ?case by simp
next
  case (Cons p ps)
  from Cons.prems have "platform_ok p" and rest: "list_all platform_ok ps" by simp_all
  from custom_platform_ok [OF this(1)] obtain q where
    q: "custom_platform (depths i) p = Inr q" "platform_box q = placed_box p" by blast
  from Cons.IH [OF rest] obtain qs where
    qs: "custom_platforms depths (Suc i) ps = Inr qs" "map platform_box qs = map placed_box ps"
    by blast
  from q qs show ?case by simp
qed

lemma centred_rect:
  assumes "size_ok sz" "placeable vx" "placeable vy"
  shows "\<exists>r. and_then (pg_Rect 0 0 (fst sz) (snd sz)) (\<lambda>r0.
              and_then (json_int vx) (\<lambda>x.
              and_then (json_int vy) (\<lambda>y. pg_set_center r0 (x, y)))) = Inr r
           \<and> center r = (placed vx, placed vy) \<and> size_of r = sz
           \<and> pg_centery r = centery r"
proof -
  from assms(1) have s: "0 \<le> fst sz" "fst sz < 1073741824" "0 \<le> snd sz" "snd sz < 1073741824"
    by (simp_all add: size_ok_def)
  from placeable_json_int [OF assms(2)] have x: "json_int vx = Inr (placed vx)"
    "- 1073741824 \<le> placed vx" "placed vx < 1073741824" by simp_all
  from placeable_json_int [OF assms(3)] have y: "json_int vy = Inr (placed vy)"
    "- 1073741824 \<le> placed vy" "placed vy < 1073741824" by simp_all
  let ?base = "\<lparr>rx = 0, ry = 0, rw = fst sz, rh = snd sz\<rparr>"
  have r0: "pg_Rect 0 0 (fst sz) (snd sz) = Inr ?base"
    using s by (simp add: pg_Rect_def pg_int_small)
  have hx: "0 \<le> fst sz div 2" "fst sz div 2 < 1073741824"
    and hy: "0 \<le> snd sz div 2" "snd sz div 2 < 1073741824"
    using s by simp_all
  have cx: "c_int (placed vx - fst sz div 2) = placed vx - fst sz div 2"
    using x hx by (intro c_int_small) simp_all
  have cy: "c_int (placed vy - snd sz div 2) = placed vy - snd sz div 2"
    using y hy by (intro c_int_small) simp_all
  let ?r = "?base\<lparr>rx := placed vx - fst sz div 2, ry := placed vy - snd sz div 2\<rparr>"
  have sc: "pg_set_center ?base (placed vx, placed vy) = Inr ?r"
    using x y by (simp add: pg_set_center_def pg_int_small cx cy)
  have "pg_centery ?r = centery ?r"
    using y by (simp add: pg_centery_def centery_def c_int_small)
  moreover have "center ?r = (placed vx, placed vy)"
    by (simp add: center_def centerx_def centery_def)
  moreover have "size_of ?r = sz" by (simp add: size_of_def)
  ultimately show ?thesis using r0 x(1) y(1) sc by simp
qed

lemma custom_coin_ok:
  assumes "size_ok sz" "coin_ok c"
  shows "\<exists>r. custom_coin sz c = Inr r \<and> center r = placed_coin c \<and> size_of r = sz"
  using centred_rect [OF assms(1), of "ce_x c" "ce_y c"] assms(2)
  by (auto simp: custom_coin_def coin_ok_def placed_coin_def)

lemma custom_coins_ok:
  "size_ok sz \<Longrightarrow> list_all coin_ok cs
     \<Longrightarrow> \<exists>rs. custom_coins sz cs = Inr rs \<and> map center rs = map placed_coin cs
            \<and> map size_of rs = replicate (length cs) sz"
proof (induction cs)
  case Nil
  show ?case by simp
next
  case (Cons c cs)
  from Cons.prems have "coin_ok c" and rest: "list_all coin_ok cs" by simp_all
  from custom_coin_ok [OF Cons.prems(1) this(1)] obtain r where
    r: "custom_coin sz c = Inr r" "center r = placed_coin c" "size_of r = sz" by blast
  from Cons.IH [OF Cons.prems(1) rest] obtain rs where
    rs: "custom_coins sz cs = Inr rs" "map center rs = map placed_coin cs"
      "map size_of rs = replicate (length cs) sz" by blast
  from r rs show ?case by simp
qed

lemma custom_enemy_ok:
  assumes "enemy_ok spr sf e"
  shows "\<exists>q. custom_enemy spr sf e = Inr q \<and> center (e_rect q) = placed_enemy e
           \<and> e_kind q = entry_kind e
           \<and> size_of (e_rect q) = enemy_size spr sf (entry_kind e)
           \<and> e_base_y q = real_of_int (centery (e_rect q))"
proof -
  from assms have sz: "size_ok (enemy_size spr sf (entry_kind e))"
    and px: "placeable (ee_x e)" and py: "placeable (ee_y e)"
    by (simp_all add: enemy_ok_def)
  from centred_rect [OF sz px py] obtain r where
    r: "and_then (pg_Rect 0 0 (fst (enemy_size spr sf (entry_kind e)))
                    (snd (enemy_size spr sf (entry_kind e)))) (\<lambda>r0.
              and_then (json_int (ee_x e)) (\<lambda>x.
              and_then (json_int (ee_y e)) (\<lambda>y. pg_set_center r0 (x, y)))) = Inr r"
    and c: "center r = (placed (ee_x e), placed (ee_y e))"
    and s: "size_of r = enemy_size spr sf (entry_kind e)"
    and b: "pg_centery r = centery r"
    by blast
  from r obtain r0 x y where
    "pg_Rect 0 0 (fst (enemy_size spr sf (entry_kind e)))
        (snd (enemy_size spr sf (entry_kind e))) = Inr r0"
    "json_int (ee_x e) = Inr x" "json_int (ee_y e) = Inr y" "pg_set_center r0 (x, y) = Inr r"
    by (auto simp: and_then_eq_Inr)
  then have "custom_enemy spr sf e
      = Inr \<lparr>e_kind = entry_kind e, e_rect = r, e_vx = 0, e_vy = 0, e_t = 0,
             e_state = ''idle'', e_base_y = real_of_int (pg_centery r),
             jump_cooldown = None, e_remove = False\<rparr>"
    by (simp add: custom_enemy_def Let_def)
  with c s b show ?thesis by (simp add: placed_enemy_def)
qed

lemma custom_enemies_ok:
  "list_all (enemy_ok spr sf) es
     \<Longrightarrow> \<exists>qs. custom_enemies spr sf es = Inr qs
            \<and> map center (map e_rect qs) = map placed_enemy es
            \<and> map size_of (map e_rect qs) = map (enemy_size spr sf) (map entry_kind es)"
proof (induction es)
  case Nil
  show ?case by simp
next
  case (Cons e es)
  from Cons.prems have "enemy_ok spr sf e" and rest: "list_all (enemy_ok spr sf) es"
    by simp_all
  from custom_enemy_ok [OF this(1)] obtain q where
    q: "custom_enemy spr sf e = Inr q" "center (e_rect q) = placed_enemy e"
      "size_of (e_rect q) = enemy_size spr sf (entry_kind e)" by blast
  from Cons.IH [OF rest] obtain qs where
    qs: "custom_enemies spr sf es = Inr qs"
      "map center (map e_rect qs) = map placed_enemy es"
      "map size_of (map e_rect qs) = map (enemy_size spr sf) (map entry_kind es)" by blast
  from q qs show ?case by simp
qed

text \<open>
  The model at inputs outside that range: a platform at \<open>x = 3000000000\<close> is stored at
  \<open>-1294967296\<close>; an absent \<open>"x"\<close> raises KeyError, \<open>null\<close> TypeError, \<open>NaN\<close> ValueError and
  an infinity OverflowError.
\<close>

lemma custom_platform_wraps:
  "map_sum id platform_box
     (custom_platform (1 / 2) \<lparr>pe_x = Some (JNum 3000000000), pe_y = Some (JNum 700),
        pe_w = Some (JNum 200), pe_h = Some (JNum 24), pe_type = None\<rparr>)
     = Inr (- 1294967296, 700, 200, 24)"
  by (simp add: custom_platform_def json_int_def pg_Rect_def pg_int_def c_int_def py_int_def
      platform_box_def)

lemma custom_platform_raises:
  "custom_platform (1 / 2) \<lparr>pe_x = None, pe_y = Some (JNum 700),
        pe_w = Some (JNum 200), pe_h = Some (JNum 24), pe_type = None\<rparr> = Inl KeyError"
  "custom_platform (1 / 2) \<lparr>pe_x = Some JNull, pe_y = Some (JNum 700),
        pe_w = Some (JNum 200), pe_h = Some (JNum 24), pe_type = None\<rparr> = Inl TypeError"
  "custom_platform (1 / 2) \<lparr>pe_x = Some JNaN, pe_y = Some (JNum 700),
        pe_w = Some (JNum 200), pe_h = Some (JNum 24), pe_type = None\<rparr> = Inl ValueError"
  "custom_platform (1 / 2) \<lparr>pe_x = Some JInf, pe_y = Some (JNum 700),
        pe_w = Some (JNum 200), pe_h = Some (JNum 24), pe_type = None\<rparr> = Inl OverflowError"
  by (simp_all add: custom_platform_def json_int_def)

text \<open>
  C9: a custom level with 3 platforms, 2 coins and 1 enemy whose placement numbers
  are present, finite and of magnitude below \<open>2^30\<close> (with sizes in that range too),
  applied to a freshly reset run state, is applied without error and gives exactly 3,
  2 and 1 entries in the platforms, coins and enemies collections; each platform has
  the placed corner and size, each coin and enemy has its centre at the placed point
  (the coordinates after \<open>int(...)\<close>, which leaves the integer coordinates the editor
  writes as they are); the coins have the size of the coin image, or are squares of
  side \<open>int(32 * scale_factor)\<close> without one, an enemy has the size of its sprite, or is
  a square of side \<open>int(48 * scale_factor)\<close> without one; the rest of the run state is
  untouched.
\<close>

theorem C9_custom_level_roundtrip:
  assumes "length (ld_platforms d) = 3" "length (ld_coins d) = 2" "length (ld_enemies d) = 1"
    and "list_all platform_ok (ld_platforms d)"
    and "size_ok (coin_size coin_img sf)" "list_all coin_ok (ld_coins d)"
    and "list_all (enemy_ok spr sf) (ld_enemies d)"
  shows "\<exists>ws'. apply_custom_level_to_state d coin_img spr sf depths (reset_wstate r mh) = Inr ws'
       \<and> length (ws_platforms ws') = 3 \<and> length (ws_coins ws') = 2
       \<and> length (ws_enemies ws') = 1
       \<and> map platform_box (ws_platforms ws') = map placed_box (ld_platforms d)
       \<and> map center (ws_coins ws') = map placed_coin (ld_coins d)
       \<and> map center (map e_rect (ws_enemies ws')) = map placed_enemy (ld_enemies d)
       \<and> map size_of (ws_coins ws') = replicate 2 (coin_size coin_img sf)
       \<and> map size_of (map e_rect (ws_enemies ws'))
           = map (enemy_size spr sf) (map entry_kind (ld_enemies d))
       \<and> coin_size None sf = (py_int (32 * sf), py_int (32 * sf))
       \<and> (spr k = None \<longrightarrow> enemy_size spr sf k = (py_int (48 * sf), py_int (48 * sf)))
       \<and> ws_vars ws' = reset_state r mh
       \<and> ws_progress ws' = reset_progress"
proof -
  from custom_platforms_ok [OF assms(4)] obtain plats where
    p: "custom_platforms depths 0 (ld_platforms d) = Inr plats"
      "map platform_box plats = map placed_box (ld_platforms d)" by blast
  from custom_coins_ok [OF assms(5,6)] obtain coins where
    c: "custom_coins (coin_size coin_img sf) (ld_coins d) = Inr coins"
      "map center coins = map placed_coin (ld_coins d)"
      "map size_of coins = replicate (length (ld_coins d)) (coin_size coin_img sf)" by blast
  from custom_enemies_ok [OF assms(7)] obtain enemies where
    e: "custom_enemies spr sf (ld_enemies d) = Inr enemies"
      "map center (map e_rect enemies) = map placed_enemy (ld_enemies d)"
      "map size_of (map e_rect enemies) = map (enemy_size spr sf) (map entry_kind (ld_enemies d))"
    by blast
  have lp: "length plats = 3" using p(2) assms(1) by (metis length_map)
  have lc: "length coins = 2" using c(2) assms(2) by (metis length_map)
  have le: "length enemies = 1" using e(2) assms(3) by (metis length_map)
  have fb: "coin_size None sf = (py_int (32 * sf), py_int (32 * sf))"
    "spr k = None \<longrightarrow> enemy_size spr sf k = (py_int (48 * sf), py_int (48 * sf))"
    by (simp_all add: coin_size_def enemy_size_def Let_def)
  let ?ws = "(reset_wstate r mh)\<lparr>ws_platforms := plats, ws_coins := coins, ws_enemies := enemies\<rparr>"
  have "apply_custom_level_to_state d coin_img spr sf depths (reset_wstate r mh) = Inr ?ws"
    by (simp add: apply_custom_level_to_state_def p(1) c(1) e(1))
  moreover have "ws_vars ?ws = reset_state r mh" "ws_progress ?ws = reset_progress"
    by (simp_all add: reset_wstate_def)
  moreover have "ws_platforms ?ws = plats" "ws_coins ?ws = coins" "ws_enemies ?ws = enemies"
    by simp_all
  moreover have "map size_of coins = replicate 2 (coin_size coin_img sf)"
    using c(3) assms(2) by simp
  ultimately show ?thesis
    using p(2) c(2) e(2,3) lp lc le fb by (intro exI [of _ ?ws]) (simp only: simp_thms)
qed

text \<open>The theorem at the example level, with no coin image and no enemy sprite, at
  scale 1.\<close>

theorem C9_custom_level_roundtrip_witness:
  "length (ld_platforms example_level) = 3 \<and> length (ld_coins example_level) = 2
   \<and> length (ld_enemies example_level) = 1
   \<and> list_all platform_ok (ld_platforms example_level)
   \<and> size_ok (coin_size None 1) \<and> list_all coin_ok (ld_coins example_level)
   \<and> list_all (enemy_ok no_sprites 1) (ld_enemies example_level)
   \<and> (\<exists>ws'. apply_custom_level_to_state example_level None no_sprites 1 middle_depths
               (reset_wstate start_rect 3) = Inr ws'
        \<and> map platform_box (ws_platforms ws')
            = [(300, 700, 200, 24), (640, 560, 180, 24), (980, 480, 220, 24)]
        \<and> map center (ws_coins ws') = [(400, 660), (731, 517)]
        \<and> map center (map e_rect (ws_enemies ws')) = [(1090, 455)]
        \<and> map size_of (ws_coins ws') = [(32, 32), (32, 32)]
        \<and> map size_of (map e_rect (ws_enemies ws')) = [(48, 48)]
        \<and> ws_vars ws' = reset_state start_rect 3)"
proof -
  have len: "length (ld_platforms example_level) = 3" "length (ld_coins example_level) = 2"
    "length (ld_enemies example_level) = 1"
    by (simp_all add: example_level_def)
  have ok: "list_all platform_ok (ld_platforms example_level)"
    "size_ok (coin_size None 1)" "list_all coin_ok (ld_coins example_level)"
    "list_all (enemy_ok no_sprites 1) (ld_enemies example_level)"
    by (simp_all add: example_level_def platform_ok_def coin_ok_def enemy_ok_def
        placeable_def size_ok_def coin_size_def enemy_size_def entry_kind_def no_sprites_def
        py_int_def Let_def)
  have pl: "map placed_box (ld_platforms example_level)
      = [(300, 700, 200, 24), (640, 560, 180, 24), (980, 480, 220, 24)]"
    "map placed_coin (ld_coins example_level) = [(400, 660), (731, 517)]"
    "map placed_enemy (ld_enemies example_level) = [(1090, 455)]"
    by (simp_all add: example_level_def placed_box_def placed_coin_def placed_enemy_def
        placed_def py_int_def)
  have sz: "replicate 2 (coin_size None 1) = [(32, 32), (32, 32)]"
    "map (enemy_size no_sprites 1) (map entry_kind (ld_enemies example_level)) = [(48, 48)]"
    by (simp_all add: coin_size_def enemy_size_def entry_kind_def no_sprites_def
        example_level_def py_int_def numeral_2_eq_2 Let_def)
  have "\<exists>ws'. apply_custom_level_to_state example_level None no_sprites 1 middle_depths
               (reset_wstate start_rect 3) = Inr ws'
       \<and> length (ws_platforms ws') = 3 \<and> length (ws_coins ws') = 2
       \<and> length (ws_enemies ws') = 1
       \<and> map platform_box (ws_platforms ws') = map placed_box (ld_platforms example_level)
       \<and> map center (ws_coins ws') = map placed_coin (ld_coins example_level)
       \<and> map center (map e_rect (ws_enemies ws')) = map placed_enemy (ld_enemies example_level)
       \<and> map size_of (ws_coins ws') = replicate 2 (coin_size None 1)
       \<and> map size_of (map e_rect (ws_enemies ws'))
           = map (enemy_size no_sprites 1) (map entry_kind (ld_enemies example_level))
       \<and> coin_size None 1 = (py_int (32 * 1), py_int (32 * 1))
       \<and> (no_sprites ''jumper'' = None
            \<longrightarrow> enemy_size no_sprites 1 ''jumper'' = (py_int (48 * 1), py_int (48 * 1)))
       \<and> ws_vars ws' = reset_state start_rect 3
       \<and> ws_progress ws' = reset_progress"
    by (rule C9_custom_level_roundtrip [OF len ok])
  then obtain ws' where
    w1: "apply_custom_level_to_state example_level None no_sprites 1 middle_depths
               (reset_wstate start_rect 3) = Inr ws'"
    and w2: "map platform_box (ws_platforms ws') = map placed_box (ld_platforms example_level)"
    and w3: "map center (ws_coins ws') = map placed_coin (ld_coins example_level)"
    and w4: "map center (map e_rect (ws_enemies ws')) = map placed_enemy (ld_enemies example_level)"
    and w5: "map size_of (ws_coins ws') = replicate 2 (coin_size None 1)"
    and w6: "map size_of (map e_rect (ws_enemies ws'))
       = map (enemy_size no_sprites 1) (map entry_kind (ld_enemies example_level))"
    and w7: "ws_vars ws' = reset_state start_rect 3"
    by (elim exE conjE)
  have "apply_custom_level_to_state example_level None no_sprites 1 middle_depths
               (reset_wstate start_rect 3) = Inr ws'
        \<and> map platform_box (ws_platforms ws')
            = [(300, 700, 200, 24), (640, 560, 180, 24), (980, 480, 220, 24)]
        \<and> map center (ws_coins ws') = [(400, 660), (731, 517)]
        \<and> map center (map e_rect (ws_enemies ws')) = [(1090, 455)]
        \<and> map size_of (ws_coins ws') = [(32, 32), (32, 32)]
        \<and> map size_of (map e_rect (ws_enemies ws')) = [(48, 48)]
        \<and> ws_vars ws' = reset_state start_rect 3"
    unfolding w2 w3 w4 w5 w6 pl sz using w1 w7 by (intro conjI) (rule refl | assumption)+
  note body = this
  have "\<exists>ws'. apply_custom_level_to_state example_level None no_sprites 1 middle_depths
               (reset_wstate start_rect 3) = Inr ws'
        \<and> map platform_box (ws_platforms ws')
            = [(300, 700, 200, 24), (640, 560, 180, 24), (980, 480, 220, 24)]
        \<and> map center (ws_coins ws') = [(400, 660), (731, 517)]
        \<and> map center (map e_rect (ws_enemies ws')) = [(1090, 455)]
        \<and> map size_of (ws_coins ws') = [(32, 32), (32, 32)]
        \<and> map size_of (map e_rect (ws_enemies ws')) = [(48, 48)]
        \<and> ws_vars ws' = reset_state start_rect 3"
    by (rule exI [of _ ws']) (rule body)
  with len ok show ?thesis by (intro conjI)
qed

end
